theory Spec2Isabelle
  imports Main "HOL-Library.Multiset" "HOL-Library.Word"
begin

section \<open>Vocabulary corpus\<close>

text \<open>
  The application is one JavaScript class, \<^verbatim>\<open>App\<close>. This theory embeds its challenge
  generators, the hangman and letter-assembly engines and the progression controller.
  Sound, speech, animation and the HTML text itself are left out; the parts of the page
  that the code reads back (letter tiles, answer slots, disabled buttons, the hint line)
  are kept as fields of the state.

  Persian text cannot be written in this file's character set. A Persian string of the
  source is written as the sequence of its UTF-16 code units, four hexadecimal digits
  each, separated by blanks (\<^verbatim>\<open>0633 06AF\<close> is the two-letter word for "dog"). The code
  only compares, stores and displays these strings, and two of them are equal exactly
  when their code units are.
\<close>

datatype vocab = V (en: string) (fa: string)

datatype hangmanItem = H (word: string) (hint: string)

datatype color = C (name: string) (hex: string) (colorFa: string)

datatype sentenceItem = S (swords: "string list") (sfa: string)

datatype grammarItem =
  GI (gwords: "string list") (wrongIdx: nat) (gcorrect: string) (goptions: "string list")

definition lib_animals :: "vocab list" where
  "lib_animals =
    [V ''Cat'' ''06AF 0631 0628 0647'',
     V ''Dog'' ''0633 06AF'',
     V ''Lion'' ''0634 06CC 0631'',
     V ''Elephant'' ''0641 06CC 0644'',
     V ''Tiger'' ''0628 0628 0631'',
     V ''Rabbit'' ''062E 0631 06AF 0648 0634'',
     V ''Giraffe'' ''0632 0631 0627 0641 0647'',
     V ''Monkey'' ''0645 06CC 0645 0648 0646'',
     V ''Snake'' ''0645 0627 0631'',
     V ''Zebra'' ''06AF 0648 0631 062E 0631'',
     V ''Panda'' ''067E 0627 0646 062F 0627'',
     V ''Wolf'' ''06AF 0631 06AF'',
     V ''Fox'' ''0631 0648 0628 0627 0647'',
     V ''Bear'' ''062E 0631 0633'',
     V ''Eagle'' ''0639 0642 0627 0628'',
     V ''Dolphin'' ''062F 0644 0641 06CC 0646'',
     V ''Shark'' ''06A9 0648 0633 0647'',
     V ''Ant'' ''0645 0648 0631 0686 0647'',
     V ''Bee'' ''0632 0646 0628 0648 0631'',
     V ''Spider'' ''0639 0646 06A9 0628 0648 062A'',
     V ''Horse'' ''0627 0633 0628'',
     V ''Cow'' ''06AF 0627 0648'',
     V ''Sheep'' ''06AF 0648 0633 0641 0646 062F'',
     V ''Chicken'' ''0645 0631 063A'',
     V ''Duck'' ''0627 0631 062F 06A9'',
     V ''Frog'' ''0642 0648 0631 0628 0627 063A 0647'',
     V ''Turtle'' ''0644 0627 06A9 200C 067E 0634 062A'',
     V ''Fish'' ''0645 0627 0647 06CC'',
     V ''Whale'' ''0648 0627 0644'',
     V ''Octopus'' ''0627 062E 062A 0627 067E 0648 0633'',
     V ''Butterfly'' ''067E 0631 0648 0627 0646 0647'',
     V ''Bird'' ''067E 0631 0646 062F 0647'',
     V ''Parrot'' ''0637 0648 0637 06CC'',
     V ''Mouse'' ''0645 0648 0634'',
     V ''Camel'' ''0634 062A 0631'',
     V ''Donkey'' ''0627 0644 0627 063A'',
     V ''Deer'' ''0622 0647 0648'',
     V ''Goat'' ''0628 0632'',
     V ''Owl'' ''062C 063A 062F'',
     V ''Kangaroo'' ''06A9 0627 0646 06AF 0648 0631 0648'']"

definition lib_jobs :: "vocab list" where
  "lib_jobs =
    [V ''Doctor'' ''062F 06A9 062A 0631'',
     V ''Teacher'' ''0645 0639 0644 0645'',
     V ''Engineer'' ''0645 0647 0646 062F 0633'',
     V ''Pilot'' ''062E 0644 0628 0627 0646'',
     V ''Chef'' ''0622 0634 067E 0632'',
     V ''Farmer'' ''06A9 0634 0627 0648 0631 0632'',
     V ''Driver'' ''0631 0627 0646 0646 062F 0647'',
     V ''Singer'' ''062E 0648 0627 0646 0646 062F 0647'',
     V ''Lawyer'' ''0648 06A9 06CC 0644'',
     V ''Artist'' ''0647 0646 0631 0645 0646 062F'',
     V ''Nurse'' ''067E 0631 0633 062A 0627 0631'',
     V ''Police'' ''067E 0644 06CC 0633'',
     V ''Dentist'' ''062F 0646 062F 0627 0646 067E 0632 0634 06A9'',
     V ''Baker'' ''0646 0627 0646 0648 0627'',
     V ''Writer'' ''0646 0648 06CC 0633 0646 062F 0647'',
     V ''Actor'' ''0628 0627 0632 06CC 06AF 0631'',
     V ''Soldier'' ''0633 0631 0628 0627 0632'',
     V ''Scientist'' ''062F 0627 0646 0634 0645 0646 062F'',
     V ''Architect'' ''0645 0639 0645 0627 0631'',
     V ''Mechanic'' ''0645 06A9 0627 0646 06CC 06A9'',
     V ''Electrician'' ''0628 0631 0642 200C 06A9 0627 0631'',
     V ''Plumber'' ''0644 0648 0644 0647 200C 06A9 0634'',
     V ''Gardener'' ''0628 0627 063A 0628 0627 0646'',
     V ''Firefighter'' ''0622 062A 0634 200C 0646 0634 0627 0646'',
     V ''Photographer'' ''0639 06A9 0627 0633'',
     V ''Journalist'' ''062E 0628 0631 0646 06AF 0627 0631'',
     V ''Librarian'' ''06A9 062A 0627 0628 062F 0627 0631'',
     V ''Coach'' ''0645 0631 0628 06CC'']"

definition lib_family :: "vocab list" where
  "lib_family =
    [V ''Father'' ''067E 062F 0631'',
     V ''Mother'' ''0645 0627 062F 0631'',
     V ''Brother'' ''0628 0631 0627 062F 0631'',
     V ''Sister'' ''062E 0648 0627 0647 0631'',
     V ''Grandfather'' ''067E 062F 0631 0628 0632 0631 06AF'',
     V ''Grandmother'' ''0645 0627 062F 0631 0628 0632 0631 06AF'',
     V ''Uncle'' ''0639 0645 0648 002F 062F 0627 06CC 06CC'',
     V ''Aunt'' ''0639 0645 0647 002F 062E 0627 0644 0647'',
     V ''Cousin'' ''067E 0633 0631 0639 0645 0648 002F 062F 062E 062A 0631 062E 0627 0644 0647'',
     V ''Son'' ''067E 0633 0631'',
     V ''Daughter'' ''062F 062E 062A 0631'',
     V ''Baby'' ''0646 0648 0632 0627 062F'',
     V ''Wife'' ''0632 0646 0020 0028 0647 0645 0633 0631 0029'',
     V ''Husband'' ''0634 0648 0647 0631 0020 0028 0647 0645 0633 0631 0029'',
     V ''Parents'' ''0648 0627 0644 062F 06CC 0646'',
     V ''Children'' ''0628 0686 0647 200C 0647 0627'',
     V ''Grandson'' ''0646 0648 0647 0020 067E 0633 0631 06CC'',
     V ''Granddaughter'' ''0646 0648 0647 0020 062F 062E 062A 0631 06CC'',
     V ''Nephew'' ''0628 0631 0627 062F 0631 0632 0627 062F 0647 002F 062E 0648 0627 0647 0631 0632 0627 062F 0647'',
     V ''Niece'' ''0628 0631 0627 062F 0631 0632 0627 062F 0647 002F 062E 0648 0627 0647 0631 0632 0627 062F 0647'',
     V ''Grandparents'' ''067E 062F 0631 0628 0632 0631 06AF 0020 0648 0020 0645 0627 062F 0631 0628 0632 0631 06AF'',
     V ''Stepfather'' ''0646 0627 067E 062F 0631 06CC'',
     V ''Stepmother'' ''0646 0627 0645 0627 062F 0631 06CC'',
     V ''Father-in-law'' ''067E 062F 0631 0632 0646 002F 067E 062F 0631 0634 0648 0647 0631'',
     V ''Mother-in-law'' ''0645 0627 062F 0631 0632 0646 002F 0645 0627 062F 0631 0634 0648 0647 0631'']"

definition lib_places :: "vocab list" where
  "lib_places =
    [V ''Hospital'' ''0628 06CC 0645 0627 0631 0633 062A 0627 0646'',
     V ''School'' ''0645 062F 0631 0633 0647'',
     V ''Park'' ''067E 0627 0631 06A9'',
     V ''Restaurant'' ''0631 0633 062A 0648 0631 0627 0646'',
     V ''Airport'' ''0641 0631 0648 062F 06AF 0627 0647'',
     V ''Bank'' ''0628 0627 0646 06A9'',
     V ''Library'' ''06A9 062A 0627 0628 062E 0627 0646 0647'',
     V ''Supermarket'' ''0633 0648 067E 0631 0645 0627 0631 06A9 062A'',
     V ''Cinema'' ''0633 06CC 0646 0645 0627'',
     V ''Museum'' ''0645 0648 0632 0647'',
     V ''Gym'' ''0628 0627 0634 06AF 0627 0647'',
     V ''Pharmacy'' ''062F 0627 0631 0648 062E 0627 0646 0647'',
     V ''Bakery'' ''0646 0627 0646 0648 0627 06CC 06CC'',
     V ''Coffee shop'' ''06A9 0627 0641 06CC 200C 0634 0627 067E'',
     V ''Police station'' ''0627 06CC 0633 062A 06AF 0627 0647 0020 067E 0644 06CC 0633'',
     V ''Hotel'' ''0647 062A 0644'',
     V ''Gas station'' ''067E 0645 067E 0020 0628 0646 0632 06CC 0646'',
     V ''Beach'' ''0633 0627 062D 0644'',
     V ''Stadium'' ''0627 0633 062A 0627 062F 06CC 0648 0645'',
     V ''University'' ''062F 0627 0646 0634 06AF 0627 0647'',
     V ''Zoo'' ''0628 0627 063A 0020 0648 062D 0634'',
     V ''Theater'' ''062A 0626 0627 062A 0631'',
     V ''Post office'' ''0627 062F 0627 0631 0647 0020 067E 0633 062A'']"

definition lib_objects :: "vocab list" where
  "lib_objects =
    [V ''Chair'' ''0635 0646 062F 0644 06CC'',
     V ''Table'' ''0645 06CC 0632'',
     V ''Pen'' ''062E 0648 062F 06A9 0627 0631'',
     V ''Phone'' ''062A 0644 0641 0646'',
     V ''Laptop'' ''0644 067E 200C 062A 0627 067E'',
     V ''Key'' ''06A9 0644 06CC 062F'',
     V ''Bottle'' ''0628 0637 0631 06CC'',
     V ''Bag'' ''06A9 06CC 0641'',
     V ''Mirror'' ''0622 06CC 0646 0647'',
     V ''Clock'' ''0633 0627 0639 062A'',
     V ''Lamp'' ''0644 0627 0645 067E'',
     V ''Window'' ''067E 0646 062C 0631 0647'',
     V ''Door'' ''062F 0631'',
     V ''Bed'' ''062A 062E 062A 0020 062E 0648 0627 0628'',
     V ''Spoon'' ''0642 0627 0634 0642'',
     V ''Fork'' ''0686 0646 06AF 0627 0644'',
     V ''Knife'' ''0686 0627 0642 0648'',
     V ''Plate'' ''0628 0634 0642 0627 0628'',
     V ''Cup'' ''0641 0646 062C 0627 0646'',
     V ''Glasses'' ''0639 06CC 0646 06A9'',
     V ''Wallet'' ''06A9 06CC 0641 0020 067E 0648 0644'',
     V ''Umbrella'' ''0686 062A 0631'',
     V ''Comb'' ''0634 0627 0646 0647'',
     V ''Towel'' ''062D 0648 0644 0647'']"

definition lib_clothes :: "vocab list" where
  "lib_clothes =
    [V ''Shirt'' ''067E 06CC 0631 0627 0647 0646'',
     V ''Pants'' ''0634 0644 0648 0627 0631'',
     V ''Dress'' ''0644 0628 0627 0633 0020 0632 0646 0627 0646 0647'',
     V ''Hat'' ''06A9 0644 0627 0647'',
     V ''Shoes'' ''06A9 0641 0634'',
     V ''Socks'' ''062C 0648 0631 0627 0628'',
     V ''Jacket'' ''06A9 0627 067E 0634 0646'',
     V ''Coat'' ''06A9 062A'',
     V ''Skirt'' ''062F 0627 0645 0646'',
     V ''Gloves'' ''062F 0633 062A 06A9 0634'',
     V ''Scarf'' ''0634 0627 0644 0020 06AF 0631 062F 0646'',
     V ''Tie'' ''06A9 0631 0627 0641 0627 062A'',
     V ''Belt'' ''06A9 0645 0631 0628 0646 062F'',
     V ''Boots'' ''0686 06A9 0645 0647'',
     V ''Sneakers'' ''06A9 0641 0634 0020 0648 0631 0632 0634 06CC'',
     V ''Sweater'' ''067E 0644 06CC 0648 0631'',
     V ''Suit'' ''06A9 062A 0020 0648 0020 0634 0644 0648 0627 0631'',
     V ''Uniform'' ''06CC 0648 0646 06CC 0641 0631 0645'',
     V ''Jeans'' ''0634 0644 0648 0627 0631 0020 0644 06CC'',
     V ''Raincoat'' ''0628 0627 0631 0627 0646 06CC'']"

definition lib_adjectives :: "vocab list" where
  "lib_adjectives =
    [V ''Big'' ''0628 0632 0631 06AF'',
     V ''Small'' ''06A9 0648 0686 06A9'',
     V ''Hot'' ''062F 0627 063A'',
     V ''Cold'' ''0633 0631 062F'',
     V ''Happy'' ''062E 0648 0634 062D 0627 0644'',
     V ''Sad'' ''063A 0645 06AF 06CC 0646'',
     V ''Fast'' ''0633 0631 06CC 0639'',
     V ''Slow'' ''0622 0647 0633 062A 0647'',
     V ''New'' ''062C 062F 06CC 062F'',
     V ''Old'' ''0642 062F 06CC 0645 06CC'',
     V ''Beautiful'' ''0632 06CC 0628 0627'',
     V ''Ugly'' ''0632 0634 062A'',
     V ''Easy'' ''0622 0633 0627 0646'',
     V ''Hard'' ''0633 062E 062A'',
     V ''Good'' ''062E 0648 0628'',
     V ''Bad'' ''0628 062F'',
     V ''Rich'' ''067E 0648 0644 062F 0627 0631'',
     V ''Poor'' ''0641 0642 06CC 0631'',
     V ''Strong'' ''0642 0648 06CC'',
     V ''Weak'' ''0636 0639 06CC 0641'']"

definition lib_translate :: "vocab list" where
  "lib_translate =
    [V ''Book'' ''06A9 062A 0627 0628'',
     V ''Water'' ''0622 0628'',
     V ''Sun'' ''062E 0648 0631 0634 06CC 062F'',
     V ''Moon'' ''0645 0627 0647'',
     V ''Star'' ''0633 062A 0627 0631 0647'',
     V ''Friend'' ''062F 0648 0633 062A'',
     V ''School'' ''0645 062F 0631 0633 0647'',
     V ''House'' ''062E 0627 0646 0647'',
     V ''Bread'' ''0646 0627 0646'',
     V ''Love'' ''0639 0634 0642'',
     V ''Time'' ''0632 0645 0627 0646'',
     V ''Day'' ''0631 0648 0632'',
     V ''Night'' ''0634 0628'',
     V ''Earth'' ''0632 0645 06CC 0646'',
     V ''Forest'' ''062C 0646 06AF 0644'',
     V ''Mountain'' ''06A9 0648 0647'',
     V ''Sea'' ''062F 0631 06CC 0627'',
     V ''River'' ''0631 0648 062F 062E 0627 0646 0647'',
     V ''Sky'' ''0622 0633 0645 0627 0646'',
     V ''Rain'' ''0628 0627 0631 0627 0646'',
     V ''Snow'' ''0628 0631 0641'',
     V ''Wind'' ''0628 0627 062F'',
     V ''Fire'' ''0622 062A 0634'',
     V ''Tree'' ''062F 0631 062E 062A'',
     V ''Flower'' ''06AF 0644'',
     V ''City'' ''0634 0647 0631'',
     V ''Village'' ''0631 0648 0633 062A 0627'',
     V ''Road'' ''062C 0627 062F 0647'',
     V ''Car'' ''0645 0627 0634 06CC 0646'',
     V ''Plane'' ''0647 0648 0627 067E 06CC 0645 0627'',
     V ''Boat'' ''0642 0627 06CC 0642'',
     V ''Bicycle'' ''062F 0648 0686 0631 062E 0647'',
     V ''Computer'' ''06A9 0627 0645 067E 06CC 0648 062A 0631'',
     V ''Phone'' ''062A 0644 0641 0646'',
     V ''Clock'' ''0633 0627 0639 062A'',
     V ''Money'' ''067E 0648 0644'']"

definition lib_hangman :: "hangmanItem list" where
  "lib_hangman =
    [H ''GALAXY'' ''0633 062A 0627 0631 0647 200C 0647 0627 0020 0648 0020 0633 06CC 0627 0631 0627 062A'',
     H ''PYTHON'' ''06CC 06A9 0020 0632 0628 0627 0646 0020 0628 0631 0646 0627 0645 0647 200C 0646 0648 06CC 0633 06CC'',
     H ''GUITAR'' ''0633 0627 0632 0020 0645 0648 0633 06CC 0642 06CC'',
     H ''ORANGE'' ''06CC 06A9 0020 0645 06CC 0648 0647 0020 0646 0627 0631 0646 062C 06CC'',
     H ''COMPUTER'' ''062F 0633 062A 06AF 0627 0647 0020 0647 0648 0634 0645 0646 062F'',
     H ''AIRPLANE'' ''0648 0633 06CC 0644 0647 0020 067E 0631 0648 0627 0632'',
     H ''KEYBOARD'' ''062A 0627 06CC 067E 0020 06A9 0631 062F 0646'',
     H ''MOUNTAIN'' ''0628 0644 0646 062F 062A 0631 0020 0627 0632 0020 062A 067E 0647'',
     H ''LIBRARY'' ''0645 062D 0644 0020 06A9 062A 0627 0628 200C 0647 0627'',
     H ''DIAMOND'' ''0633 0646 06AF 0020 0642 06CC 0645 062A 06CC'',
     H ''UMBRELLA'' ''0645 062D 0627 0641 0638 0020 0628 0627 0631 0627 0646'',
     H ''VOLCANO'' ''06A9 0648 0647 0020 0622 062A 0634 200C 0641 0634 0627 0646'',
     H ''SUNGLASS'' ''0645 062D 0627 0641 0638 0020 0686 0634 0645'',
     H ''HOSPITAL'' ''0645 062D 0644 0020 062F 0631 0645 0627 0646'']"

definition words :: "hangmanItem list" where
  "words =
    [H ''GALAXY'' ''0633 062A 0627 0631 0647 200C 0647 0627 0020 0648 0020 0633 06CC 0627 0631 0627 062A'',
     H ''PYTHON'' ''06CC 06A9 0020 0632 0628 0627 0646 0020 0628 0631 0646 0627 0645 0647 200C 0646 0648 06CC 0633 06CC'',
     H ''GUITAR'' ''0633 0627 0632 0020 0645 0648 0633 06CC 0642 06CC'',
     H ''ORANGE'' ''06CC 06A9 0020 0645 06CC 0648 0647 0020 0646 0627 0631 0646 062C 06CC'']"

definition colors :: "color list" where
  "colors =
    [C ''RED'' ''#ef4444'' ''0642 0631 0645 0632'',
     C ''BLUE'' ''#3b82f6'' ''0622 0628 06CC'',
     C ''GREEN'' ''#22c55e'' ''0633 0628 0632'',
     C ''YELLOW'' ''#eab308'' ''0632 0631 062F'',
     C ''PURPLE'' ''#a855f7'' ''0628 0646 0641 0634'']"
text \<open>The sentence library, items \<^verbatim>\<open>{words, fa}\<close>, and the grammar library, items
  \<^verbatim>\<open>{words, wrongIdx, correct, options}\<close>.\<close>

definition lib_sentences :: "sentenceItem list" where
  "lib_sentences =
    [S [''I'', ''am'', ''a'', ''student'']
       ''0645 0646 0020 06CC 06A9 0020 062F 0627 0646 0634 200C 0622 0645 0648 0632 0020 0647 0633 062A 0645'',
     S [''The'', ''cat'', ''is'', ''sleeping'']
       ''06AF 0631 0628 0647 0020 062F 0631 0020 062D 0627 0644 0020 062E 0648 0627 0628 06CC 062F 0646 0020 0627 0633 062A'',
     S [''We'', ''love'', ''English'']
       ''0645 0627 0020 0627 0646 06AF 0644 06CC 0633 06CC 0020 0631 0627 0020 062F 0648 0633 062A 0020 062F 0627 0631 06CC 0645'',
     S [''She'', ''is'', ''playing'', ''football'']
       ''0627 0648 0020 062F 0631 0020 062D 0627 0644 0020 0641 0648 062A 0628 0627 0644 0020 0628 0627 0632 06CC 0020 06A9 0631 062F 0646 0020 0627 0633 062A'',
     S [''He'', ''reads'', ''a'', ''big'', ''book'']
       ''0627 0648 0020 06CC 06A9 0020 06A9 062A 0627 0628 0020 0628 0632 0631 06AF 0020 0645 06CC 200C 062E 0648 0627 0646 062F'',
     S [''They'', ''go'', ''to'', ''school'', ''everyday'']
       ''0622 0646 200C 0647 0627 0020 0647 0631 0020 0631 0648 0632 0020 0628 0647 0020 0645 062F 0631 0633 0647 0020 0645 06CC 200C 0631 0648 0646 062F'',
     S [''It'', ''is'', ''a'', ''sunny'', ''beautiful'', ''day'']
       ''0627 0645 0631 0648 0632 0020 06CC 06A9 0020 0631 0648 0632 0020 0622 0641 062A 0627 0628 06CC 0020 0632 06CC 0628 0627 0633 062A'',
     S [''Learning'', ''languages'', ''is'', ''very'', ''exciting'']
       ''06CC 0627 062F 06AF 06CC 0631 06CC 0020 0632 0628 0627 0646 200C 0647 0627 0020 0628 0633 06CC 0627 0631 0020 0647 06CC 062C 0627 0646 200C 0627 0646 06AF 06CC 0632 0020 0627 0633 062A'',
     S [''Can'', ''you'', ''help'', ''me'', ''please'']
       ''0622 06CC 0627 0020 0645 06CC 200C 062A 0648 0627 0646 06CC 062F 0020 0628 0647 0020 0645 0646 0020 06A9 0645 06A9 0020 06A9 0646 06CC 062F 0020 0644 0637 0641 0627 064B'',
     S [''I'', ''want'', ''to'', ''drink'', ''some'', ''water'']
       ''0645 0646 0020 0645 06CC 200C 062E 0648 0627 0647 0645 0020 06A9 0645 06CC 0020 0622 0628 0020 0628 0646 0648 0634 0645'',
     S [''Where'', ''is'', ''the'', ''library'']
       ''06A9 062A 0627 0628 062E 0627 0646 0647 0020 06A9 062C 0627 0633 062A'',
     S [''My'', ''brother'', ''works'', ''in'', ''a'', ''bank'']
       ''0628 0631 0627 062F 0631 0020 0645 0646 0020 062F 0631 0020 06CC 06A9 0020 0628 0627 0646 06A9 0020 06A9 0627 0631 0020 0645 06CC 200C 06A9 0646 062F'',
     S [''The'', ''birds'', ''are'', ''flying'', ''in'', ''the'', ''sky'']
       ''067E 0631 0646 062F 06AF 0627 0646 0020 062F 0631 0020 0622 0633 0645 0627 0646 0020 067E 0631 0648 0627 0632 0020 0645 06CC 200C 06A9 0646 0646 062F'',
     S [''She'', ''has'', ''a'', ''red'', ''dress'']
       ''0627 0648 0020 06CC 06A9 0020 0644 0628 0627 0633 0020 0642 0631 0645 0632 0020 062F 0627 0631 062F'',
     S [''We'', ''watch'', ''TV'', ''at'', ''night'']
       ''0645 0627 0020 0634 0628 200C 0647 0627 0020 062A 0644 0648 06CC 0632 06CC 0648 0646 0020 062A 0645 0627 0634 0627 0020 0645 06CC 200C 06A9 0646 06CC 0645'']"

definition lib_grammar :: "grammarItem list" where
  "lib_grammar =
    [GI [''She'', ''don't'', ''like'', ''apples.''] 1 ''doesn't''
       [''doesn't'', ''don't'', ''isn't'', ''doing''],
     GI [''He'', ''go'', ''to'', ''school.''] 1 ''goes''
       [''goes'', ''going'', ''gone'', ''goed''],
     GI [''They'', ''is'', ''happy.''] 1 ''are''
       [''are'', ''am'', ''was'', ''were''],
     GI [''I'', ''has'', ''a'', ''pen.''] 1 ''have''
       [''have'', ''had'', ''am having'', ''has''],
     GI [''We'', ''was'', ''at'', ''home.''] 1 ''were''
       [''were'', ''are'', ''been'', ''was''],
     GI [''She'', ''study'', ''every'', ''day.''] 1 ''studies''
       [''studies'', ''studying'', ''studied'', ''study''],
     GI [''It'', ''look'', ''good.''] 1 ''looks''
       [''looks'', ''look'', ''looking'', ''looked''],
     GI [''You'', ''am'', ''my'', ''friend.''] 1 ''are''
       [''are'', ''is'', ''am'', ''be''],
     GI [''Children'', ''is'', ''playing.''] 1 ''are''
       [''are'', ''was'', ''is'', ''be''],
     GI [''I'', ''sees'', ''the'', ''moon.''] 1 ''see''
       [''see'', ''saw'', ''seeing'', ''sees''],
     GI [''He'', ''never'', ''eat'', ''fish.''] 2 ''eats''
       [''eats'', ''ate'', ''eating'', ''eat''],
     GI [''They'', ''was'', ''very'', ''tired.''] 1 ''were''
       [''were'', ''are'', ''was'', ''been'']]"

text \<open>\<^verbatim>\<open>getVocabData(category)\<close>: \<^verbatim>\<open>libraries[category] || []\<close>, for the categories whose
  items have the shape \<^verbatim>\<open>{en, fa}\<close>. The hangman library (\<^verbatim>\<open>{word, hint}\<close>) is
  \<open>lib_hangman\<close>, the sentence library \<open>lib_sentences\<close> and the grammar library
  \<open>lib_grammar\<close>.\<close>

definition getVocabData :: "string \<Rightarrow> vocab list" where
  "getVocabData category =
     (if category = ''animals'' then lib_animals
      else if category = ''jobs'' then lib_jobs
      else if category = ''family'' then lib_family
      else if category = ''places'' then lib_places
      else if category = ''objects'' then lib_objects
      else if category = ''clothes'' then lib_clothes
      else if category = ''adjectives'' then lib_adjectives
      else if category = ''translate'' then lib_translate
      else [])"

section \<open>Number to words\<close>

text \<open>The Numbers of the model are the non-negative integers below \<open>2\<^sup>5\<^sup>3\<close>, each of which
  a Number holds exactly, and \<^verbatim>\<open>Infinity\<close>. Fractions, negative numbers, \<^verbatim>\<open>NaN\<close> and the
  finite values from \<open>2\<^sup>5\<^sup>3\<close> on, whose text depends on the rounding of the value (from
  \<^verbatim>\<open>1e21\<close> on it is written with an exponent), are not values of the type. The
  arithmetic of the source on these integers, \<^verbatim>\<open>Math.floor(n / 10)\<close> and \<^verbatim>\<open>n % 10\<close>, is
  division and remainder.\<close>

datatype number = Finite "53 word" | Infinity

definition ones :: "string list" where
  "ones = [''ZERO'', ''ONE'', ''TWO'', ''THREE'', ''FOUR'', ''FIVE'', ''SIX'', ''SEVEN'',
           ''EIGHT'', ''NINE'', ''TEN'', ''ELEVEN'', ''TWELVE'', ''THIRTEEN'', ''FOURTEEN'',
           ''FIFTEEN'', ''SIXTEEN'', ''SEVENTEEN'', ''EIGHTEEN'', ''NINETEEN'']"

definition tens :: "string list" where
  "tens = ['''', '''', ''TWENTY'', ''THIRTY'', ''FORTY'', ''FIFTY'', ''SIXTY'', ''SEVENTY'',
           ''EIGHTY'', ''NINETY'']"

text \<open>The decimal digits of a natural number, most significant first.\<close>

fun digits :: "nat \<Rightarrow> string" where
  "digits n =
     (if n < 10 then [''0123456789'' ! n]
      else digits (n div 10) @ [''0123456789'' ! (n mod 10)])"

text \<open>\<^verbatim>\<open>n.toString()\<close>: the decimal digits of an integer below \<open>2\<^sup>5\<^sup>3\<close>, and the text
  \<^verbatim>\<open>Infinity\<close>.\<close>

fun toString :: "number \<Rightarrow> string" where
  "toString (Finite n) = digits (unat n)"
| "toString Infinity = ''Infinity''"

text \<open>\<^verbatim>\<open>numberToWords(n)\<close>; each \<^verbatim>\<open>if (...) return\<close> of the source is one branch. Every
  comparison with \<^verbatim>\<open>Infinity\<close> on the left is false, so \<^verbatim>\<open>Infinity\<close> reaches the last
  \<^verbatim>\<open>return\<close>.\<close>

function numberToWords :: "number \<Rightarrow> string" where
  "numberToWords Infinity = toString Infinity"
| "numberToWords (Finite n) =
     (if n < 20 then ones ! unat n
      else if n < 100 then
        tens ! unat (n div 10) @ (if n mod 10 \<noteq> 0 then '' '' @ ones ! unat (n mod 10) else '''')
      else if n < 1000 then
        ones ! unat (n div 100) @ '' HUNDRED'' @
          (if n mod 100 \<noteq> 0 then '' '' @ numberToWords (Finite (n mod 100)) else '''')
      else toString (Finite n))"
  by pat_completeness auto

termination
proof (relation "measure (\<lambda>x. case x of Finite n \<Rightarrow> unat n | Infinity \<Rightarrow> 0)")
  show "wf (measure (\<lambda>x. case x of Finite n \<Rightarrow> unat n | Infinity \<Rightarrow> 0))" by simp
next
  fix n :: "53 word"
  assume "\<not> n < 100"
  then have "100 \<le> unat n" by (simp add: word_less_nat_alt)
  moreover have "unat (n mod 100) < 100" by (simp add: unat_mod)
  ultimately show "(Finite (n mod 100), Finite n)
      \<in> measure (\<lambda>x. case x of Finite n \<Rightarrow> unat n | Infinity \<Rightarrow> 0)" by simp
qed

declare digits.simps [simp del] numberToWords.simps(2) [simp del]

text \<open>The callers pass integers from 0 to 309, written here as natural numbers.\<close>

abbreviation toWords :: "nat \<Rightarrow> string" where
  "toWords i \<equiv> numberToWords (Finite (of_nat i))"

text \<open>The number that a string of decimal digits denotes: the digit string of \<open>n\<close> is
  the string of digits without a leading zero that denotes \<open>n\<close>.\<close>

definition digitValue :: "char \<Rightarrow> nat" where
  "digitValue c = of_char c - 48"

definition decimalValue :: "string \<Rightarrow> nat" where
  "decimalValue s = foldl (\<lambda>a c. 10 * a + digitValue c) 0 s"

section \<open>Random draws and challenge generation\<close>

text \<open>
  \<^verbatim>\<open>Math.random()\<close> is the only source of randomness. A render function is given the
  sequence of its calls: \<open>rnd k\<close> stands for the \<open>k\<close>-th call, and
  \<^verbatim>\<open>Math.floor(Math.random() * n)\<close> at that call is \<open>rnd k mod n\<close>, which takes exactly
  the values \<open>0 .. n - 1\<close> that the floor can take. Every function below returns, with its
  result, the number of calls made so far.
\<close>

type_synonym rng = "nat \<Rightarrow> nat"

definition randomInt :: "rng \<Rightarrow> nat \<Rightarrow> nat \<Rightarrow> nat" where
  "randomInt rnd k n = rnd k mod n"

text \<open>\<^verbatim>\<open>shuffleArray(array)\<close>: \<^verbatim>\<open>for (let i = array.length - 1; i > 0; i--)\<close> swaps
  \<^verbatim>\<open>array[i]\<close> with \<^verbatim>\<open>array[j]\<close>, \<^verbatim>\<open>j = Math.floor(Math.random() * (i + 1))\<close>.\<close>

fun shuffleLoop :: "nat \<Rightarrow> rng \<Rightarrow> nat \<Rightarrow> 'a list \<Rightarrow> 'a list \<times> nat" where
  "shuffleLoop 0 rnd k array = (array, k)"
| "shuffleLoop (Suc i) rnd k array =
     (let j = randomInt rnd k (Suc i + 1)
      in shuffleLoop i rnd (k + 1) (array[Suc i := array ! j, j := array ! Suc i]))"

definition shuffleArray :: "rng \<Rightarrow> nat \<Rightarrow> 'a list \<Rightarrow> 'a list \<times> nat" where
  "shuffleArray rnd k array = shuffleLoop (length array - 1) rnd k array"

text \<open>
  The option loop shared, letter for letter, by \<^verbatim>\<open>renderCategoryChoiceGame\<close>,
  \<^verbatim>\<open>renderTranslateGame\<close>, \<^verbatim>\<open>renderNumToWordGame\<close> and \<^verbatim>\<open>renderWordToNumGame\<close>:
  \<^verbatim>\<open>while (options.length < 4) { const opt = pick(Math.floor(Math.random() * n));
     if (!options.includes(opt)) options.push(opt); }\<close>
  where \<open>pick i\<close> is \<^verbatim>\<open>library[i].en\<close>, \<^verbatim>\<open>library[i].fa\<close>, \<^verbatim>\<open>numberToWords(i)\<close> or \<open>i\<close>
  itself.
  Nothing bounds the number of rounds, so the loop is a partial function: \<open>None\<close> is
  the run that never leaves the loop.
\<close>

partial_function (option) drawOptions ::
  "(nat \<Rightarrow> 'a) \<Rightarrow> nat \<Rightarrow> rng \<Rightarrow> nat \<Rightarrow> 'a list \<Rightarrow> ('a list \<times> nat) option" where
  "drawOptions pick n rnd k options =
     (if length options < 4 then
        (let opt = pick (randomInt rnd k n)
         in if opt \<in> set options then drawOptions pick n rnd (k + 1) options
            else drawOptions pick n rnd (k + 1) (options @ [opt]))
      else Some (options, k))"

datatype error = TypeError

text \<open>What a choice game puts on the page: the prompt, the correct answer that the
  option buttons carry, and the four option buttons in their order.\<close>

record 'a choice =
  prompt :: string
  correct :: 'a
  options :: "'a list"

definition distractors :: "'a choice \<Rightarrow> 'a list" where
  "distractors c = filter (\<lambda>opt. opt \<noteq> correct c) (options c)"

text \<open>
  \<^verbatim>\<open>renderCategoryChoiceGame(category, icon, filter)\<close>, for the library it reads. With an
  empty library \<^verbatim>\<open>library[currentLevel % 0]\<close> is \<^verbatim>\<open>undefined\<close> and reading its
  \<^verbatim>\<open>en\<close> throws.
\<close>

definition categoryChoiceGame :: "vocab list \<Rightarrow> nat \<Rightarrow> rng \<Rightarrow> (error + string choice) option" where
  "categoryChoiceGame library currentLevel rnd =
     (if library = [] then Some (Inl TypeError)
      else
        let item = library ! (currentLevel mod length library)
        in case drawOptions (\<lambda>i. en (library ! i)) (length library) rnd 0 [en item] of
             None \<Rightarrow> None
           | Some (opts, k) \<Rightarrow>
               Some (Inr \<lparr>prompt = fa item, correct = en item,
                          options = fst (shuffleArray rnd k opts)\<rparr>))"

definition renderCategoryChoiceGame :: "string \<Rightarrow> nat \<Rightarrow> rng \<Rightarrow> (error + string choice) option" where
  "renderCategoryChoiceGame category = categoryChoiceGame (getVocabData category)"

text \<open>The page half of \<^verbatim>\<open>renderTranslateGame\<close> (its countdown is started by
  \<open>renderLevel\<close> below): the options are the \<^verbatim>\<open>fa\<close> texts, the prompt is \<^verbatim>\<open>word.en\<close>.\<close>

definition translateGame :: "vocab list \<Rightarrow> nat \<Rightarrow> rng \<Rightarrow> (error + string choice) option" where
  "translateGame library currentLevel rnd =
     (if library = [] then Some (Inl TypeError)
      else
        let item = library ! (currentLevel mod length library)
        in case drawOptions (\<lambda>i. fa (library ! i)) (length library) rnd 0 [fa item] of
             None \<Rightarrow> None
           | Some (opts, k) \<Rightarrow>
               Some (Inr \<lparr>prompt = en item, correct = fa item,
                          options = fst (shuffleArray rnd k opts)\<rparr>))"

definition renderTranslateGame :: "nat \<Rightarrow> rng \<Rightarrow> (error + string choice) option" where
  "renderTranslateGame = translateGame (getVocabData ''translate'')"

text \<open>\<^verbatim>\<open>renderColorsGame\<close>: no loop; four of the five shuffled names, the correct one put
  back at index 0 when the cut dropped it, and a second shuffle.\<close>

definition renderColorsGame :: "nat \<Rightarrow> rng \<Rightarrow> string choice" where
  "renderColorsGame currentLevel rnd =
     (let item = colors ! (currentLevel mod length colors);
          (shuffled, k) = shuffleArray rnd 0 [name item, ''ORANGE'', ''BLACK'', ''WHITE'', ''BROWN''];
          opts = take 4 shuffled;
          opts' = (if name item \<notin> set opts then opts[0 := name item] else opts)
      in \<lparr>prompt = hex item, correct = name item, options = fst (shuffleArray rnd k opts')\<rparr>)"

text \<open>\<^verbatim>\<open>renderNumToWordGame\<close>: the target is itself drawn at random,
  \<^verbatim>\<open>Math.floor(Math.random() * range)\<close> with \<^verbatim>\<open>range = Math.min(300, 20 + currentLevel)\<close>.
  The target is below 300 and the other draws are below 310.\<close>

definition renderNumToWordGame :: "nat \<Rightarrow> rng \<Rightarrow> string choice option" where
  "renderNumToWordGame currentLevel rnd =
     (let range = min 300 (20 + currentLevel);
          val = randomInt rnd 0 range;
          targetWord = toWords val
      in case drawOptions toWords (range + 10) rnd 1 [targetWord] of
           None \<Rightarrow> None
         | Some (opts, k) \<Rightarrow>
             Some \<lparr>prompt = toString (Finite (of_nat val)), correct = targetWord,
                   options = fst (shuffleArray rnd k opts)\<rparr>)"

text \<open>\<^verbatim>\<open>renderWordToNumGame\<close>: the same target, and the same loop on the numbers
  themselves.\<close>

definition renderWordToNumGame :: "nat \<Rightarrow> rng \<Rightarrow> nat choice option" where
  "renderWordToNumGame currentLevel rnd =
     (let range = min 300 (20 + currentLevel);
          val = randomInt rnd 0 range;
          targetWord = toWords val
      in case drawOptions (\<lambda>rand. rand) (range + 10) rnd 1 [val] of
           None \<Rightarrow> None
         | Some (opts, k) \<Rightarrow>
             Some \<lparr>prompt = targetWord, correct = val,
                   options = fst (shuffleArray rnd k opts)\<rparr>)"

text \<open>The grammar game. \<^verbatim>\<open>renderGrammarGame\<close> takes the item of the level and starts at
  step 1; at step 2 \<^verbatim>\<open>updateGrammarUI\<close> draws the buttons
  \<^verbatim>\<open>this.shuffleArray([...data.options])\<close>, and at step 1 none.\<close>

record grammarGame =
  currentGrammarData :: grammarItem
  grammarStep :: nat

definition renderGrammarGame :: "nat \<Rightarrow> grammarGame" where
  "renderGrammarGame currentLevel =
     (let pool = lib_grammar
      in \<lparr>currentGrammarData = pool ! (currentLevel mod length pool), grammarStep = 1\<rparr>)"

definition updateGrammarUI :: "rng \<Rightarrow> grammarGame \<Rightarrow> string list" where
  "updateGrammarUI rnd g =
     (let data = currentGrammarData g
      in if grammarStep g = 2 then fst (shuffleArray rnd 0 (goptions data)) else [])"

text \<open>The sentence game. The chips are the words of the item in the order of a sort
  with a random comparator, which the language leaves to the implementation: it is the
  parameter \<open>shuffled\<close>. The game has no options: the player orders the chips.\<close>

record sentenceGame =
  sentencePool :: "string list"
  constructedSentence :: "string list"
  targetSentence :: "string list"

definition renderSentenceGame :: "nat \<Rightarrow> string list \<Rightarrow> sentenceGame" where
  "renderSentenceGame currentLevel shuffled =
     (let pool = lib_sentences;
          data = pool ! (currentLevel mod length pool)
      in \<lparr>sentencePool = shuffled, constructedSentence = [], targetSentence = swords data\<rparr>)"

text \<open>The days and months games. \<^verbatim>\<open>renderSequencePlacementGame(fullList, ...)\<close> does not
  read \<^verbatim>\<open>currentLevel\<close>: it hides four positions drawn by the loop
  \<^verbatim>\<open>while (missingIndices.length < 4) { let r = Math.floor(Math.random() * fullList.length);
     if (!missingIndices.includes(r)) missingIndices.push(r); }\<close>,
  which is the option loop on the indices, started with no option, and sorts them. With
  an empty list every draw is 0 and the loop cannot end. The chips are the hidden
  entries; their order on the page, again that of a sort with a random comparator, is
  left out.\<close>

record sequenceGame =
  targetSequence :: "string list"
  missingIndices :: "nat list"
  fullList :: "string list"

definition renderSequencePlacementGame :: "string list \<Rightarrow> rng \<Rightarrow> sequenceGame option" where
  "renderSequencePlacementGame list rnd =
     (if list = [] then None
      else case drawOptions (\<lambda>r. r) (length list) rnd 0 [] of
             None \<Rightarrow> None
           | Some (picked, k) \<Rightarrow>
               (let sorted = sort picked;
                    correctAnswers = map (\<lambda>i. list ! i) sorted
                in Some \<lparr>targetSequence = correctAnswers, missingIndices = sorted,
                         fullList = list\<rparr>))"

definition renderDaysGame :: "rng \<Rightarrow> sequenceGame option" where
  "renderDaysGame =
     renderSequencePlacementGame
       [''Monday'', ''Tuesday'', ''Wednesday'', ''Thursday'', ''Friday'', ''Saturday'', ''Sunday'']"

definition renderMonthsGame :: "rng \<Rightarrow> sequenceGame option" where
  "renderMonthsGame =
     renderSequencePlacementGame
       [''January'', ''February'', ''March'', ''April'', ''May'', ''June'', ''July'', ''August'',
        ''September'', ''October'', ''November'', ''December'']"

text \<open>The texts that the draws \<open>k, ..., k + m - 1\<close> pick.\<close>

definition drawn :: "(nat \<Rightarrow> 'a) \<Rightarrow> nat \<Rightarrow> rng \<Rightarrow> nat \<Rightarrow> nat \<Rightarrow> 'a set" where
  "drawn pick n rnd k m = (\<lambda>j. pick (randomInt rnd j n)) ` {k..<k + m}"

section \<open>Outcomes\<close>

text \<open>
  An engine ends a challenge by calling the controller. The two call patterns of the
  source are kept as values:
  \<^item> \<open>Succeeded text\<close> is \<^verbatim>\<open>this.successAction(text)\<close>;
  \<^item> \<open>Failed text delay\<close> is
    \<^verbatim>\<open>this.failAction(text); setTimeout(() => this.renderLevel(), delay)\<close>.
  \<open>report\<close> in the controller section runs them.
\<close>

datatype outcome = Succeeded string | Failed string nat

text \<open>\<^verbatim>\<open>checkChoice(selected, correct)\<close>, the single-shot engine of the category, colour
  and number games.\<close>

definition checkChoice :: "string \<Rightarrow> string \<Rightarrow> outcome" where
  "checkChoice selected corr = (if selected = corr then Succeeded corr else Failed corr 2000)"

section \<open>Hangman engine\<close>

text \<open>The fields \<^verbatim>\<open>hangmanWord\<close>, \<^verbatim>\<open>guessedLetters\<close>, \<^verbatim>\<open>mistakes\<close>, \<^verbatim>\<open>maxMistakes\<close> of
  the application, and what \<^verbatim>\<open>updateHangmanUI\<close> writes to the page: the hint line, the
  displayed word, and for each alphabet button whether it carries \<^verbatim>\<open>disabled\<close>.\<close>

record hangman =
  hangmanWord :: string
  guessedLetters :: "char set"
  mistakes :: nat
  maxMistakes :: nat
  hintLine :: string
  displayLine :: string
  letterButtons :: "(char \<times> bool) list"

definition alphabet :: string where
  "alphabet = ''ABCDEFGHIJKLMNOPQRSTUVWXYZ''"

text \<open>\<^verbatim>\<open>.join(' ')\<close> of a list of one-character strings.\<close>

fun joinSpace :: "char list \<Rightarrow> string" where
  "joinSpace [] = []"
| "joinSpace [c] = [c]"
| "joinSpace (c # cs) = c # CHR '' '' # joinSpace cs"

definition updateHangmanUI :: "string \<Rightarrow> hangman \<Rightarrow> hangman \<times> outcome option" where
  "updateHangmanUI hnt h =
     (let displayWord =
            joinSpace (map (\<lambda>l. if l \<in> guessedLetters h then l else CHR ''_'') (hangmanWord h));
          h' = h\<lparr>hintLine := hnt, displayLine := displayWord,
                 letterButtons := map (\<lambda>l. (l, l \<in> guessedLetters h)) alphabet\<rparr>
      in (h',
          if CHR ''_'' \<notin> set displayWord then Some (Succeeded (hangmanWord h))
          else if maxMistakes h \<le> mistakes h then Some (Failed (hangmanWord h) 2000)
          else None))"

definition renderHangmanGame :: "nat \<Rightarrow> hangman \<times> outcome option" where
  "renderHangmanGame currentLevel =
     (let item = words ! (currentLevel mod length words)
      in updateHangmanUI (hint item)
           \<lparr>hangmanWord = word item, guessedLetters = {}, mistakes = 0, maxMistakes = 6,
            hintLine = [], displayLine = [], letterButtons = []\<rparr>)"

text \<open>\<^verbatim>\<open>guessHangman(letter)\<close>; \<open>currentLevel\<close> is the controller's field, read for the
  hint.\<close>

definition guessHangman :: "nat \<Rightarrow> char \<Rightarrow> hangman \<Rightarrow> hangman \<times> outcome option" where
  "guessHangman currentLevel l h =
     (let h1 = h\<lparr>guessedLetters := insert l (guessedLetters h)\<rparr>;
          h2 = (if l \<notin> set (hangmanWord h1) then h1\<lparr>mistakes := mistakes h1 + 1\<rparr> else h1);
          item = lib_hangman ! (currentLevel mod length lib_hangman)
      in updateHangmanUI (hint item) h2)"

text \<open>The page: the button of letter \<open>l\<close> calls \<^verbatim>\<open>guessHangman(l)\<close> when clicked, and a
  button rendered with \<^verbatim>\<open>disabled\<close> delivers no click.\<close>

definition clickLetterButton :: "nat \<Rightarrow> char \<Rightarrow> hangman \<Rightarrow> hangman \<times> outcome option" where
  "clickLetterButton currentLevel l h =
     (if (l, False) \<in> set (letterButtons h) then guessHangman currentLevel l h else (h, None))"

text \<open>A run of guesses from a state: the outcome reported after each guess, in order.\<close>

fun guessAll :: "nat \<Rightarrow> char list \<Rightarrow> hangman \<Rightarrow> outcome option list" where
  "guessAll currentLevel [] h = []"
| "guessAll currentLevel (l # ls) h =
     (let (h', out) = guessHangman currentLevel l h in out # guessAll currentLevel ls h')"

text \<open>A run of clicks on letter buttons from a state, each with the value that
  \<^verbatim>\<open>currentLevel\<close> has when it happens, and the state the run leaves.\<close>

fun clickLetters :: "(nat \<times> char) list \<Rightarrow> hangman \<Rightarrow> hangman" where
  "clickLetters [] h = h"
| "clickLetters ((currentLevel, l) # cs) h =
     clickLetters cs (fst (clickLetterButton currentLevel l h))"

text \<open>The page shows the state: the buttons are those that \<^verbatim>\<open>updateHangmanUI\<close> draws
  from the present \<^verbatim>\<open>guessedLetters\<close>.\<close>

definition pageShown :: "hangman \<Rightarrow> bool" where
  "pageShown h \<longleftrightarrow> letterButtons h = map (\<lambda>l. (l, l \<in> guessedLetters h)) alphabet"

section \<open>Letter-assembly engine\<close>

datatype guessItem = G (img: string) (answer: string)

definition guessPool :: "guessItem list" where
  "guessPool =
    [G ''apple.png'' ''APPLE'',
     G ''game_sentence.png'' ''PUZZLE'',
     G ''game_animal.png'' ''LION'',
     G ''game_job.png'' ''DOCTOR'',
     G ''game_color.png'' ''COLOR'']"

text \<open>A letter button of \<^verbatim>\<open>#letter-pool\<close>: its text, its \<^verbatim>\<open>dataset.usedIdx\<close> and whether it
  carries the classes \<^verbatim>\<open>opacity-30 pointer-events-none\<close>. The state of the engine is
  \<^verbatim>\<open>this.currentGuess\<close> with the buttons and the texts of \<^verbatim>\<open>#answer-slots\<close>.\<close>

record tile =
  letter :: char
  usedIdx :: "nat option"
  inactive :: bool

record guessGame =
  currentGuess :: string
  letterPool :: "tile list"
  answerSlots :: "string list"

text \<open>\<^verbatim>\<open>renderGuessGame\<close>. The pool string \<^verbatim>\<open>shuffleString(answer + extras)\<close> comes from
  random letters and a sort with a random comparator, whose order the language leaves
  to the implementation: it is the parameter \<open>pool\<close>.\<close>

definition renderGuessGame :: "nat \<Rightarrow> string \<Rightarrow> guessGame" where
  "renderGuessGame currentLevel pool =
     (let levelData = guessPool ! (currentLevel mod length guessPool)
      in \<lparr>currentGuess = [],
          letterPool = map (\<lambda>l. \<lparr>letter = l, usedIdx = None, inactive = False\<rparr>) pool,
          answerSlots = replicate (length (answer levelData)) []\<rparr>)"

text \<open>\<^verbatim>\<open>handleLetterClick(btn, char)\<close>; \<open>btn\<close> is the position of the button in the pool. The
  first statement of the branch, \<^verbatim>\<open>slots[this.currentGuess.length].innerText = char\<close>, reads
  a slot of the page: when the page has no such slot the access is \<^verbatim>\<open>undefined\<close> and the
  assignment throws a \<^verbatim>\<open>TypeError\<close> before anything is changed.\<close>

definition handleLetterClick ::
  "nat \<Rightarrow> nat \<Rightarrow> char \<Rightarrow> guessGame \<Rightarrow> error + guessGame \<times> outcome option" where
  "handleLetterClick currentLevel btn c g =
     (let levelData = guessPool ! (currentLevel mod length guessPool)
      in if length (currentGuess g) < length (answer levelData) then
           (if length (currentGuess g) < length (answerSlots g) then
              (let g1 = g\<lparr>answerSlots := (answerSlots g)[length (currentGuess g) := [c]]\<rparr>;
                   g2 = g1\<lparr>currentGuess := currentGuess g1 @ [c]\<rparr>;
                   g3 = g2\<lparr>letterPool := (letterPool g2)
                            [btn := (letterPool g2 ! btn)
                               \<lparr>usedIdx := Some (length (currentGuess g2) - 1), inactive := True\<rparr>]\<rparr>
               in Inr (g3,
                       if length (currentGuess g3) = length (answer levelData) then
                         (if currentGuess g3 = answer levelData
                          then Some (Succeeded (answer levelData))
                          else Some (Failed (answer levelData) 2000))
                       else None))
            else Inl TypeError)
         else Inr (g, None))"

text \<open>The page: button \<open>btn\<close> calls \<^verbatim>\<open>handleLetterClick(this, l)\<close> with its own letter, and
  a button with \<^verbatim>\<open>pointer-events-none\<close> delivers no click.\<close>

definition clickTile ::
  "nat \<Rightarrow> nat \<Rightarrow> guessGame \<Rightarrow> error + guessGame \<times> outcome option" where
  "clickTile currentLevel btn g =
     (if btn < length (letterPool g) \<and> \<not> inactive (letterPool g ! btn)
      then handleLetterClick currentLevel btn (letter (letterPool g ! btn)) g
      else Inr (g, None))"

text \<open>The loop of \<^verbatim>\<open>undoLetter\<close> over the buttons: the first one whose text is \<open>c\<close> and
  whose \<^verbatim>\<open>usedIdx\<close> is \<open>lastIdx\<close> is enabled again and loses its \<^verbatim>\<open>usedIdx\<close>; then
  \<^verbatim>\<open>break\<close>.\<close>

fun reenable :: "char \<Rightarrow> nat \<Rightarrow> tile list \<Rightarrow> tile list" where
  "reenable c lastIdx [] = []"
| "reenable c lastIdx (b # bs) =
     (if letter b = c \<and> usedIdx b = Some lastIdx
      then b\<lparr>inactive := False, usedIdx := None\<rparr> # bs
      else b # reenable c lastIdx bs)"

text \<open>\<^verbatim>\<open>undoLetter()\<close>. \<^verbatim>\<open>slots[lastIdx].innerText = ''\<close> throws a \<^verbatim>\<open>TypeError\<close> when the page
  has no slot \<open>lastIdx\<close>, again before anything is changed.\<close>

definition undoLetter :: "guessGame \<Rightarrow> error + guessGame" where
  "undoLetter g =
     (if length (currentGuess g) = 0 then Inr g
      else
        let lastIdx = length (currentGuess g) - 1
        in if lastIdx < length (answerSlots g) then
             (let g1 = g\<lparr>answerSlots := (answerSlots g)[lastIdx := []]\<rparr>;
                  c = currentGuess g1 ! lastIdx;
                  g2 = g1\<lparr>letterPool := reenable c lastIdx (letterPool g1)\<rparr>
              in Inr (g2\<lparr>currentGuess := butlast (currentGuess g2)\<rparr>))
           else Inl TypeError)"

text \<open>A run of clicks on tiles, in order, and a run of undos; each gives the engine
  state it leaves, or the first error thrown.\<close>

fun clickTiles :: "nat \<Rightarrow> nat list \<Rightarrow> guessGame \<Rightarrow> error + guessGame" where
  "clickTiles currentLevel [] g = Inr g"
| "clickTiles currentLevel (btn # btns) g =
     (case clickTile currentLevel btn g of
        Inl e \<Rightarrow> Inl e
      | Inr r \<Rightarrow> clickTiles currentLevel btns (fst r))"

fun undoTimes :: "nat \<Rightarrow> guessGame \<Rightarrow> error + guessGame" where
  "undoTimes 0 g = Inr g"
| "undoTimes (Suc n) g =
     (case undoLetter g of
        Inl e \<Rightarrow> Inl e
      | Inr g' \<Rightarrow> undoTimes n g')"

text \<open>The invariant of the engine between two events on the page of level
  \<open>currentLevel\<close>: the page has one slot for each letter of the level's answer, as
  \<^verbatim>\<open>renderGuessGame\<close> draws them; a button is greyed out exactly when it carries a
  \<^verbatim>\<open>usedIdx\<close>; every \<^verbatim>\<open>usedIdx\<close> is the index of a filled slot; and the slots from the
  length of the guess on are empty.\<close>

definition guessInv :: "nat \<Rightarrow> guessGame \<Rightarrow> bool" where
  "guessInv currentLevel g \<longleftrightarrow>
     length (answerSlots g) = length (answer (guessPool ! (currentLevel mod length guessPool))) \<and>
     (\<forall>b \<in> set (letterPool g).
        (inactive b \<longleftrightarrow> usedIdx b \<noteq> None) \<and>
        (case usedIdx b of None \<Rightarrow> True | Some i \<Rightarrow> i < length (currentGuess g))) \<and>
     (\<forall>i < length (answerSlots g). length (currentGuess g) \<le> i \<longrightarrow> answerSlots g ! i = [])"

section \<open>Progression controller\<close>

datatype game =
  GUESS | TRANSLATE | SENTENCE | GRAMMAR | HANGMAN | NUM_TO_WORD | WORD_TO_NUM | COLORS
  | ANIMAL | JOBS | DAYS | MONTHS | FAMILY | PLACES | OBJECTS | CLOTHES | ADJECTIVES

record progressRecord =
  level :: nat
  medals :: nat
  completed :: bool

text \<open>The item \<^verbatim>\<open>learnita_v3_progress\<close> of \<^verbatim>\<open>localStorage\<close>: missing, text that
  \<^verbatim>\<open>JSON.parse\<close> rejects, or a document from game types to records, which is what
  \<^verbatim>\<open>saveProgress\<close> writes. Text that \<^verbatim>\<open>JSON.parse\<close> accepts but that is no such document
  (\<^verbatim>\<open>null\<close>, a number, a list) is not a value of the type; \<^verbatim>\<open>loadProgress\<close> would
  return it as it is.\<close>

datatype stored = Absent | Unparsable | Document "game \<Rightarrow> progressRecord option"

text \<open>The callbacks the controller hands to \<^verbatim>\<open>setTimeout\<close>: the closure \<^verbatim>\<open>nextLevel\<close> of
  \<^verbatim>\<open>successAction\<close>, \<^verbatim>\<open>() => this.renderLevel()\<close> and \<^verbatim>\<open>() => this.showMenu()\<close>.\<close>

datatype callback = CbNextLevel | CbRenderLevel | CbShowMenu

text \<open>
  The controller's fields. \<open>scheduled\<close> lists the calls of \<^verbatim>\<open>setTimeout\<close> (callback and
  delay in milliseconds), \<open>rendered\<close> the calls of \<^verbatim>\<open>renderLevel\<close> (the game type and
  level whose challenge it asks for), \<open>feedback\<close> the calls of \<^verbatim>\<open>showFeedback\<close>
  (\<open>True\<close> for the success mark, with the text shown). \<open>timerInterval\<close> says whether the
  countdown interval is running. \<open>currentGame\<close> is \<^verbatim>\<open>null\<close> in the source until the
  first \<^verbatim>\<open>actualStart\<close>, which every session goes through; the model starts there.
\<close>

record app =
  score :: nat
  currentLevel :: nat
  currentGame :: game
  maxLevels :: nat
  progress :: "game \<Rightarrow> progressRecord option"
  storage :: stored
  timeLeft :: int
  timerInterval :: bool
  scheduled :: "(callback \<times> nat) list"
  rendered :: "(game \<times> nat) list"
  feedback :: "(bool \<times> string) list"
  menuShown :: bool
  modalShown :: bool
  pendingGameType :: "game option"

definition defaultRecord :: progressRecord where
  "defaultRecord = \<lparr>level = 0, medals = 0, completed = False\<rparr>"

definition loadProgress :: "stored \<Rightarrow> (game \<Rightarrow> progressRecord option)" where
  "loadProgress saved =
     (case saved of Document d \<Rightarrow> d | _ \<Rightarrow> (\<lambda>g. Some defaultRecord))"

definition saveProgress :: "app \<Rightarrow> app" where
  "saveProgress s = s\<lparr>storage := Document (progress s)\<rparr>"

definition setTimeout :: "callback \<Rightarrow> nat \<Rightarrow> app \<Rightarrow> app" where
  "setTimeout cb delay s = s\<lparr>scheduled := scheduled s @ [(cb, delay)]\<rparr>"

definition showFeedback :: "bool \<Rightarrow> string \<Rightarrow> app \<Rightarrow> app" where
  "showFeedback ok txt s = s\<lparr>feedback := feedback s @ [(ok, txt)]\<rparr>"

definition startTimer :: "int \<Rightarrow> app \<Rightarrow> app" where
  "startTimer seconds s = s\<lparr>timeLeft := seconds, timerInterval := True\<rparr>"

definition stopTimer :: "app \<Rightarrow> app" where
  "stopTimer s = s\<lparr>timerInterval := False\<rparr>"

text \<open>\<^verbatim>\<open>Math.max(3, 10 - Math.floor(currentLevel / 5))\<close>, the countdown of the translate
  game.\<close>

definition timeLimit :: "nat \<Rightarrow> int" where
  "timeLimit lvl = max 3 (10 - int (lvl div 5))"

text \<open>\<^verbatim>\<open>renderLevel\<close> dispatches on \<^verbatim>\<open>this.currentGame\<close> to the render function of the
  game, which reads \<^verbatim>\<open>this.currentLevel\<close>. The page it writes is the subject of the
  sections above; for the controller the call is recorded with the game type and level
  it asks for, and the translate game starts its countdown.\<close>

definition renderLevel :: "app \<Rightarrow> app" where
  "renderLevel s =
     (let s' = s\<lparr>rendered := rendered s @ [(currentGame s, currentLevel s)]\<rparr>
      in if currentGame s = TRANSLATE then startTimer (timeLimit (currentLevel s)) s' else s')"

definition showMenu :: "app \<Rightarrow> app" where
  "showMenu s = (stopTimer s)\<lparr>menuShown := True\<rparr>"

definition failAction :: "string \<Rightarrow> app \<Rightarrow> app" where
  "failAction correctAnswer s = showFeedback False correctAnswer s"

text \<open>\<^verbatim>\<open>successAction(answerText)\<close> up to its \<^verbatim>\<open>setTimeout(nextLevel, ...)\<close>.\<close>

definition successAction :: "string \<Rightarrow> app \<Rightarrow> app" where
  "successAction answerText s =
     (let s1 = s\<lparr>score := score s + 10\<rparr>;
          s2 = showFeedback True answerText s1;
          s3 = s2\<lparr>currentLevel := currentLevel s2 + 1\<rparr>;
          gm = currentGame s3;
          r = (case progress s3 gm of None \<Rightarrow> defaultRecord | Some r \<Rightarrow> r);
          s4 = s3\<lparr>progress := (progress s3)(gm \<mapsto> r\<lparr>level := currentLevel s3\<rparr>)\<rparr>;
          isLongSequence = (gm = DAYS \<or> gm = MONTHS)
      in if answerText \<noteq> [] \<and> isLongSequence then setTimeout CbNextLevel 1500 s4
         else setTimeout CbNextLevel 2000 s4)"

text \<open>The closure \<^verbatim>\<open>nextLevel\<close>, run when its timeout expires. Reading
  \<^verbatim>\<open>this.progress[this.currentGame].medals\<close> throws when the record is missing.\<close>

definition nextLevel :: "app \<Rightarrow> error + app" where
  "nextLevel s =
     (if maxLevels s \<le> currentLevel s then
        (case progress s (currentGame s) of
           None \<Rightarrow> Inl TypeError
         | Some r \<Rightarrow>
             let s1 = s\<lparr>progress := (progress s)
                          (currentGame s \<mapsto> r\<lparr>medals := medals r + 1, completed := True, level := 0\<rparr>)\<rparr>
             in Inr (setTimeout CbShowMenu 1000 (saveProgress s1)))
      else Inr (renderLevel (saveProgress s)))"

definition runCallback :: "callback \<Rightarrow> app \<Rightarrow> error + app" where
  "runCallback cb s =
     (case cb of
        CbNextLevel \<Rightarrow> nextLevel s
      | CbRenderLevel \<Rightarrow> Inr (renderLevel s)
      | CbShowMenu \<Rightarrow> Inr (showMenu s))"

fun report :: "outcome \<Rightarrow> app \<Rightarrow> app" where
  "report (Succeeded txt) s = successAction txt s"
| "report (Failed txt delay) s = setTimeout CbRenderLevel delay (failAction txt s)"

text \<open>The callback of the countdown interval, once a second while the interval runs.\<close>

definition tick :: "app \<Rightarrow> app" where
  "tick s =
     (if timerInterval s then
        (let s1 = s\<lparr>timeLeft := timeLeft s - 1\<rparr>
         in if timeLeft s1 \<le> 0 then setTimeout CbRenderLevel 1000 (failAction [] (stopTimer s1))
            else s1)
      else s)"

text \<open>\<^verbatim>\<open>checkTranslate(selected, correct)\<close>: both are button indices, \<open>opts\<close> the texts of
  the option buttons. Reading the text of a button that is not there throws.\<close>

definition checkTranslate :: "nat \<Rightarrow> nat \<Rightarrow> string list \<Rightarrow> app \<Rightarrow> error + app" where
  "checkTranslate selected corr opts s =
     (let s1 = stopTimer s
      in if corr < length opts then
           (let correctText = opts ! corr
            in if selected = corr then Inr (report (Succeeded correctText) s1)
               else Inr (report (Failed correctText 2000) s1))
         else Inl TypeError)"

definition actualStart :: "game \<Rightarrow> nat \<Rightarrow> app \<Rightarrow> app" where
  "actualStart type lvl s =
     renderLevel (s\<lparr>currentGame := type, score := 0, currentLevel := lvl, menuShown := False\<rparr>)"

definition startGame :: "game \<Rightarrow> app \<Rightarrow> app" where
  "startGame type s =
     (let gameProgress = (case progress s type of None \<Rightarrow> defaultRecord | Some r \<Rightarrow> r)
      in if completed gameProgress then s\<lparr>pendingGameType := Some type, modalShown := True\<rparr>
         else actualStart type (level gameProgress) s)"

definition confirmReset :: "app \<Rightarrow> error + app" where
  "confirmReset s =
     (let s0 = s\<lparr>modalShown := False\<rparr>
      in case pendingGameType s0 of
           None \<Rightarrow> Inr s0
         | Some p \<Rightarrow>
             (case progress s0 p of
                None \<Rightarrow> Inl TypeError
              | Some r \<Rightarrow>
                  let s1 = s0\<lparr>progress := (progress s0)(p \<mapsto> r\<lparr>level := 0, completed := False\<rparr>)\<rparr>
                  in Inr (actualStart p 0 (saveProgress s1))))"

text \<open>The state the constructor leaves at the main menu for a given storage item:
  \<^verbatim>\<open>maxLevels = 200\<close>, the progress loaded, nothing scheduled.\<close>

definition newApp :: "stored \<Rightarrow> app" where
  "newApp saved =
     \<lparr>score = 0, currentLevel = 0, currentGame = GUESS, maxLevels = 200,
      progress = loadProgress saved, storage = saved, timeLeft = 30, timerInterval = False,
      scheduled = [], rendered = [], feedback = [], menuShown = True, modalShown = False,
      pendingGameType = None\<rparr>"

text \<open>A success followed by its \<^verbatim>\<open>nextLevel\<close> timeout, \<open>n\<close> times over.\<close>

fun succeedTimes :: "nat \<Rightarrow> string \<Rightarrow> app \<Rightarrow> error + app" where
  "succeedTimes 0 txt s = Inr s"
| "succeedTimes (Suc n) txt s =
     (case nextLevel (successAction txt s) of Inl e \<Rightarrow> Inl e | Inr s' \<Rightarrow> succeedTimes n txt s')"

text \<open>The countdown interval firing \<open>n\<close> times in a row.\<close>

fun ticks :: "nat \<Rightarrow> app \<Rightarrow> app" where
  "ticks 0 s = s"
| "ticks (Suc n) s = ticks n (tick s)"

text \<open>The level that the stored document holds for a game type, and the level that the
  record in memory holds.\<close>

definition storedLevel :: "app \<Rightarrow> game \<Rightarrow> nat option" where
  "storedLevel s g =
     (case storage s of Document d \<Rightarrow> map_option level (d g) | _ \<Rightarrow> None)"

definition memoryLevel :: "app \<Rightarrow> game \<Rightarrow> nat option" where
  "memoryLevel s g = map_option level (progress s g)"

section \<open>Verification: number to words\<close>

lemma digitValue_digit: "d < 10 \<Longrightarrow> digitValue (''0123456789'' ! d) = d"
proof -
  assume "d < 10"
  then have "d \<in> {0, 1, 2, 3, 4, 5, 6, 7, 8, 9}" by auto
  then show ?thesis by (auto simp: digitValue_def)
qed

lemma digit_char: "d < 10 \<Longrightarrow> ''0123456789'' ! d \<in> set ''0123456789''"
  by (rule nth_mem) simp

lemma decimalValue_snoc: "decimalValue (s @ [c]) = 10 * decimalValue s + digitValue c"
  by (simp add: decimalValue_def)

lemma digits_props:
  "decimalValue (digits n) = n \<and> set (digits n) \<subseteq> set ''0123456789'' \<and> digits n \<noteq> []
   \<and> (0 < n \<longrightarrow> hd (digits n) \<noteq> CHR ''0'')"
proof (induction n rule: digits.induct)
  case (1 n)
  show ?case
  proof (cases "n < 10")
    case True
    then have "n \<in> {0, 1, 2, 3, 4, 5, 6, 7, 8, 9}" by auto
    then show ?thesis
      by (auto simp: digits.simps[of n] decimalValue_def digitValue_def)
  next
    case False
    have m: "n mod 10 < 10" by simp
    have p: "0 < n div 10" using False by simp
    note IH = 1[OF False]
    have "decimalValue (digits n) = 10 * (n div 10) + n mod 10"
      using False IH digitValue_digit[OF m]
      by (simp add: digits.simps[of n] decimalValue_snoc)
    moreover have "set (digits n) \<subseteq> set ''0123456789''"
      using False IH digit_char[OF m] by (simp add: digits.simps[of n])
    moreover have "hd (digits n) \<noteq> CHR ''0''"
      using False IH p by (simp add: digits.simps[of n])
    moreover have "digits n \<noteq> []"
      using False by (simp add: digits.simps[of n])
    ultimately show ?thesis by simp
  qed
qed

lemma numberToWords_large: "1000 \<le> n \<Longrightarrow> numberToWords (Finite n) = digits (unat n)"
  by (simp add: numberToWords.simps word_less_nat_alt word_le_nat_alt)

text \<open>
  Claim C4 says that \<open>numberToWords\<close> returns the literal digit string of \<open>n\<close> for every
  \<open>n \<ge> 1000\<close>. A Number need not be an integer that has one: \<^verbatim>\<open>Infinity\<close> is not below
  1000, and the last \<^verbatim>\<open>return\<close> gives the text \<^verbatim>\<open>Infinity\<close>, which holds no digit.
\<close>

theorem numberToWords_counterexample:
  "numberToWords Infinity = ''Infinity''
   \<and> set (numberToWords Infinity) \<inter> set ''0123456789'' = {}"
  by simp

text \<open>
  Claim C4, amended. \<open>numberToWords\<close> returns \<open>ZERO\<close> for 0, \<open>FIFTEEN\<close> for 15,
  \<open>FORTY TWO\<close> for 42, \<open>ONE HUNDRED\<close> for 100 and \<open>THREE HUNDRED FIVE\<close> for 305, and for
  every integer \<open>n\<close> with \<open>1000 \<le> n < 2\<^sup>5\<^sup>3\<close> the decimal digit string of \<open>n\<close>: a string
  of decimal digits that does not start with \<open>0\<close> and denotes \<open>n\<close>. These are all the finite
  Numbers of the model. From \<open>2\<^sup>5\<^sup>3\<close> on \<^verbatim>\<open>toString\<close> prints the shortest decimal that
  rounds to the Number, which need not be the Number's own digits
  (\<^verbatim>\<open>18446744073709552000\<close> for \<open>2\<^sup>6\<^sup>4 = 18446744073709551616\<close>), and from \<^verbatim>\<open>1e21\<close> on it
  prints an exponent (\<^verbatim>\<open>1e+21\<close>).
\<close>

theorem numberToWords_values:
  "numberToWords (Finite 0) = ''ZERO'' \<and> numberToWords (Finite 15) = ''FIFTEEN''
   \<and> numberToWords (Finite 42) = ''FORTY TWO'' \<and> numberToWords (Finite 100) = ''ONE HUNDRED''
   \<and> numberToWords (Finite 305) = ''THREE HUNDRED FIVE''
   \<and> (\<forall>n \<ge> 1000. numberToWords (Finite n) \<noteq> []
         \<and> set (numberToWords (Finite n)) \<subseteq> set ''0123456789''
         \<and> hd (numberToWords (Finite n)) \<noteq> CHR ''0''
         \<and> decimalValue (numberToWords (Finite n)) = unat n)"
proof -
  have "numberToWords (Finite 0) = ''ZERO''" "numberToWords (Finite 15) = ''FIFTEEN''"
    by (simp_all add: numberToWords.simps ones_def)
  moreover have "numberToWords (Finite 42) = ''FORTY TWO''"
    by (simp add: numberToWords.simps ones_def tens_def)
  moreover have "numberToWords (Finite 100) = ''ONE HUNDRED''"
    by (simp add: numberToWords.simps ones_def)
  moreover have "numberToWords (Finite 305) = ''THREE HUNDRED FIVE''"
    by (simp add: numberToWords.simps ones_def)
  moreover have "numberToWords (Finite n) \<noteq> []
         \<and> set (numberToWords (Finite n)) \<subseteq> set ''0123456789''
         \<and> hd (numberToWords (Finite n)) \<noteq> CHR ''0''
         \<and> decimalValue (numberToWords (Finite n)) = unat n" if "1000 \<le> n" for n
  proof -
    have "0 < unat n" using that by (simp add: word_le_nat_alt)
    then show ?thesis
      unfolding numberToWords_large[OF that] using digits_props[of "unat n"] by blast
  qed
  ultimately show ?thesis by blast
qed

text \<open>The last part at 12345 and at the largest integer of the model,
  \<open>2\<^sup>5\<^sup>3 - 1 = 9007199254740991\<close>, with the digit strings written out.\<close>

theorem numberToWords_values_witness:
  "(1000::53 word) \<le> 12345 \<and> numberToWords (Finite 12345) = ''12345''
   \<and> decimalValue (numberToWords (Finite 12345)) = 12345
   \<and> (1000::53 word) \<le> 9007199254740991
   \<and> numberToWords (Finite 9007199254740991) = ''9007199254740991''
   \<and> decimalValue (numberToWords (Finite 9007199254740991)) = 9007199254740991"
proof -
  have a: "(1000::53 word) \<le> 12345" and b: "(1000::53 word) \<le> 9007199254740991"
    by simp_all
  have c: "numberToWords (Finite 12345) = ''12345''"
    "numberToWords (Finite 9007199254740991) = ''9007199254740991''"
    by (simp_all add: numberToWords.simps digits.simps)
  have d: "unat (12345::53 word) = 12345"
    "unat (9007199254740991::53 word) = 9007199254740991"
    by simp_all
  from numberToWords_values a b
  have "decimalValue (numberToWords (Finite 12345)) = unat (12345::53 word)"
    "decimalValue (numberToWords (Finite 9007199254740991)) = unat (9007199254740991::53 word)"
    by blast+
  then show ?thesis
    using a b c unfolding d by blast
qed

section \<open>Verification: hangman engine\<close>

subsection \<open>What one guess does\<close>

lemma joinSpace_underscore: "CHR ''_'' \<in> set (joinSpace cs) \<longleftrightarrow> CHR ''_'' \<in> set cs"
  by (induction cs rule: joinSpace.induct) auto

lemma display_underscore:
  "CHR ''_'' \<in> set (joinSpace (map (\<lambda>l. if l \<in> gs then l else CHR ''_'') w))
     \<longleftrightarrow> (\<exists>l \<in> set w. l \<notin> gs \<or> l = CHR ''_'')"
  by (auto simp: joinSpace_underscore split: if_splits)

lemma guessHangman_fields:
  "hangmanWord (fst (guessHangman lvl l h)) = hangmanWord h"
  "guessedLetters (fst (guessHangman lvl l h)) = insert l (guessedLetters h)"
  "mistakes (fst (guessHangman lvl l h)) = (if l \<in> set (hangmanWord h) then mistakes h else mistakes h + 1)"
  "maxMistakes (fst (guessHangman lvl l h)) = maxMistakes h"
  "hintLine (fst (guessHangman lvl l h)) = hint (lib_hangman ! (lvl mod length lib_hangman))"
  by (simp_all add: guessHangman_def updateHangmanUI_def Let_def)

lemma guessHangman_outcome:
  "snd (guessHangman lvl l h) =
     (if \<forall>x \<in> set (hangmanWord h). x \<in> insert l (guessedLetters h) \<and> x \<noteq> CHR ''_''
      then Some (Succeeded (hangmanWord h))
      else if maxMistakes h \<le> (if l \<in> set (hangmanWord h) then mistakes h else mistakes h + 1)
      then Some (Failed (hangmanWord h) 2000) else None)"
  unfolding guessHangman_def updateHangmanUI_def Let_def
  by (simp add: display_underscore) 

lemma guessAll_Cons:
  "guessAll lvl (l # ls) h = snd (guessHangman lvl l h) # guessAll lvl ls (fst (guessHangman lvl l h))"
  by (simp add: case_prod_beta)

declare guessAll.simps(2) [simp del]

lemma render0: "fst (renderHangmanGame 0) = \<lparr>hangmanWord = ''GALAXY'', guessedLetters = {}, mistakes = 0, maxMistakes = 6,
            hintLine = hint (words ! 0), displayLine = ''_ _ _ _ _ _'', letterButtons = map (\<lambda>l. (l, False)) alphabet\<rparr>"
  by (simp add: renderHangmanGame_def updateHangmanUI_def words_def)

lemma letterButtons_update:
  "letterButtons (fst (updateHangmanUI hnt h)) = map (\<lambda>l. (l, l \<in> guessedLetters h)) alphabet"
  "guessedLetters (fst (updateHangmanUI hnt h)) = guessedLetters h"
  by (simp_all add: updateHangmanUI_def Let_def)

lemma render_fields:
  "hangmanWord (fst (renderHangmanGame lvl)) = word (words ! (lvl mod length words))"
  "hintLine (fst (renderHangmanGame lvl)) = hint (words ! (lvl mod length words))"
  by (simp_all add: renderHangmanGame_def updateHangmanUI_def Let_def)

subsection \<open>Runs of guesses\<close>

lemma all_letters_succeed:
  "CHR ''_'' \<notin> set (hangmanWord h) \<Longrightarrow> mistakes h < maxMistakes h \<Longrightarrow> ls \<noteq> [] \<Longrightarrow> distinct ls
   \<Longrightarrow> set ls \<subseteq> set (hangmanWord h) \<Longrightarrow> guessedLetters h \<inter> set ls = {}
   \<Longrightarrow> set (hangmanWord h) \<subseteq> guessedLetters h \<union> set ls
   \<Longrightarrow> guessAll lvl ls h = replicate (length ls - 1) None @ [Some (Succeeded (hangmanWord h))]"
proof (induction ls arbitrary: h)
  case Nil
  then show ?case by simp
next
  case (Cons l ls)
  let ?h = "fst (guessHangman lvl l h)"
  have lw: "l \<in> set (hangmanWord h)" using Cons.prems by simp
  show ?case
  proof (cases "ls = []")
    case True
    have "\<forall>x \<in> set (hangmanWord h). x \<in> insert l (guessedLetters h) \<and> x \<noteq> CHR ''_''"
      using Cons.prems True by auto
    then show ?thesis using True by (simp add: guessAll_Cons guessHangman_outcome)
  next
    case False
    then obtain x where x: "x \<in> set ls" by (cases ls) auto
    then have "x \<in> set (hangmanWord h)" "x \<notin> insert l (guessedLetters h)"
      using Cons.prems by auto
    then have out: "snd (guessHangman lvl l h) = None"
      using Cons.prems lw by (auto simp: guessHangman_outcome)
    have "guessAll lvl ls ?h = replicate (length ls - 1) None @ [Some (Succeeded (hangmanWord ?h))]"
      using Cons.prems lw False by (intro Cons.IH) (auto simp: guessHangman_fields)
    then show ?thesis using False out
      by (cases ls) (simp_all add: guessAll_Cons guessHangman_fields)
  qed
qed

lemma absent_letters_fail:
  "hangmanWord h \<noteq> [] \<Longrightarrow> ls \<noteq> [] \<Longrightarrow> set ls \<inter> set (hangmanWord h) = {}
   \<Longrightarrow> guessedLetters h \<inter> set (hangmanWord h) = {}
   \<Longrightarrow> mistakes h + length ls = maxMistakes h
   \<Longrightarrow> guessAll lvl ls h = replicate (length ls - 1) None @ [Some (Failed (hangmanWord h) 2000)]"
proof (induction ls arbitrary: h)
  case Nil
  then show ?case by simp
next
  case (Cons l ls)
  let ?h = "fst (guessHangman lvl l h)"
  have lw: "l \<notin> set (hangmanWord h)" using Cons.prems by auto
  obtain x where x: "x \<in> set (hangmanWord h)" using Cons.prems by (cases "hangmanWord h") auto
  then have nx: "x \<notin> insert l (guessedLetters h)" using Cons.prems lw by auto
  show ?case
  proof (cases "ls = []")
    case True
    then show ?thesis using Cons.prems lw x nx
      by (auto simp: guessAll_Cons guessHangman_outcome)
  next
    case False
    have out: "snd (guessHangman lvl l h) = None"
      using Cons.prems lw x nx False by (cases ls) (auto simp: guessHangman_outcome)
    have "guessAll lvl ls ?h = replicate (length ls - 1) None @ [Some (Failed (hangmanWord ?h) 2000)]"
      using Cons.prems lw False by (intro Cons.IH) (auto simp: guessHangman_fields)
    then show ?thesis using False out
      by (cases ls) (simp_all add: guessAll_Cons guessHangman_fields)
  qed
qed

text \<open>
  Claim C5. From the state that \<open>renderHangmanGame\<close> sets (nothing guessed, no mistake,
  six mistakes allowed) and for a non-empty target word: guessing the distinct letters
  of the word, each once and in any order, reports nothing before the last guess and
  \<open>Succeeded\<close> at the last one; guessing six distinct letters that are not in the word
  reports nothing at the first five and \<open>Failed\<close> at the sixth. The words of the game are
  upper-case letters; the first part needs that the word holds no underscore, the
  character the display uses for a hidden letter.
\<close>

theorem hangman_outcomes:
  assumes "guessedLetters h = {}" and "mistakes h = 0" and "maxMistakes h = 6"
    and "hangmanWord h \<noteq> []" and "distinct ls"
  shows "(CHR ''_'' \<notin> set (hangmanWord h) \<and> set ls = set (hangmanWord h) \<longrightarrow>
            guessAll lvl ls h = replicate (length ls - 1) None @ [Some (Succeeded (hangmanWord h))])
       \<and> (length ls = 6 \<and> set ls \<inter> set (hangmanWord h) = {} \<longrightarrow>
            guessAll lvl ls h = replicate 5 None @ [Some (Failed (hangmanWord h) 2000)])"
proof (intro conjI impI)
  assume a: "CHR ''_'' \<notin> set (hangmanWord h) \<and> set ls = set (hangmanWord h)"
  then have "ls \<noteq> []" using assms(4) by auto
  then show "guessAll lvl ls h = replicate (length ls - 1) None @ [Some (Succeeded (hangmanWord h))]"
    using a assms by (intro all_letters_succeed) auto
next
  assume a: "length ls = 6 \<and> set ls \<inter> set (hangmanWord h) = {}"
  then have "ls \<noteq> []" by auto
  then have "guessAll lvl ls h = replicate (length ls - 1) None @ [Some (Failed (hangmanWord h) 2000)]"
    using a assms by (intro absent_letters_fail) auto
  then show "guessAll lvl ls h = replicate 5 None @ [Some (Failed (hangmanWord h) 2000)]"
    using a by simp
qed

text \<open>Both parts on the word of level 0, \<open>GALAXY\<close>.\<close>

theorem hangman_outcomes_witness:
  "guessAll 0 ''GALXY'' (fst (renderHangmanGame 0))
     = [None, None, None, None, Some (Succeeded ''GALAXY'')]
   \<and> guessAll 0 ''BCDEFH'' (fst (renderHangmanGame 0))
     = [None, None, None, None, None, Some (Failed ''GALAXY'' 2000)]"
proof -
  let ?h = "fst (renderHangmanGame 0)"
  have h: "guessedLetters ?h = {}" "mistakes ?h = 0" "maxMistakes ?h = 6"
          "hangmanWord ?h \<noteq> []" "hangmanWord ?h = ''GALAXY''"
    by (simp_all add: render0)
  have a: "CHR ''_'' \<notin> set (hangmanWord ?h) \<and> set ''GALXY'' = set (hangmanWord ?h)"
    unfolding h(5) by auto
  have b: "length ''BCDEFH'' = 6 \<and> set ''BCDEFH'' \<inter> set (hangmanWord ?h) = {}"
    unfolding h(5) by simp
  have d: "distinct ''GALXY''" "distinct ''BCDEFH''" by simp_all
  show ?thesis
    using hangman_outcomes[OF h(1-4) d(1), of 0] hangman_outcomes[OF h(1-4) d(2), of 0] a b
    by (simp add: h(5) numeral_eq_Suc)
qed

subsection \<open>Repeated guesses\<close>

text \<open>\<^verbatim>\<open>guessHangman\<close> is called by the letter buttons only, and every path through it ends
  in \<^verbatim>\<open>updateHangmanUI\<close>, which draws the button of each guessed letter disabled. So the
  page shows the state after the game is rendered and after every click.\<close>

lemma pageShown_update: "pageShown (fst (updateHangmanUI hnt h))"
  by (simp add: pageShown_def updateHangmanUI_def Let_def)

lemma pageShown_render: "pageShown (fst (renderHangmanGame lvl))"
  unfolding renderHangmanGame_def Let_def by (rule pageShown_update)

lemma pageShown_click: "pageShown h \<Longrightarrow> pageShown (fst (clickLetterButton lvl l h))"
  unfolding clickLetterButton_def guessHangman_def Let_def
  by (simp add: pageShown_update)

lemma pageShown_clicks: "pageShown h \<Longrightarrow> pageShown (clickLetters cs h)"
proof (induction cs arbitrary: h)
  case Nil
  then show ?case by simp
next
  case (Cons c cs)
  obtain lvl l where c: "c = (lvl, l)" by (cases c)
  show ?case
    unfolding c using Cons.IH[OF pageShown_click[OF Cons.prems]] by simp
qed

lemma guessed_click_ignored:
  "pageShown h \<Longrightarrow> l \<in> guessedLetters h \<Longrightarrow> clickLetterButton lvl l h = (h, None)"
  by (auto simp: pageShown_def clickLetterButton_def)

lemma click_twice:
  assumes "pageShown h"
  shows "clickLetterButton lvl' l (fst (clickLetterButton lvl l h))
           = (fst (clickLetterButton lvl l h), None)"
proof (cases "(l, False) \<in> set (letterButtons h)")
  case True
  have "l \<in> guessedLetters (fst (clickLetterButton lvl l h))"
    using True by (simp add: clickLetterButton_def guessHangman_fields)
  then show ?thesis
    using pageShown_click[OF assms] by (rule guessed_click_ignored[rotated])
next
  case False
  then show ?thesis by (simp add: clickLetterButton_def)
qed

text \<open>
  Claim C7. In every state that the page can reach, that is after
  \<^verbatim>\<open>renderHangmanGame\<close> and any run of clicks on letter buttons, a guess of a letter
  already in \<open>guessedLetters\<close> is rejected: its button is disabled, the click is not
  delivered, and the whole state, with \<open>guessedLetters\<close> and the mistake count, stays as
  it is. In particular a letter clicked a second time changes nothing, so an absent
  letter counts one mistake however often it is clicked.
\<close>

theorem repeated_guess:
  assumes "h = clickLetters cs (fst (renderHangmanGame lvl0))"
  shows "(l \<in> guessedLetters h
          \<longrightarrow> (l, False) \<notin> set (letterButtons h)
            \<and> clickLetterButton lvl l h = (h, None)
            \<and> guessedLetters (fst (clickLetterButton lvl l h)) = guessedLetters h
            \<and> mistakes (fst (clickLetterButton lvl l h)) = mistakes h)
       \<and> clickLetterButton lvl' l (fst (clickLetterButton lvl l h))
           = (fst (clickLetterButton lvl l h), None)
       \<and> mistakes (fst (clickLetterButton lvl' l (fst (clickLetterButton lvl l h))))
           \<le> mistakes h + 1"
proof -
  have p: "pageShown h"
    unfolding assms by (rule pageShown_clicks[OF pageShown_render])
  have one: "mistakes (fst (clickLetterButton lvl l h)) \<le> mistakes h + 1"
    by (simp add: clickLetterButton_def guessHangman_fields)
  have off: "(l, False) \<notin> set (letterButtons h)" if "l \<in> guessedLetters h"
    using p that by (auto simp: pageShown_def)
  show ?thesis
    using guessed_click_ignored[OF p, of l lvl] click_twice[OF p, of lvl' l lvl] one off
    by simp
qed

text \<open>\<open>GALAXY\<close>: after a click on the absent letter \<open>Z\<close> the count of mistakes is 1, and a
  second click on \<open>Z\<close> leaves the state as it is.\<close>

theorem repeated_guess_witness:
  "CHR ''Z'' \<in> guessedLetters (clickLetters [(0, CHR ''Z'')] (fst (renderHangmanGame 0)))
   \<and> mistakes (clickLetters [(0, CHR ''Z'')] (fst (renderHangmanGame 0))) = 1
   \<and> clickLetterButton 0 (CHR ''Z'') (clickLetters [(0, CHR ''Z'')] (fst (renderHangmanGame 0)))
       = (clickLetters [(0, CHR ''Z'')] (fst (renderHangmanGame 0)), None)
   \<and> mistakes (fst (clickLetterButton 0 (CHR ''Z'')
        (clickLetters [(0, CHR ''Z'')] (fst (renderHangmanGame 0))))) = 1"
proof -
  let ?h = "clickLetters [(0, CHR ''Z'')] (fst (renderHangmanGame 0))"
  have c: "clickLetterButton 0 (CHR ''Z'') (fst (renderHangmanGame 0))
             = guessHangman 0 (CHR ''Z'') (fst (renderHangmanGame 0))"
    by (simp add: clickLetterButton_def render0 alphabet_def)
  have z: "CHR ''Z'' \<in> guessedLetters ?h"
    by (simp add: c guessHangman_fields)
  have m: "mistakes ?h = 1"
    unfolding clickLetters.simps c by (simp add: guessHangman_fields render0)
  note t = repeated_guess[of ?h "[(0, CHR ''Z'')]" 0 "CHR ''Z''" 0 0, OF refl]
  from t z have i: "clickLetterButton 0 (CHR ''Z'') ?h = (?h, None)"
    and k: "mistakes (fst (clickLetterButton 0 (CHR ''Z'') ?h)) = mistakes ?h"
    by blast+
  from z m i k show ?thesis
    by (simp only: simp_thms)
qed

subsection \<open>Word and hint\<close>

lemma words_prefix: "words = take 4 lib_hangman"
  by (simp add: words_def lib_hangman_def)

lemma hints_distinct: "distinct (map hint lib_hangman)"
  by (simp add: lib_hangman_def)

lemma words_distinct: "distinct (map word lib_hangman)"
  by (simp add: lib_hangman_def)

lemma lens: "length words = 4" "length lib_hangman = 14"
  by (simp_all add: words_def lib_hangman_def)

text \<open>
  Claim C10. For every level the target word is item \<open>level mod 4\<close> of the four-word list
  inside \<open>renderHangmanGame\<close>, and the hint written after every guess is that of item
  \<open>level mod 14\<close> of the fourteen-item hangman library. Wherever the two items differ, the
  hint shown after a guess is not the hint first shown, and it belongs to a word other
  than the one being guessed.
\<close>

theorem hangman_hint_mismatch:
  "length words = 4 \<and> length lib_hangman = 14
   \<and> hangmanWord (fst (renderHangmanGame lvl)) = word (words ! (lvl mod 4))
   \<and> hintLine (fst (renderHangmanGame lvl)) = hint (words ! (lvl mod 4))
   \<and> hintLine (fst (guessHangman lvl l h)) = hint (lib_hangman ! (lvl mod 14))
   \<and> (words ! (lvl mod 4) \<noteq> lib_hangman ! (lvl mod 14) \<longrightarrow>
        hintLine (fst (guessHangman lvl l (fst (renderHangmanGame lvl))))
          \<noteq> hintLine (fst (renderHangmanGame lvl))
        \<and> word (lib_hangman ! (lvl mod 14))
          \<noteq> hangmanWord (fst (guessHangman lvl l (fst (renderHangmanGame lvl)))))"
proof -
  have a: "lvl mod 4 < 14" and b: "lvl mod 14 < 14" by simp_all
  have w: "words ! (lvl mod 4) = lib_hangman ! (lvl mod 4)"
    by (simp add: words_prefix)
  have h: "hint (lib_hangman ! i) = hint (lib_hangman ! j) \<longleftrightarrow> i = j" if "i < 14" "j < 14" for i j
    using hints_distinct that nth_eq_iff_index_eq[of "map hint lib_hangman" i j] by (simp add: lens)
  have v: "word (lib_hangman ! i) = word (lib_hangman ! j) \<longleftrightarrow> i = j" if "i < 14" "j < 14" for i j
    using words_distinct that nth_eq_iff_index_eq[of "map word lib_hangman" i j] by (simp add: lens)
  have imp: "hint (lib_hangman ! (lvl mod 14)) \<noteq> hint (lib_hangman ! (lvl mod 4))
             \<and> word (lib_hangman ! (lvl mod 14)) \<noteq> word (lib_hangman ! (lvl mod 4))"
    if "words ! (lvl mod 4) \<noteq> lib_hangman ! (lvl mod 14)"
  proof -
    from that w have "lvl mod 14 \<noteq> lvl mod 4" by auto
    then show ?thesis using h[OF b a] v[OF b a] by simp
  qed
  show ?thesis
    using imp by (simp add: lens guessHangman_fields render_fields w)
qed

text \<open>Level 4: the word is \<open>GALAXY\<close>, the hint after a guess is that of \<open>COMPUTER\<close>.\<close>

theorem hangman_hint_mismatch_witness:
  "words ! (4 mod 4) \<noteq> lib_hangman ! (4 mod 14)
   \<and> hangmanWord (fst (renderHangmanGame 4)) = ''GALAXY''
   \<and> word (lib_hangman ! (4 mod 14)) = ''COMPUTER''
   \<and> hintLine (fst (guessHangman 4 (CHR ''G'') (fst (renderHangmanGame 4))))
       = hint (lib_hangman ! (4 mod 14))
   \<and> hintLine (fst (guessHangman 4 (CHR ''G'') (fst (renderHangmanGame 4))))
       \<noteq> hintLine (fst (renderHangmanGame 4))"
proof -
  let ?r = "fst (renderHangmanGame 4)"
  let ?g = "fst (guessHangman 4 (CHR ''G'') ?r)"
  have n: "words ! (4 mod 4) \<noteq> lib_hangman ! (4 mod 14)"
    by (simp add: words_def lib_hangman_def)
  have c: "word (lib_hangman ! (4 mod 14)) = ''COMPUTER''"
    by (simp add: lib_hangman_def)
  have g: "word (words ! (4 mod 4)) = ''GALAXY''" by (simp add: words_def)
  note t = hangman_hint_mismatch[of 4 "CHR ''G''" ?r]
  from t have 1: "hangmanWord ?r = word (words ! (4 mod 4))" by blast
  from t have 2: "hintLine ?g = hint (lib_hangman ! (4 mod 14))" by blast
  from t n have 3: "hintLine ?g \<noteq> hintLine ?r" by blast
  from n c 1 2 3 g show ?thesis by (simp only: simp_thms)
qed

section \<open>Verification: letter-assembly engine\<close>

lemma reenable_placed:
  "i < length bs \<Longrightarrow> \<forall>b \<in> set bs. usedIdx b \<noteq> Some k \<Longrightarrow>
   reenable (letter (bs ! i)) k (bs[i := (bs ! i)\<lparr>usedIdx := Some k, inactive := True\<rparr>])
     = bs[i := (bs ! i)\<lparr>usedIdx := None, inactive := False\<rparr>]"
proof (induction bs arbitrary: i)
  case Nil
  then show ?case by simp
next
  case (Cons b bs)
  show ?case
  proof (cases i)
    case 0
    then show ?thesis by simp
  next
    case (Suc j)
    then show ?thesis using Cons by simp
  qed
qed

lemma undoLetter_empty: "currentGuess g = [] \<Longrightarrow> undoLetter g = Inr g"
  by (simp add: undoLetter_def)

lemma slot_restore:
  "(\<forall>i < length ss. n \<le> i \<longrightarrow> ss ! i = []) \<Longrightarrow> (ss[n := c])[n := []] = (ss :: string list)"
  by (cases "n < length ss") (simp_all add: list_update_same_conv list_update_beyond)

lemma clickTile_state:
  assumes "btn < length (letterPool g)" and "\<not> inactive (letterPool g ! btn)"
    and "length (currentGuess g) < length (answer (guessPool ! (lvl mod length guessPool)))"
    and "length (answerSlots g) = length (answer (guessPool ! (lvl mod length guessPool)))"
  shows "\<exists>out. clickTile lvl btn g = Inr
           (\<lparr>currentGuess = currentGuess g @ [letter (letterPool g ! btn)],
             letterPool = (letterPool g)[btn := (letterPool g ! btn)
                            \<lparr>usedIdx := Some (length (currentGuess g)), inactive := True\<rparr>],
             answerSlots = (answerSlots g)[length (currentGuess g) := [letter (letterPool g ! btn)]]\<rparr>,
            out)"
  using assms by (simp add: clickTile_def handleLetterClick_def Let_def)

lemma undo_click:
  assumes inv: "guessInv lvl g" and b: "btn < length (letterPool g)"
    and en: "\<not> inactive (letterPool g ! btn)"
    and len: "length (currentGuess g) < length (answer (guessPool ! (lvl mod length guessPool)))"
  shows "\<exists>g' out. clickTile lvl btn g = Inr (g', out) \<and> undoLetter g' = Inr g"
proof -
  let ?n = "length (currentGuess g)"
  let ?c = "letter (letterPool g ! btn)"
  have sl: "length (answerSlots g) = length (answer (guessPool ! (lvl mod length guessPool)))"
    using inv by (simp add: guessInv_def)
  have no: "\<forall>t \<in> set (letterPool g). usedIdx t \<noteq> Some ?n"
    using inv by (fastforce simp: guessInv_def split: option.splits)
  have mem: "letterPool g ! btn \<in> set (letterPool g)" using b by simp
  have un: "usedIdx (letterPool g ! btn) = None"
    using inv en mem unfolding guessInv_def by blast
  have same: "(letterPool g ! btn)\<lparr>usedIdx := None, inactive := False\<rparr> = letterPool g ! btn"
    using un en by simp
  have pool: "reenable ?c ?n ((letterPool g)[btn := (letterPool g ! btn)
                   \<lparr>usedIdx := Some ?n, inactive := True\<rparr>]) = letterPool g"
    using reenable_placed[OF b no] same by simp
  have slots: "((answerSlots g)[?n := [?c]])[?n := []] = answerSlots g"
    using inv by (intro slot_restore) (simp add: guessInv_def)
  obtain out where c: "clickTile lvl btn g = Inr
           (\<lparr>currentGuess = currentGuess g @ [?c],
             letterPool = (letterPool g)[btn := (letterPool g ! btn)
                            \<lparr>usedIdx := Some ?n, inactive := True\<rparr>],
             answerSlots = (answerSlots g)[?n := [?c]]\<rparr>, out)"
    using clickTile_state[OF b en len sl] by blast
  have "undoLetter \<lparr>currentGuess = currentGuess g @ [?c],
             letterPool = (letterPool g)[btn := (letterPool g ! btn)
                            \<lparr>usedIdx := Some ?n, inactive := True\<rparr>],
             answerSlots = (answerSlots g)[?n := [?c]]\<rparr> = Inr g"
    using len sl by (simp add: undoLetter_def Let_def pool slots del: list_update_overwrite)
  with c show ?thesis by blast
qed

lemma click_inv:
  assumes inv: "guessInv lvl g" and b: "btn < length (letterPool g)"
    and en: "\<not> inactive (letterPool g ! btn)"
    and len: "length (currentGuess g) < length (answer (guessPool ! (lvl mod length guessPool)))"
    and c: "clickTile lvl btn g = Inr r"
  shows "guessInv lvl (fst r)"
proof -
  let ?n = "length (currentGuess g)"
  let ?t = "(letterPool g ! btn)\<lparr>usedIdx := Some ?n, inactive := True\<rparr>"
  have sl: "length (answerSlots g) = length (answer (guessPool ! (lvl mod length guessPool)))"
    using inv by (simp add: guessInv_def)
  have tiles: "\<forall>t \<in> set ((letterPool g)[btn := ?t]).
                 (inactive t \<longleftrightarrow> usedIdx t \<noteq> None) \<and>
                 (case usedIdx t of None \<Rightarrow> True | Some i \<Rightarrow> i < Suc ?n)"
  proof
    fix t assume "t \<in> set ((letterPool g)[btn := ?t])"
    then have "t = ?t \<or> t \<in> set (letterPool g)"
      using set_update_subset_insert[of "letterPool g" btn ?t] by auto
    then show "(inactive t \<longleftrightarrow> usedIdx t \<noteq> None) \<and>
               (case usedIdx t of None \<Rightarrow> True | Some i \<Rightarrow> i < Suc ?n)"
      using inv by (fastforce simp: guessInv_def split: option.splits)
  qed
  have slots: "\<forall>i < length (answerSlots g). Suc ?n \<le> i \<longrightarrow> (answerSlots g)[?n := c] ! i = []" for c
    using inv by (simp add: guessInv_def)
  have r: "fst r = \<lparr>currentGuess = currentGuess g @ [letter (letterPool g ! btn)],
             letterPool = (letterPool g)[btn := ?t],
             answerSlots = (answerSlots g)[?n := [letter (letterPool g ! btn)]]\<rparr>"
    using clickTile_state[OF b en len sl] c by auto
  show ?thesis
    unfolding r guessInv_def
    using tiles slots sl by (simp cong: option.case_cong)
qed

lemma click_others:
  assumes b: "btn < length (letterPool g)" and en: "\<not> inactive (letterPool g ! btn)"
    and len: "length (currentGuess g) < length (answer (guessPool ! (lvl mod length guessPool)))"
    and sl: "length (answerSlots g) = length (answer (guessPool ! (lvl mod length guessPool)))"
    and c: "clickTile lvl btn g = Inr r"
  shows "length (letterPool (fst r)) = length (letterPool g)"
    and "i \<noteq> btn \<Longrightarrow> letterPool (fst r) ! i = letterPool g ! i"
    and "inactive (letterPool (fst r) ! btn)"
    and "currentGuess (fst r) = currentGuess g @ [letter (letterPool g ! btn)]"
proof -
  have r: "fst r = \<lparr>currentGuess = currentGuess g @ [letter (letterPool g ! btn)],
             letterPool = (letterPool g)[btn := (letterPool g ! btn)
                            \<lparr>usedIdx := Some (length (currentGuess g)), inactive := True\<rparr>],
             answerSlots = (answerSlots g)
                             [length (currentGuess g) := [letter (letterPool g ! btn)]]\<rparr>"
    using clickTile_state[OF b en len sl] c by auto
  show "length (letterPool (fst r)) = length (letterPool g)"
    and "i \<noteq> btn \<Longrightarrow> letterPool (fst r) ! i = letterPool g ! i"
    and "inactive (letterPool (fst r) ! btn)"
    and "currentGuess (fst r) = currentGuess g @ [letter (letterPool g ! btn)]"
    unfolding r using b by simp_all
qed

lemma undoTimes_Suc:
  "undoTimes (Suc n) g = (case undoTimes n g of Inl e \<Rightarrow> Inl e | Inr g' \<Rightarrow> undoLetter g')"
proof (induction n arbitrary: g)
  case 0
  show ?case by (simp split: sum.splits)
next
  case (Suc n)
  show ?case
  proof (cases "undoLetter g")
    case (Inl e)
    then show ?thesis by simp
  next
    case (Inr g')
    have "undoTimes (Suc (Suc n)) g = undoTimes (Suc n) g'"
      using Inr by simp
    also have "\<dots> = (case undoTimes n g' of Inl e \<Rightarrow> Inl e | Inr g'' \<Rightarrow> undoLetter g'')"
      by (rule Suc.IH)
    also have "undoTimes n g' = undoTimes (Suc n) g"
      using Inr by simp
    finally show ?thesis .
  qed
qed

lemma clickTile_untouched:
  "clickTile lvl btn g = Inr r \<Longrightarrow> i \<noteq> btn \<Longrightarrow> letterPool (fst r) ! i = letterPool g ! i"
  by (auto simp: clickTile_def handleLetterClick_def Let_def split: if_splits)

lemma clickTiles_other:
  "clickTiles lvl btns g = Inr g' \<Longrightarrow> i \<notin> set btns \<Longrightarrow> letterPool g' ! i = letterPool g ! i"
proof (induction btns arbitrary: g)
  case Nil
  then show ?case by simp
next
  case (Cons b btns)
  from Cons.prems(1) obtain r where r: "clickTile lvl b g = Inr r"
    and rest: "clickTiles lvl btns (fst r) = Inr g'"
    by (auto split: sum.splits)
  have "letterPool g' ! i = letterPool (fst r) ! i"
    using Cons.IH[OF rest] Cons.prems(2) by simp
  also have "\<dots> = letterPool g ! i"
    using clickTile_untouched[OF r] Cons.prems(2) by simp
  finally show ?case .
qed

lemma clicks_undone:
  "guessInv lvl g \<Longrightarrow> distinct btns
   \<Longrightarrow> \<forall>b \<in> set btns. b < length (letterPool g) \<and> \<not> inactive (letterPool g ! b)
   \<Longrightarrow> length (currentGuess g) + length btns \<le> length (answer (guessPool ! (lvl mod length guessPool)))
   \<Longrightarrow> \<exists>g'. clickTiles lvl btns g = Inr g'
     \<and> currentGuess g' = currentGuess g @ map (\<lambda>b. letter (letterPool g ! b)) btns
     \<and> (\<forall>b \<in> set btns. inactive (letterPool g' ! b))
     \<and> undoTimes (length btns) g' = Inr g"
proof (induction btns arbitrary: g)
  case Nil
  then show ?case by simp
next
  case (Cons b btns)
  have b: "b < length (letterPool g)" and en: "\<not> inactive (letterPool g ! b)"
    and len: "length (currentGuess g) < length (answer (guessPool ! (lvl mod length guessPool)))"
    using Cons.prems by auto
  have sl: "length (answerSlots g) = length (answer (guessPool ! (lvl mod length guessPool)))"
    using Cons.prems(1) by (simp add: guessInv_def)
  obtain g1 out where c: "clickTile lvl b g = Inr (g1, out)" and u: "undoLetter g1 = Inr g"
    using undo_click[OF Cons.prems(1) b en len] by blast
  note o = click_others[OF b en len sl c, simplified]
  have inv1: "guessInv lvl g1"
    using click_inv[OF Cons.prems(1) b en len c] by simp
  have same: "letterPool g1 ! x = letterPool g ! x" if "x \<in> set btns" for x
    using that Cons.prems(2) o(2)[of x] by auto
  have "\<exists>g'. clickTiles lvl btns g1 = Inr g'
     \<and> currentGuess g' = currentGuess g1 @ map (\<lambda>b. letter (letterPool g1 ! b)) btns
     \<and> (\<forall>b \<in> set btns. inactive (letterPool g' ! b))
     \<and> undoTimes (length btns) g' = Inr g1"
    using Cons.prems inv1 o same by (intro Cons.IH) auto
  then obtain g' where run: "clickTiles lvl btns g1 = Inr g'"
    and guess: "currentGuess g' = currentGuess g1 @ map (\<lambda>b. letter (letterPool g1 ! b)) btns"
    and grey: "\<forall>b \<in> set btns. inactive (letterPool g' ! b)"
    and undo: "undoTimes (length btns) g' = Inr g1"
    by blast
  have m: "map (\<lambda>b. letter (letterPool g1 ! b)) btns = map (\<lambda>b. letter (letterPool g ! b)) btns"
    using same by simp
  have stay: "inactive (letterPool g' ! b)"
    using clickTiles_other[OF run, of b] Cons.prems(2) o(3) by simp
  have all: "clickTiles lvl (b # btns) g = Inr g'"
    using c run by simp
  have bk: "undoTimes (length (b # btns)) g' = Inr g"
    using undo u by (simp add: undoTimes_Suc del: undoTimes.simps)
  show ?case
    using all guess grey stay bk m o(4) by auto
qed

lemma render_inv: "guessInv lvl (renderGuessGame lvl pool)"
  by (simp add: guessInv_def renderGuessGame_def Let_def)

text \<open>A page that outlives its level: the last letter of \<open>APPLE\<close> calls \<^verbatim>\<open>successAction\<close>,
  which raises \<^verbatim>\<open>currentLevel\<close> to 1 at once, while the page with its five slots stays
  for 1500 ms. A click on a free tile then compares the guess with \<open>PUZZLE\<close>, reaches for
  a sixth slot and throws; so does undo on a page whose slots are fewer than the guess
  is long.\<close>

lemma stale_page_throws:
  "clickTiles 0 [3, 0, 4, 1, 2] (renderGuessGame 0 ''PLEAPXQZ'') = Inr g
   \<Longrightarrow> clickTile 1 5 g = Inl TypeError"
  and "undoLetter \<lparr>currentGuess = ''AB'', letterPool = [], answerSlots = [''A'']\<rparr> = Inl TypeError"
  by (auto simp: renderGuessGame_def guessPool_def clickTile_def handleLetterClick_def
      undoLetter_def Let_def)

text \<open>
  Claim C8. On the page of a level, in a state that satisfies the engine's invariant,
  undo on an empty guess changes nothing; and any run of clicks on distinct available
  tiles that fits into the answer goes through, after it the guess holds the clicked
  letters and the clicked tiles are greyed out, and as many undos as there were clicks
  go through and give back the state before the run: the guess, every tile with its
  availability and \<^verbatim>\<open>usedIdx\<close>, and the slot texts. For a single click, one undo gives
  back the state before it, so it re-enables the very tile that filled the slot.
\<close>

theorem undo_restores:
  assumes "guessInv lvl g"
  shows "(currentGuess g = [] \<longrightarrow> undoLetter g = Inr g)
       \<and> (distinct btns
          \<and> (\<forall>b \<in> set btns. b < length (letterPool g) \<and> \<not> inactive (letterPool g ! b))
          \<and> length (currentGuess g) + length btns
              \<le> length (answer (guessPool ! (lvl mod length guessPool)))
          \<longrightarrow> (\<exists>g'. clickTiles lvl btns g = Inr g'
                \<and> currentGuess g' = currentGuess g @ map (\<lambda>b. letter (letterPool g ! b)) btns
                \<and> (\<forall>b \<in> set btns. inactive (letterPool g' ! b))
                \<and> undoTimes (length btns) g' = Inr g)
            \<and> (\<forall>b. btns = [b]
                 \<longrightarrow> (\<exists>g' out. clickTile lvl b g = Inr (g', out) \<and> undoLetter g' = Inr g)))"
proof -
  have one: "\<exists>g' out. clickTile lvl b g = Inr (g', out) \<and> undoLetter g' = Inr g"
    if "b < length (letterPool g) \<and> \<not> inactive (letterPool g ! b)"
      and "length (currentGuess g) + 1 \<le> length (answer (guessPool ! (lvl mod length guessPool)))"
    for b
    using undo_click[OF assms, of b] that by simp
  show ?thesis
    using clicks_undone[OF assms, of btns] undoLetter_empty[of g] one
    by auto
qed

text \<open>Level 0 (\<open>APPLE\<close>) with the pool \<open>PLEAPXQZ\<close>: the tiles 3, 0, 4, 1, 2 spell the word, and
  five undos restore the rendered state, in which the two \<open>P\<close> tiles are distinct.\<close>

theorem undo_restores_witness:
  "guessInv 0 (renderGuessGame 0 ''PLEAPXQZ'')
   \<and> (\<exists>g'. clickTiles 0 [3, 0, 4, 1, 2] (renderGuessGame 0 ''PLEAPXQZ'') = Inr g'
        \<and> currentGuess g' = ''APPLE''
        \<and> undoTimes 5 g' = Inr (renderGuessGame 0 ''PLEAPXQZ''))
   \<and> undoLetter (renderGuessGame 0 ''PLEAPXQZ'') = Inr (renderGuessGame 0 ''PLEAPXQZ'')"
proof -
  let ?g = "renderGuessGame 0 ''PLEAPXQZ''"
  have g: "?g = \<lparr>currentGuess = [],
          letterPool = map (\<lambda>l. \<lparr>letter = l, usedIdx = None, inactive = False\<rparr>) ''PLEAPXQZ'',
          answerSlots = [[], [], [], [], []]\<rparr>"
    by (simp add: renderGuessGame_def guessPool_def)
  have a: "answer (guessPool ! (0 mod length guessPool)) = ''APPLE''"
    by (simp add: guessPool_def)
  have h: "distinct [3, 0, 4, 1, 2::nat]
          \<and> (\<forall>b \<in> set [3, 0, 4, 1, 2]. b < length (letterPool ?g) \<and> \<not> inactive (letterPool ?g ! b))
          \<and> length (currentGuess ?g) + length [3, 0, 4, 1, 2::nat]
              \<le> length (answer (guessPool ! (0 mod length guessPool)))"
    unfolding a by (simp add: g)
  have e: "currentGuess ?g = []" by (simp add: g)
  note t = undo_restores[OF render_inv, of 0 "''PLEAPXQZ''" "[3, 0, 4, 1, 2]"]
  from t e have 1: "undoLetter ?g = Inr ?g" by blast
  from t h obtain g' where 2: "clickTiles 0 [3, 0, 4, 1, 2] ?g = Inr g'"
    and 3: "currentGuess g' = currentGuess ?g @ map (\<lambda>b. letter (letterPool ?g ! b)) [3, 0, 4, 1, 2]"
    and 4: "undoTimes (length [3, 0, 4, 1, 2::nat]) g' = Inr ?g"
    by blast
  have 5: "currentGuess ?g @ map (\<lambda>b. letter (letterPool ?g ! b)) [3, 0, 4, 1, 2] = ''APPLE''"
    by (simp add: g)
  have 6: "length [3, 0, 4, 1, 2::nat] = 5" by simp
  from 1 2 3 4 render_inv[of 0 "''PLEAPXQZ''"] show ?thesis
    unfolding 5 6 by blast
qed

section \<open>Verification: progression controller\<close>

subsection \<open>What the transitions write\<close>

lemma successAction_state:
  "successAction txt s =
     s\<lparr>score := score s + 10,
       feedback := feedback s @ [(True, txt)],
       currentLevel := currentLevel s + 1,
       progress := (progress s)(currentGame s \<mapsto>
          (case progress s (currentGame s) of None \<Rightarrow> defaultRecord | Some r \<Rightarrow> r)
            \<lparr>level := currentLevel s + 1\<rparr>),
       scheduled := scheduled s @
          [(CbNextLevel, if txt \<noteq> [] \<and> (currentGame s = DAYS \<or> currentGame s = MONTHS)
                         then 1500 else 2000)]\<rparr>"
  by (simp add: successAction_def showFeedback_def setTimeout_def Let_def)

lemma report_Failed_state:
  "report (Failed txt d) s =
     s\<lparr>feedback := feedback s @ [(False, txt)], scheduled := scheduled s @ [(CbRenderLevel, d)]\<rparr>"
  by (simp add: failAction_def showFeedback_def setTimeout_def)

lemma renderLevel_fields:
  "rendered (renderLevel s) = rendered s @ [(currentGame s, currentLevel s)]"
  "progress (renderLevel s) = progress s"
  "storage (renderLevel s) = storage s"
  "score (renderLevel s) = score s"
  "currentLevel (renderLevel s) = currentLevel s"
  "currentGame (renderLevel s) = currentGame s"
  "maxLevels (renderLevel s) = maxLevels s"
  "scheduled (renderLevel s) = scheduled s"
  "feedback (renderLevel s) = feedback s"
  by (simp_all add: renderLevel_def startTimer_def Let_def)

lemma newApp_fields:
  "score (newApp st) = 0" "currentLevel (newApp st) = 0" "maxLevels (newApp st) = 200"
  "progress (newApp st) = loadProgress st" "storage (newApp st) = st"
  "scheduled (newApp st) = []" "rendered (newApp st) = []" "feedback (newApp st) = []"
  "timerInterval (newApp st) = False"
  by (simp_all add: newApp_def)

text \<open>Entering a session through \<open>startGame\<close> makes the current level that of the record,
  the hypothesis of the success theorem below.\<close>

lemma startGame_session:
  "\<not> completed (case progress s g of None \<Rightarrow> defaultRecord | Some x \<Rightarrow> x) \<Longrightarrow>
   currentGame (startGame g s) = g \<and> score (startGame g s) = 0 \<and>
   progress (startGame g s) = progress s \<and>
   currentLevel (startGame g s) = level (case progress s g of None \<Rightarrow> defaultRecord | Some x \<Rightarrow> x)"
  by (simp add: startGame_def actualStart_def renderLevel_fields Let_def)

subsection \<open>Success\<close>

text \<open>
  Claim C2. In a session the record of the current game holds the current level (that is
  how \<open>startGame\<close> enters it; a missing record counts as the default one). Then a success
  adds 10 to the score and one to the level of the record, and schedules \<open>nextLevel\<close>.
  When the new level has reached \<open>maxLevels\<close>, \<open>nextLevel\<close> sets \<open>completed\<close>, adds one
  medal, resets the level to 0, saves, renders nothing and schedules the return to the
  menu; otherwise it saves and renders the same game at the new level.
\<close>

theorem success_transition:
  assumes "r = (case progress s (currentGame s) of None \<Rightarrow> defaultRecord | Some x \<Rightarrow> x)"
    and "level r = currentLevel s"
  shows "score (successAction txt s) = score s + 10
    \<and> currentGame (successAction txt s) = currentGame s
    \<and> currentLevel (successAction txt s) = level r + 1
    \<and> progress (successAction txt s) = (progress s)(currentGame s \<mapsto> r\<lparr>level := level r + 1\<rparr>)
    \<and> scheduled (successAction txt s) = scheduled s @
         [(CbNextLevel, if txt \<noteq> [] \<and> (currentGame s = DAYS \<or> currentGame s = MONTHS)
                        then 1500 else 2000)]
    \<and> (maxLevels s \<le> level r + 1 \<longrightarrow>
         (\<exists>s'. runCallback CbNextLevel (successAction txt s) = Inr s'
            \<and> progress s' = (progress s)(currentGame s \<mapsto>
                  r\<lparr>medals := medals r + 1, completed := True, level := 0\<rparr>)
            \<and> storage s' = Document (progress s')
            \<and> score s' = score s + 10
            \<and> rendered s' = rendered s
            \<and> scheduled s' = scheduled (successAction txt s) @ [(CbShowMenu, 1000)]
            \<and> runCallback CbShowMenu s' = Inr (showMenu s')
            \<and> menuShown (showMenu s') \<and> \<not> timerInterval (showMenu s')))
    \<and> (level r + 1 < maxLevels s \<longrightarrow>
         (\<exists>s'. runCallback CbNextLevel (successAction txt s) = Inr s'
            \<and> progress s' = (progress s)(currentGame s \<mapsto> r\<lparr>level := level r + 1\<rparr>)
            \<and> storage s' = Document (progress s')
            \<and> score s' = score s + 10
            \<and> rendered s' = rendered s @ [(currentGame s, level r + 1)]
            \<and> scheduled s' = scheduled (successAction txt s)))"
proof -
  let ?s1 = "successAction txt s"
  have f: "score ?s1 = score s + 10" "currentGame ?s1 = currentGame s"
    "currentLevel ?s1 = level r + 1" "maxLevels ?s1 = maxLevels s" "rendered ?s1 = rendered s"
    "progress ?s1 = (progress s)(currentGame s \<mapsto> r\<lparr>level := level r + 1\<rparr>)"
    "scheduled ?s1 = scheduled s @
         [(CbNextLevel, if txt \<noteq> [] \<and> (currentGame s = DAYS \<or> currentGame s = MONTHS)
                        then 1500 else 2000)]"
    using assms by (simp_all add: successAction_state)
  have hi: "nextLevel ?s1 = Inr (setTimeout CbShowMenu 1000 (saveProgress
              (?s1\<lparr>progress := (progress ?s1)(currentGame s \<mapsto>
                  r\<lparr>medals := medals r + 1, completed := True, level := 0\<rparr>)\<rparr>)))"
    if "maxLevels s \<le> level r + 1"
    using that by (simp add: nextLevel_def f Let_def)
  have lo: "nextLevel ?s1 = Inr (renderLevel (saveProgress ?s1))"
    if "level r + 1 < maxLevels s"
    using that by (simp add: nextLevel_def f)
  show ?thesis
    using hi lo
    by (auto simp: f runCallback_def renderLevel_fields saveProgress_def setTimeout_def
          showMenu_def stopTimer_def)
qed

text \<open>With \<open>maxLevels = 200\<close>: a success at level 199 awards the third medal, and a success
  at level 0 of a fresh application renders level 1.\<close>

theorem success_transition_witness:
  "currentLevel (startGame ANIMAL (newApp (Document (\<lambda>g. Some \<lparr>level = 199, medals = 2, completed = False\<rparr>)))) = 199
   \<and> (\<exists>s'. runCallback CbNextLevel (successAction ''Cat''
               (startGame ANIMAL (newApp (Document (\<lambda>g. Some \<lparr>level = 199, medals = 2, completed = False\<rparr>))))) = Inr s'
         \<and> progress s' ANIMAL = Some \<lparr>level = 0, medals = 3, completed = True\<rparr>
         \<and> score s' = 10
         \<and> scheduled s' = [(CbNextLevel, 2000), (CbShowMenu, 1000)])
   \<and> (\<exists>s'. runCallback CbNextLevel (successAction ''Cat'' (startGame ANIMAL (newApp Absent))) = Inr s'
         \<and> progress s' ANIMAL = Some \<lparr>level = 1, medals = 0, completed = False\<rparr>
         \<and> rendered s' = [(ANIMAL, 0), (ANIMAL, 1)])"
proof -
  let ?r = "\<lparr>level = 199, medals = 2, completed = False\<rparr>"
  let ?a = "newApp (Document (\<lambda>g. Some ?r))"
  let ?s = "startGame ANIMAL ?a"
  let ?t = "startGame ANIMAL (newApp Absent)"
  have a: "\<not> completed (case progress ?a ANIMAL of None \<Rightarrow> defaultRecord | Some x \<Rightarrow> x)"
    by (simp add: newApp_fields loadProgress_def)
  have b: "\<not> completed (case progress (newApp Absent) ANIMAL of None \<Rightarrow> defaultRecord | Some x \<Rightarrow> x)"
    by (simp add: newApp_fields loadProgress_def defaultRecord_def)
  note sa = startGame_session[OF a] and sb = startGame_session[OF b]
  have s: "currentGame ?s = ANIMAL" "currentLevel ?s = 199" "progress ?s ANIMAL = Some ?r"
    "maxLevels ?s = 200" "score ?s = 0" "scheduled ?s = []"
    using sa by (simp_all add: newApp_fields loadProgress_def startGame_def actualStart_def renderLevel_fields)
  have t: "currentGame ?t = ANIMAL" "currentLevel ?t = 0" "progress ?t ANIMAL = Some defaultRecord"
    "maxLevels ?t = 200" "rendered ?t = [(ANIMAL, 0)]"
    using sb by (simp_all add: newApp_fields loadProgress_def startGame_def actualStart_def
        renderLevel_fields defaultRecord_def)
  have 1: "?r = (case progress ?s (currentGame ?s) of None \<Rightarrow> defaultRecord | Some x \<Rightarrow> x)"
    by (simp add: s)
  have 2: "defaultRecord = (case progress ?t (currentGame ?t) of None \<Rightarrow> defaultRecord | Some x \<Rightarrow> x)"
    by (simp add: t)
  have 3: "level ?r = currentLevel ?s" "level defaultRecord = currentLevel ?t"
    by (simp_all add: s t defaultRecord_def)
  from success_transition[OF 1 3(1), of "''Cat''"] success_transition[OF 2 3(2), of "''Cat''"]
  show ?thesis
    by (auto simp: s t defaultRecord_def)
qed

text \<open>From a session at level \<open>maxLevels - n\<close>, \<open>n\<close> successes in a row, each followed by
  its \<open>nextLevel\<close>, end with the medal, the reset level and the completed flag.\<close>

lemma succeedTimes_reaches_max:
  "n > 0 \<Longrightarrow> currentLevel s + n = maxLevels s \<Longrightarrow>
   r = (case progress s (currentGame s) of None \<Rightarrow> defaultRecord | Some x \<Rightarrow> x) \<Longrightarrow>
   \<exists>s'. succeedTimes n txt s = Inr s'
      \<and> progress s' (currentGame s)
           = Some (r\<lparr>medals := medals r + 1, completed := True, level := 0\<rparr>)
      \<and> score s' = score s + 10 * n
      \<and> storage s' = Document (progress s')"
proof (induction n arbitrary: s r)
  case 0
  then show ?case by simp
next
  case (Suc n)
  let ?s1 = "successAction txt s"
  have f: "currentGame ?s1 = currentGame s" "currentLevel ?s1 = currentLevel s + 1"
    "maxLevels ?s1 = maxLevels s" "score ?s1 = score s + 10"
    "progress ?s1 (currentGame s) = Some (r\<lparr>level := currentLevel s + 1\<rparr>)"
    using Suc.prems by (simp_all add: successAction_state)
  show ?case
  proof (cases n)
    case 0
    then have "maxLevels s \<le> currentLevel ?s1" using Suc.prems f by simp
    then show ?thesis using 0 f
      by (simp add: nextLevel_def Let_def saveProgress_def setTimeout_def)
  next
    case (Suc m)
    then have lt: "\<not> maxLevels s \<le> currentLevel ?s1" using Suc.prems f by simp
    let ?s2 = "renderLevel (saveProgress ?s1)"
    have n: "nextLevel ?s1 = Inr ?s2" using lt by (simp add: nextLevel_def f)
    have g: "currentGame ?s2 = currentGame s" "currentLevel ?s2 + n = maxLevels ?s2"
      "score ?s2 = score s + 10"
      "progress ?s2 (currentGame s) = Some (r\<lparr>level := currentLevel s + 1\<rparr>)"
      using Suc.prems f by (simp_all add: renderLevel_fields saveProgress_def)
    have "\<exists>s'. succeedTimes n txt ?s2 = Inr s'
      \<and> progress s' (currentGame ?s2)
           = Some ((r\<lparr>level := currentLevel s + 1\<rparr>)
                \<lparr>medals := medals (r\<lparr>level := currentLevel s + 1\<rparr>) + 1, completed := True, level := 0\<rparr>)
      \<and> score s' = score ?s2 + 10 * n
      \<and> storage s' = Document (progress s')"
      using Suc g by (intro Suc.IH) simp_all
    then show ?thesis using n g by auto
  qed
qed

subsection \<open>Failure\<close>

lemma tick_expiry:
  "timerInterval s \<Longrightarrow> timeLeft s \<le> 1 \<Longrightarrow>
   tick s = s\<lparr>timeLeft := timeLeft s - 1, timerInterval := False,
              feedback := feedback s @ [(False, [])],
              scheduled := scheduled s @ [(CbRenderLevel, 1000)]\<rparr>"
  by (simp add: tick_def Let_def stopTimer_def failAction_def showFeedback_def setTimeout_def)

lemma tick_running:
  "timerInterval s \<Longrightarrow> 1 < timeLeft s \<Longrightarrow> tick s = s\<lparr>timeLeft := timeLeft s - 1\<rparr>"
  by (simp add: tick_def Let_def)

lemma ticks_running:
  "timerInterval s \<Longrightarrow> int n < timeLeft s \<Longrightarrow> ticks n s = s\<lparr>timeLeft := timeLeft s - int n\<rparr>"
proof (induction n arbitrary: s)
  case 0
  then show ?case by simp
next
  case (Suc n)
  then have "tick s = s\<lparr>timeLeft := timeLeft s - 1\<rparr>" by (intro tick_running) auto
  then show ?case using Suc by simp
qed

lemma ticks_Suc: "ticks (Suc n) s = tick (ticks n s)"
  by (induction n arbitrary: s) simp_all

lemma countdown_expires:
  assumes "timerInterval s" and "timeLeft s = int n" and "0 < n"
  shows "ticks n s = s\<lparr>timeLeft := 0, timerInterval := False,
              feedback := feedback s @ [(False, [])],
              scheduled := scheduled s @ [(CbRenderLevel, 1000)]\<rparr>"
proof -
  obtain m where n: "n = Suc m" using assms(3) by (cases n) auto
  have "ticks m s = s\<lparr>timeLeft := timeLeft s - int m\<rparr>"
    using assms n by (intro ticks_running) auto
  then show ?thesis
    using assms n by (simp only: n ticks_Suc) (simp add: tick_expiry)
qed

text \<open>
  Claim C3. A failed outcome leaves the progress records, the stored document, the
  score, the level and the game type as they were; it shows the failure mark and
  schedules \<open>renderLevel\<close> after the delay, and that call asks for the same game at the
  same level. A wrong translate answer is such an outcome, and so is the countdown
  reaching 0: the interval callback only counts down while more than one second is left
  and reports one failure at the last second. Starting translate at level 0 and letting
  ten seconds pass gives exactly one failure mark, no change of progress, and a second
  rendering of level 0.
\<close>

theorem fail_transition:
  "progress (report (Failed txt d) s) = progress s
   \<and> storage (report (Failed txt d) s) = storage s
   \<and> score (report (Failed txt d) s) = score s
   \<and> currentLevel (report (Failed txt d) s) = currentLevel s
   \<and> currentGame (report (Failed txt d) s) = currentGame s
   \<and> feedback (report (Failed txt d) s) = feedback s @ [(False, txt)]
   \<and> scheduled (report (Failed txt d) s) = scheduled s @ [(CbRenderLevel, d)]
   \<and> runCallback CbRenderLevel (report (Failed txt d) s) = Inr (renderLevel (report (Failed txt d) s))
   \<and> rendered (renderLevel (report (Failed txt d) s)) = rendered s @ [(currentGame s, currentLevel s)]
   \<and> progress (renderLevel (report (Failed txt d) s)) = progress s
   \<and> score (renderLevel (report (Failed txt d) s)) = score s
   \<and> (selected \<noteq> corr \<and> corr < length opts \<longrightarrow>
        checkTranslate selected corr opts s
          = Inr (report (Failed (opts ! corr) 2000) (stopTimer s)))
   \<and> (chosen \<noteq> right \<longrightarrow> checkChoice chosen right = Failed right 2000)
   \<and> (timerInterval s \<and> 1 < timeLeft s \<longrightarrow> tick s = s\<lparr>timeLeft := timeLeft s - 1\<rparr>)
   \<and> (timerInterval s \<and> timeLeft s \<le> 1 \<longrightarrow>
        tick s = report (Failed [] 1000) (stopTimer (s\<lparr>timeLeft := timeLeft s - 1\<rparr>)))
   \<and> ticks 10 (actualStart TRANSLATE 0 s)
       = (actualStart TRANSLATE 0 s)\<lparr>timeLeft := 0, timerInterval := False,
            feedback := feedback s @ [(False, [])],
            scheduled := scheduled s @ [(CbRenderLevel, 1000)]\<rparr>
   \<and> progress (ticks 10 (actualStart TRANSLATE 0 s)) = progress s
   \<and> storage (ticks 10 (actualStart TRANSLATE 0 s)) = storage s
   \<and> rendered (renderLevel (ticks 10 (actualStart TRANSLATE 0 s)))
       = rendered s @ [(TRANSLATE, 0), (TRANSLATE, 0)]"
proof -
  let ?a = "actualStart TRANSLATE 0 s"
  have a: "timerInterval ?a" "timeLeft ?a = int 10" "feedback ?a = feedback s"
    "scheduled ?a = scheduled s" "progress ?a = progress s" "storage ?a = storage s"
    "rendered ?a = rendered s @ [(TRANSLATE, 0)]" "currentGame ?a = TRANSLATE" "currentLevel ?a = 0"
    by (simp_all add: actualStart_def renderLevel_def startTimer_def timeLimit_def Let_def)
  have e: "ticks 10 ?a = ?a\<lparr>timeLeft := 0, timerInterval := False,
            feedback := feedback s @ [(False, [])],
            scheduled := scheduled s @ [(CbRenderLevel, 1000)]\<rparr>"
    using countdown_expires[OF a(1) a(2)] by (simp add: a)
  have t: "timerInterval s \<and> timeLeft s \<le> 1 \<longrightarrow>
        tick s = report (Failed [] 1000) (stopTimer (s\<lparr>timeLeft := timeLeft s - 1\<rparr>))"
    by (simp add: tick_def Let_def)
  have c: "selected \<noteq> corr \<and> corr < length opts \<longrightarrow>
        checkTranslate selected corr opts s
          = Inr (report (Failed (opts ! corr) 2000) (stopTimer s))"
    by (simp add: checkTranslate_def Let_def)
  have k: "chosen \<noteq> right \<longrightarrow> checkChoice chosen right = Failed right 2000"
    by (simp add: checkChoice_def)
  show ?thesis
    unfolding e
    using t c k
    by (simp add: failAction_def showFeedback_def setTimeout_def renderLevel_fields
          runCallback_def tick_running a)
qed

text \<open>On a fresh application: nine ticks report nothing, the tenth reports the failure, and
  a wrong answer is a failure whose text is that of the correct button.\<close>

theorem fail_transition_witness:
  "tick (actualStart TRANSLATE 0 (newApp Absent))
      = (actualStart TRANSLATE 0 (newApp Absent))\<lparr>timeLeft := 9\<rparr>
   \<and> ticks 9 (actualStart TRANSLATE 0 (newApp Absent))
      = (actualStart TRANSLATE 0 (newApp Absent))\<lparr>timeLeft := 1\<rparr>
   \<and> feedback (ticks 9 (actualStart TRANSLATE 0 (newApp Absent))) = []
   \<and> tick ((actualStart TRANSLATE 0 (newApp Absent))\<lparr>timeLeft := 1\<rparr>)
      = report (Failed [] 1000)
          (stopTimer ((actualStart TRANSLATE 0 (newApp Absent))\<lparr>timeLeft := 0\<rparr>))
   \<and> feedback (ticks 10 (actualStart TRANSLATE 0 (newApp Absent))) = [(False, [])]
   \<and> scheduled (ticks 10 (actualStart TRANSLATE 0 (newApp Absent))) = [(CbRenderLevel, 1000)]
   \<and> progress (ticks 10 (actualStart TRANSLATE 0 (newApp Absent))) = progress (newApp Absent)
   \<and> rendered (renderLevel (ticks 10 (actualStart TRANSLATE 0 (newApp Absent))))
       = [(TRANSLATE, 0), (TRANSLATE, 0)]
   \<and> checkTranslate 1 2 [''a'', ''b'', ''c'', ''d''] (actualStart TRANSLATE 0 (newApp Absent))
       = Inr (report (Failed ''c'' 2000) (stopTimer (actualStart TRANSLATE 0 (newApp Absent))))
   \<and> checkChoice ''Dog'' ''Cat'' = Failed ''Cat'' 2000"
proof -
  let ?a = "actualStart TRANSLATE 0 (newApp Absent)"
  let ?opts = "[''a'', ''b'', ''c'', ''d'']"
  have a: "timerInterval ?a" "timeLeft ?a = 10" "feedback ?a = []"
    by (simp_all add: actualStart_def renderLevel_def startTimer_def timeLimit_def Let_def
          newApp_fields)
  have n: "ticks 9 ?a = ?a\<lparr>timeLeft := 1\<rparr>"
    using ticks_running[of ?a 9] a by simp
  note t = fail_transition[where s = "newApp Absent" and selected = 1 and corr = 2
      and opts = "?opts" and chosen = "''Dog''" and right = "''Cat''"]
  note u = fail_transition[where s = "?a" and selected = 1 and corr = 2
      and opts = "?opts" and chosen = "''Dog''" and right = "''Cat''"]
  note v = fail_transition[where s = "?a\<lparr>timeLeft := 1\<rparr>" and selected = 1 and corr = 2
      and opts = "?opts" and chosen = "''Dog''" and right = "''Cat''"]
  have h1: "(1::nat) \<noteq> 2 \<and> 2 < length ?opts" by simp
  have h2: "''Dog'' \<noteq> ''Cat''" by simp
  have h3: "timerInterval ?a \<and> 1 < timeLeft ?a" using a by simp
  have h4: "timerInterval (?a\<lparr>timeLeft := 1\<rparr>) \<and> timeLeft (?a\<lparr>timeLeft := 1\<rparr>) \<le> 1"
    using a by simp
  from u h1 have 1: "checkTranslate 1 2 ?opts ?a
       = Inr (report (Failed (?opts ! 2) 2000) (stopTimer ?a))" by blast
  from u h2 have 2: "checkChoice ''Dog'' ''Cat'' = Failed ''Cat'' 2000" by blast
  from u h3 have 3: "tick ?a = ?a\<lparr>timeLeft := timeLeft ?a - 1\<rparr>" by blast
  from v h4 have 4: "tick (?a\<lparr>timeLeft := 1\<rparr>)
      = report (Failed [] 1000)
          (stopTimer (?a\<lparr>timeLeft := 1, timeLeft := timeLeft (?a\<lparr>timeLeft := 1\<rparr>) - 1\<rparr>))"
    by blast
  from t have e: "ticks 10 ?a = ?a\<lparr>timeLeft := 0, timerInterval := False,
            feedback := feedback (newApp Absent) @ [(False, [])],
            scheduled := scheduled (newApp Absent) @ [(CbRenderLevel, 1000)]\<rparr>" by blast
  from t have r: "rendered (renderLevel (ticks 10 ?a))
         = rendered (newApp Absent) @ [(TRANSLATE, 0), (TRANSLATE, 0)]"
    and p: "progress (ticks 10 ?a) = progress (newApp Absent)" by blast+
  have t9: "tick ?a = ?a\<lparr>timeLeft := 9\<rparr>" using 3 a by simp
  have t0: "tick (?a\<lparr>timeLeft := 1\<rparr>)
      = report (Failed [] 1000) (stopTimer (?a\<lparr>timeLeft := 0\<rparr>))" using 4 by simp
  have ct: "checkTranslate 1 2 ?opts ?a = Inr (report (Failed ''c'' 2000) (stopTimer ?a))"
    using 1 by simp
  have 5: "feedback (ticks 9 ?a) = []" unfolding n using a by simp
  have 6: "feedback (ticks 10 ?a) = [(False, [])]"
    "scheduled (ticks 10 ?a) = [(CbRenderLevel, 1000)]"
    unfolding e by (simp_all add: newApp_fields)
  have 7: "rendered (renderLevel (ticks 10 ?a)) = [(TRANSLATE, 0), (TRANSLATE, 0)]"
    using r by (simp add: newApp_fields)
  from t9 n 5 t0 6 p 7 ct 2 show ?thesis by blast
qed

subsection \<open>Persistence\<close>

lemma first_success:
  "projr (succeedTimes 1 ''APPLE'' (startGame GUESS (newApp Absent)))
     = renderLevel (saveProgress (successAction ''APPLE'' (startGame GUESS (newApp Absent))))"
  by (simp add: nextLevel_def successAction_state startGame_def actualStart_def renderLevel_fields
        newApp_fields loadProgress_def defaultRecord_def Let_def)

text \<open>
  Claim C9 says that the stored document never differs from the records in memory
  between a mutation and the next event or delay. \<open>successAction\<close> writes the new level
  into the record and only schedules \<open>nextLevel\<close>, which does the saving: after a first
  success and its \<open>nextLevel\<close> both hold level 1; after the second success, with the
  timeout still pending, memory holds level 2 and the document level 1.
\<close>

theorem deferred_save_counterexample:
  "storedLevel (projr (succeedTimes 1 ''APPLE'' (startGame GUESS (newApp Absent)))) GUESS = Some 1
   \<and> memoryLevel (projr (succeedTimes 1 ''APPLE'' (startGame GUESS (newApp Absent)))) GUESS = Some 1
   \<and> storedLevel (successAction ''PUZZLE''
        (projr (succeedTimes 1 ''APPLE'' (startGame GUESS (newApp Absent))))) GUESS = Some 1
   \<and> memoryLevel (successAction ''PUZZLE''
        (projr (succeedTimes 1 ''APPLE'' (startGame GUESS (newApp Absent))))) GUESS = Some 2
   \<and> scheduled (successAction ''PUZZLE''
        (projr (succeedTimes 1 ''APPLE'' (startGame GUESS (newApp Absent)))))
      = [(CbNextLevel, 2000), (CbNextLevel, 2000)]"
  unfolding first_success
  by (simp add: storedLevel_def memoryLevel_def successAction_state renderLevel_fields
        saveProgress_def startGame_def actualStart_def newApp_fields loadProgress_def
        defaultRecord_def Let_def)

text \<open>
  Claim C9, amended. The level that \<open>successAction\<close> writes is not saved in the same
  transition: the stored document is untouched until the \<open>nextLevel\<close> timeout, 1500 or
  2000 ms later, which always runs to its end and leaves the document equal to the
  records in memory. The mutations made by \<open>nextLevel\<close> itself (medal, completed flag,
  reset level) and by \<open>confirmReset\<close> are saved within the same transition.
\<close>

theorem persistence:
  "storage (successAction txt s) = storage s
   \<and> (\<exists>d \<in> {1500, 2000}. scheduled (successAction txt s) = scheduled s @ [(CbNextLevel, d)])
   \<and> (\<exists>s'. runCallback CbNextLevel (successAction txt s) = Inr s'
         \<and> storage s' = Document (progress s')
         \<and> storedLevel s' (currentGame s)
            = (if maxLevels s \<le> currentLevel s + 1 then Some 0 else Some (currentLevel s + 1)))
   \<and> (nextLevel s = Inr s1 \<longrightarrow> storage s1 = Document (progress s1))
   \<and> (pendingGameType s \<noteq> None \<and> confirmReset s = Inr s2 \<longrightarrow>
        storage s2 = Document (progress s2))"
proof -
  have a: "storage (successAction txt s) = storage s"
    by (simp add: successAction_state)
  have b: "\<exists>d \<in> {1500, 2000}. scheduled (successAction txt s) = scheduled s @ [(CbNextLevel, d)]"
    by (simp add: successAction_state)
  have n: "storage s1 = Document (progress s1)" if "nextLevel s = Inr s1" for s s1
    using that
    by (auto simp: nextLevel_def Let_def saveProgress_def setTimeout_def renderLevel_def startTimer_def
          split: if_splits option.splits)
  have c: "\<exists>s'. runCallback CbNextLevel (successAction txt s) = Inr s'
         \<and> storage s' = Document (progress s')
         \<and> storedLevel s' (currentGame s)
            = (if maxLevels s \<le> currentLevel s + 1 then Some 0 else Some (currentLevel s + 1))"
    by (simp add: runCallback_def nextLevel_def successAction_state Let_def saveProgress_def
          setTimeout_def renderLevel_def startTimer_def storedLevel_def)
  have r: "storage s2 = Document (progress s2)"
    if "pendingGameType s \<noteq> None" "confirmReset s = Inr s2"
    using that
    by (auto simp: confirmReset_def Let_def saveProgress_def actualStart_def renderLevel_def
          startTimer_def split: option.splits)
  show ?thesis using a b c n[of s s1] r by blast
qed

theorem persistence_witness:
  "nextLevel (successAction ''APPLE'' (startGame GUESS (newApp Absent)))
     = Inr (renderLevel (saveProgress (successAction ''APPLE'' (startGame GUESS (newApp Absent)))))
   \<and> storage (renderLevel (saveProgress (successAction ''APPLE'' (startGame GUESS (newApp Absent)))))
     = Document (progress (renderLevel (saveProgress
         (successAction ''APPLE'' (startGame GUESS (newApp Absent))))))
   \<and> storedLevel (renderLevel (saveProgress (successAction ''APPLE'' (startGame GUESS (newApp Absent)))))
        GUESS = Some 1
   \<and> pendingGameType (startGame ANIMAL
        (newApp (Document (\<lambda>g. Some \<lparr>level = 0, medals = 1, completed = True\<rparr>)))) \<noteq> None
   \<and> confirmReset (startGame ANIMAL
        (newApp (Document (\<lambda>g. Some \<lparr>level = 0, medals = 1, completed = True\<rparr>))))
     = Inr (projr (confirmReset (startGame ANIMAL
        (newApp (Document (\<lambda>g. Some \<lparr>level = 0, medals = 1, completed = True\<rparr>))))))
   \<and> storage (projr (confirmReset (startGame ANIMAL
        (newApp (Document (\<lambda>g. Some \<lparr>level = 0, medals = 1, completed = True\<rparr>))))))
     = Document (progress (projr (confirmReset (startGame ANIMAL
        (newApp (Document (\<lambda>g. Some \<lparr>level = 0, medals = 1, completed = True\<rparr>)))))))"
proof -
  let ?s = "successAction ''APPLE'' (startGame GUESS (newApp Absent))"
  let ?c = "startGame ANIMAL (newApp (Document (\<lambda>g. Some \<lparr>level = 0, medals = 1, completed = True\<rparr>)))"
  have n: "nextLevel ?s = Inr (renderLevel (saveProgress ?s))"
    by (simp add: nextLevel_def successAction_state startGame_def actualStart_def renderLevel_fields
        newApp_fields loadProgress_def defaultRecord_def Let_def)
  have p: "pendingGameType ?c \<noteq> None"
    by (simp add: startGame_def newApp_def loadProgress_def Let_def)
  have q: "confirmReset ?c = Inr (projr (confirmReset ?c))"
    by (simp add: confirmReset_def startGame_def newApp_def loadProgress_def Let_def)
  note t = persistence[of "''APPLE''" ?s "renderLevel (saveProgress ?s)" ?s]
  note u = persistence[of "''APPLE''" ?c ?c "projr (confirmReset ?c)"]
  from t n
  have 1: "storage (renderLevel (saveProgress ?s)) = Document (progress (renderLevel (saveProgress ?s)))"
    by blast
  from u p q
  have 2: "storage (projr (confirmReset ?c)) = Document (progress (projr (confirmReset ?c)))"
    by blast
  have 3: "storedLevel (renderLevel (saveProgress ?s)) GUESS = Some 1"
    by (simp add: storedLevel_def successAction_state renderLevel_fields
        saveProgress_def startGame_def actualStart_def newApp_fields loadProgress_def
        defaultRecord_def Let_def)
  from n 1 2 3 p q show ?thesis by blast
qed

section \<open>Verification: challenge generation\<close>

subsection \<open>Shuffling\<close>

lemma shuffleLoop_mset:
  "i < length a \<Longrightarrow> mset (fst (shuffleLoop i rnd k a)) = mset a"
proof (induction i arbitrary: k a)
  case 0
  then show ?case by simp
next
  case (Suc i)
  let ?j = "randomInt rnd k (Suc i + 1)"
  have "?j < Suc (Suc i)" by (simp add: randomInt_def)
  then have j: "?j < length a" using Suc.prems by linarith
  have "mset (a[Suc i := a ! ?j, ?j := a ! Suc i]) = mset a"
    using Suc.prems j by (simp add: mset_swap)
  then show ?case using Suc by (simp add: Let_def)
qed

lemma shuffleArray_mset: "mset (fst (shuffleArray rnd k a)) = mset a"
  by (cases a) (simp_all add: shuffleArray_def shuffleLoop_mset)

lemma shuffleArray_props:
  "set (fst (shuffleArray rnd k a)) = set a"
  "length (fst (shuffleArray rnd k a)) = length a"
  "distinct (fst (shuffleArray rnd k a)) = distinct a"
  using shuffleArray_mset[of rnd k a]
  by (metis set_mset_mset, metis size_mset, metis mset_eq_imp_distinct_iff)

subsection \<open>The option loop\<close>

lemma drawn_Suc:
  "drawn pick n rnd k (Suc m) = insert (pick (randomInt rnd k n)) (drawn pick n rnd (Suc k) m)"
proof -
  have "{k..<k + Suc m} = insert k {Suc k..<Suc k + m}" by auto
  then show ?thesis by (simp add: drawn_def)
qed

lemma finite_drawn: "finite (drawn pick n rnd k m)"
  by (simp add: drawn_def)

lemma drawOptions_full:
  "4 \<le> length opts \<Longrightarrow> drawOptions pick n rnd k opts = Some (opts, k)"
  by (subst drawOptions.simps) simp

lemma drawOptions_step:
  "length opts < 4 \<Longrightarrow>
   drawOptions pick n rnd k opts =
     (if pick (randomInt rnd k n) \<in> set opts then drawOptions pick n rnd (Suc k) opts
      else drawOptions pick n rnd (Suc k) (opts @ [pick (randomInt rnd k n)]))"
  by (subst drawOptions.simps) (simp add: Let_def)

lemma drawOptions_returns:
  "4 - length opts \<le> card (drawn pick n rnd k m - set opts) \<Longrightarrow>
   \<exists>r. drawOptions pick n rnd k opts = Some r"
proof (induction m arbitrary: k opts)
  case 0
  then show ?case by (simp add: drawn_def drawOptions_full)
next
  case (Suc m)
  let ?o = "pick (randomInt rnd k n)"
  show ?case
  proof (cases "length opts < 4")
    case False
    then show ?thesis by (simp add: drawOptions_full)
  next
    case True
    show ?thesis
    proof (cases "?o \<in> set opts")
      case in_opts: True
      then have "drawn pick n rnd k (Suc m) - set opts = drawn pick n rnd (Suc k) m - set opts"
        by (auto simp: drawn_Suc)
      then show ?thesis
        using Suc.IH[of opts "Suc k"] Suc.prems in_opts drawOptions_step[OF True, of pick n rnd k]
        by simp
    next
      case new: False
      let ?X = "drawn pick n rnd (Suc k) m - set opts"
      have "drawn pick n rnd k (Suc m) - set opts = insert ?o ?X"
        using new by (auto simp: drawn_Suc)
      moreover have "drawn pick n rnd (Suc k) m - set (opts @ [?o]) = ?X - {?o}" by auto
      moreover have "card (insert ?o ?X) \<le> Suc (card (?X - {?o}))"
      proof -
        have "insert ?o ?X = insert ?o (?X - {?o})" by auto
        moreover have "card (insert ?o (?X - {?o})) = Suc (card (?X - {?o}))"
          by (intro card_insert_disjoint) (simp_all add: finite_drawn)
        ultimately show ?thesis by simp
      qed
      ultimately have "4 - length (opts @ [?o]) \<le> card (drawn pick n rnd (Suc k) m - set (opts @ [?o]))"
        using Suc.prems by simp
      then show ?thesis
        using Suc.IH[of "opts @ [?o]" "Suc k"] new drawOptions_step[OF True, of pick n rnd k]
        by simp
    qed
  qed
qed

lemma drawOptions_needs:
  assumes "drawOptions pick n rnd k opts = Some r"
  shows "\<exists>m. 4 - length opts \<le> card (drawn pick n rnd k m - set opts)"
proof (rule drawOptions.raw_induct[where
      P = "\<lambda>pick n rnd k opts r. \<exists>m. 4 - length opts \<le> card (drawn pick n rnd k m - set opts)",
      OF _ assms], goal_cases)
  case (1 f pick n rnd k opts r)
  let ?o = "pick (randomInt rnd k n)"
  show ?case
  proof (cases "length opts < 4")
    case False
    then show ?thesis by simp
  next
    case True
    show ?thesis
    proof (cases "?o \<in> set opts")
      case in_opts: True
      then have "f pick n rnd (k + 1) opts = Some r" using 1(2) True by (simp add: Let_def)
      then obtain m where "4 - length opts \<le> card (drawn pick n rnd (k + 1) m - set opts)"
        using 1(1) by blast
      moreover have "drawn pick n rnd k (Suc m) - set opts = drawn pick n rnd (Suc k) m - set opts"
        using in_opts by (auto simp: drawn_Suc)
      ultimately show ?thesis by (metis Suc_eq_plus1)
    next
      case new: False
      let ?X = "drawn pick n rnd (Suc k) m - set (opts @ [?o])"
      have "f pick n rnd (k + 1) (opts @ [?o]) = Some r" using 1(2) True new by (simp add: Let_def)
      then obtain m where m: "4 - length (opts @ [?o])
            \<le> card (drawn pick n rnd (k + 1) m - set (opts @ [?o]))"
        using 1(1) by blast
      let ?X = "drawn pick n rnd (Suc k) m - set (opts @ [?o])"
      have "insert ?o ?X \<subseteq> drawn pick n rnd k (Suc m) - set opts"
        using new by (auto simp: drawn_Suc)
      then have "card (insert ?o ?X) \<le> card (drawn pick n rnd k (Suc m) - set opts)"
        by (intro card_mono) (simp_all add: finite_drawn)
      moreover have "card (insert ?o ?X) = Suc (card ?X)"
        by (subst card_insert_disjoint) (simp_all add: finite_drawn)
      ultimately show ?thesis using m by (intro exI[of _ "Suc m"]) simp
    qed
  qed
qed

lemma drawOptions_result_aux:
  assumes "drawOptions pick n rnd k opts = Some r"
  shows "distinct opts \<longrightarrow> length opts \<le> 4 \<longrightarrow>
   distinct (fst r) \<and> length (fst r) = 4 \<and> k \<le> snd r
   \<and> (\<exists>ys. fst r = opts @ ys \<and> set ys \<subseteq> drawn pick n rnd k (snd r - k))"
proof (rule drawOptions.raw_induct[where
      P = "\<lambda>pick n rnd k opts r. distinct opts \<longrightarrow> length opts \<le> 4 \<longrightarrow>
   distinct (fst r) \<and> length (fst r) = 4 \<and> k \<le> snd r
   \<and> (\<exists>ys. fst r = opts @ ys \<and> set ys \<subseteq> drawn pick n rnd k (snd r - k))",
      OF _ assms], goal_cases)
  case (1 f pick n rnd k opts r)
  let ?o = "pick (randomInt rnd k n)"
  show ?case
  proof (intro impI)
    assume d: "distinct opts" and l: "length opts \<le> 4"
    show "distinct (fst r) \<and> length (fst r) = 4 \<and> k \<le> snd r
      \<and> (\<exists>ys. fst r = opts @ ys \<and> set ys \<subseteq> drawn pick n rnd k (snd r - k))"
    proof (cases "length opts < 4")
      case False
      then show ?thesis using 1(2) d l by auto
    next
      case True
      have sub: "drawn pick n rnd (Suc k) (k' - Suc k) \<subseteq> drawn pick n rnd k (k' - k)"
        and mem: "?o \<in> drawn pick n rnd k (k' - k)" if "Suc k \<le> k'" for k'
      proof -
        have "k' - k = Suc (k' - Suc k)" using that by simp
        then show "drawn pick n rnd (Suc k) (k' - Suc k) \<subseteq> drawn pick n rnd k (k' - k)"
          and "?o \<in> drawn pick n rnd k (k' - k)"
          by (auto simp: drawn_Suc)
      qed
      show ?thesis
      proof (cases "?o \<in> set opts")
        case in_opts: True
        then have "f pick n rnd (k + 1) opts = Some r" using 1(2) True by (simp add: Let_def)
        from 1(1)[OF this] d l sub[of "snd r"] show ?thesis by fastforce
      next
        case new: False
        then have "f pick n rnd (k + 1) (opts @ [?o]) = Some r"
          using 1(2) True by (simp add: Let_def)
        from 1(1)[OF this] d l new True
        have r: "distinct (fst r)" "length (fst r) = 4" "k + 1 \<le> snd r"
          and "\<exists>ys. fst r = (opts @ [?o]) @ ys
                 \<and> set ys \<subseteq> drawn pick n rnd (k + 1) (snd r - (k + 1))"
          by auto
        then obtain ys where ys: "fst r = opts @ (?o # ys)"
          "set ys \<subseteq> drawn pick n rnd (Suc k) (snd r - Suc k)" by auto
        have le: "Suc k \<le> snd r" using r(3) by simp
        have "set ys \<subseteq> drawn pick n rnd k (snd r - k)"
          using ys(2) sub[OF le] by blast
        then have "set (?o # ys) \<subseteq> drawn pick n rnd k (snd r - k)"
          using mem[OF le] by simp
        then have "\<exists>zs. fst r = opts @ zs \<and> set zs \<subseteq> drawn pick n rnd k (snd r - k)"
          using ys(1) by blast
        moreover have "k \<le> snd r" using le by simp
        ultimately show ?thesis using r(1,2) by blast
      qed
    qed
  qed
qed

lemma drawOptions_result:
  assumes "drawOptions pick n rnd k opts = Some r" and "distinct opts" and "length opts \<le> 4"
  shows "distinct (fst r) \<and> length (fst r) = 4 \<and> k \<le> snd r
   \<and> (\<exists>ys. fst r = opts @ ys \<and> set ys \<subseteq> drawn pick n rnd k (snd r - k))"
  using drawOptions_result_aux[OF assms(1), rule_format, OF assms(2,3)] .

lemma drawn_0: "drawn pick n rnd k 0 = {}"
  by (simp add: drawn_def)

lemma drawOptions_skip:
  "length opts < 4 \<Longrightarrow> \<forall>j \<in> {k..<k + d}. pick (randomInt rnd j n) \<in> set opts \<Longrightarrow>
   drawOptions pick n rnd k opts = drawOptions pick n rnd (k + d) opts"
proof (induction d arbitrary: k)
  case 0
  then show ?case by simp
next
  case (Suc d)
  have "pick (randomInt rnd k n) \<in> set opts" using Suc.prems(2) by simp
  then have "drawOptions pick n rnd k opts = drawOptions pick n rnd (Suc k) opts"
    using drawOptions_step[OF Suc.prems(1), of pick n rnd k] by simp
  also have "\<dots> = drawOptions pick n rnd (Suc k + d) opts"
    using Suc.prems by (intro Suc.IH) auto
  finally show ?case by simp
qed

lemma filter_other_length:
  "distinct xs \<Longrightarrow> x \<in> set xs \<Longrightarrow> length (filter (\<lambda>y. y \<noteq> x) xs) = length xs - 1"
proof (induction xs)
  case Nil
  then show ?case by simp
next
  case (Cons a xs)
  show ?case
  proof (cases "a = x")
    case True
    then have "filter (\<lambda>y. y \<noteq> x) xs = xs" using Cons.prems by (auto simp: filter_id_conv)
    then show ?thesis using True by simp
  next
    case False
    then have "x \<in> set xs" using Cons.prems by auto
    then have "length xs > 0" by (cases xs) auto
    then show ?thesis using False Cons \<open>x \<in> set xs\<close> by simp
  qed
qed

lemma distractors_props:
  assumes "distinct (options c)" and "correct c \<in> set (options c)"
  shows "length (distractors c) = length (options c) - 1"
    and "correct c \<notin> set (distractors c)"
    and "set (distractors c) = set (options c) - {correct c}"
  using assms by (auto simp: distractors_def filter_other_length)

lemma drawn_range:
  "0 < n \<Longrightarrow> drawn pick n rnd k m \<subseteq> pick ` {..<n}"
  by (auto simp: drawn_def randomInt_def)

text \<open>The loop as the choice games call it: started with the correct text alone.\<close>

lemma drawOptions_start:
  assumes "drawOptions pick n rnd k [c0] = Some (opts, k')" and "0 < n"
  shows "distinct opts" and "length opts = 4" and "c0 \<in> set opts"
    and "set opts \<subseteq> insert c0 (pick ` {..<n})"
proof -
  from drawOptions_result[OF assms(1)]
  obtain ys where r: "distinct opts" "length opts = 4" "opts = [c0] @ ys"
      "set ys \<subseteq> drawn pick n rnd k (k' - k)" by auto
  show "distinct opts" "length opts = 4" "c0 \<in> set opts" using r by auto
  show "set opts \<subseteq> insert c0 (pick ` {..<n})"
    using r(3,4) drawn_range[OF assms(2), of pick rnd k "k' - k"] by auto
qed

lemma drawOptions_start_iff:
  "(\<exists>r. drawOptions pick n rnd k [c0] = Some r) \<longleftrightarrow> (\<exists>m. 3 \<le> card (drawn pick n rnd k m - {c0}))"
  using drawOptions_returns[of "[c0]" pick n rnd k] drawOptions_needs[of pick n rnd k "[c0]"]
  by auto

lemma few_texts_starve:
  assumes "0 < n" and "card (pick ` {..<n}) < 4" and that: "i0 < n"
  shows "drawOptions pick n rnd k [pick i0] = None"
proof -
  have "\<not> 3 \<le> card (drawn pick n rnd k m - {pick i0})" for m
  proof -
    have "drawn pick n rnd k m - {pick i0} \<subseteq> pick ` {..<n} - {pick i0}"
      using drawn_range[OF assms(1), of pick rnd k m] by auto
    then have "card (drawn pick n rnd k m - {pick i0}) \<le> card (pick ` {..<n} - {pick i0})"
      by (intro card_mono) simp_all
    moreover have "card (pick ` {..<n} - {pick i0}) = card (pick ` {..<n}) - 1"
      using that by (intro card_Diff_singleton) auto
    ultimately show ?thesis using assms(2) by simp
  qed
  then have "\<not> (\<exists>r. drawOptions pick n rnd k [pick i0] = Some r)"
    using drawOptions_start_iff[of pick n rnd k "pick i0"] by blast
  then show ?thesis by (cases "drawOptions pick n rnd k [pick i0]") auto
qed

lemma constant_draws_starve:
  "drawOptions pick n (\<lambda>k. 0) k [pick (0 mod n)] = None"
proof -
  have "drawn pick n (\<lambda>k. 0) k m - {pick (0 mod n)} = {}" for m
    by (auto simp: drawn_def randomInt_def)
  then have "card (drawn pick n (\<lambda>k. 0) k m - {pick (0 mod n)}) = 0" for m
    by (simp only: card.empty)
  then have "\<not> (\<exists>m. 3 \<le> card (drawn pick n (\<lambda>k. 0) k m - {pick (0 mod n)}))"
    by (simp only:) simp
  then have "\<not> (\<exists>r. drawOptions pick n (\<lambda>k. 0) k [pick (0 mod n)] = Some r)"
    using drawOptions_start_iff[of pick n "\<lambda>k. 0" k "pick (0 mod n)"] by blast
  then show ?thesis by (cases "drawOptions pick n (\<lambda>k. 0) k [pick (0 mod n)]") auto
qed

subsection \<open>The choice games\<close>

lemma categoryChoiceGame_Some:
  assumes "categoryChoiceGame library lvl rnd = Some (Inr c)"
  shows "library \<noteq> []"
    and "\<exists>opts k. drawOptions (\<lambda>i. en (library ! i)) (length library) rnd 0
             [en (library ! (lvl mod length library))] = Some (opts, k)
           \<and> c = \<lparr>prompt = fa (library ! (lvl mod length library)),
                   correct = en (library ! (lvl mod length library)),
                   options = fst (shuffleArray rnd k opts)\<rparr>"
  using assms by (auto simp: categoryChoiceGame_def Let_def split: if_splits option.splits)

lemma translateGame_Some:
  assumes "translateGame library lvl rnd = Some (Inr c)"
  shows "library \<noteq> []"
    and "\<exists>opts k. drawOptions (\<lambda>i. fa (library ! i)) (length library) rnd 0
             [fa (library ! (lvl mod length library))] = Some (opts, k)
           \<and> c = \<lparr>prompt = en (library ! (lvl mod length library)),
                   correct = fa (library ! (lvl mod length library)),
                   options = fst (shuffleArray rnd k opts)\<rparr>"
  using assms by (auto simp: translateGame_def Let_def split: if_splits option.splits)

lemma nth_image: "(\<lambda>i. f (library ! i)) ` {..<length library} = f ` set library"
proof -
  have "set library = (\<lambda>i. library ! i) ` {..<length library}"
    by (auto simp: in_set_conv_nth)
  then show ?thesis by (simp add: image_image)
qed

lemma categoryChoiceGame_props:
  assumes "categoryChoiceGame library lvl rnd = Some (Inr c)"
  shows "correct c = en (library ! (lvl mod length library))
       \<and> prompt c = fa (library ! (lvl mod length library))
       \<and> length (options c) = 4 \<and> distinct (options c) \<and> correct c \<in> set (options c)
       \<and> set (options c) \<subseteq> en ` set library
       \<and> length (distractors c) = 3 \<and> correct c \<notin> set (distractors c)"
proof -
  let ?n = "length library" and ?c0 = "en (library ! (lvl mod length library))"
  from categoryChoiceGame_Some[OF assms] obtain opts k where
    ne: "library \<noteq> []" and
    d: "drawOptions (\<lambda>i. en (library ! i)) ?n rnd 0 [?c0] = Some (opts, k)" and
    c: "c = \<lparr>prompt = fa (library ! (lvl mod ?n)), correct = ?c0,
             options = fst (shuffleArray rnd k opts)\<rparr>" by auto
  have n: "0 < ?n" using ne by simp
  note p = drawOptions_start[OF d n]
  have "?c0 \<in> en ` set library" using n by simp
  then have sub: "set opts \<subseteq> en ` set library"
    using p(4) nth_image[of en library] by auto
  have o: "distinct (options c)" "correct c \<in> set (options c)" "length (options c) = 4"
    using p by (simp_all add: c shuffleArray_props)
  show ?thesis
    using o distractors_props[OF o(1,2)] sub by (simp add: c shuffleArray_props)
qed

lemma translateGame_props:
  assumes "translateGame library lvl rnd = Some (Inr c)"
  shows "correct c = fa (library ! (lvl mod length library))
       \<and> prompt c = en (library ! (lvl mod length library))
       \<and> length (options c) = 4 \<and> distinct (options c) \<and> correct c \<in> set (options c)
       \<and> set (options c) \<subseteq> fa ` set library
       \<and> length (distractors c) = 3 \<and> correct c \<notin> set (distractors c)"
proof -
  let ?n = "length library" and ?c0 = "fa (library ! (lvl mod length library))"
  from translateGame_Some[OF assms] obtain opts k where
    ne: "library \<noteq> []" and
    d: "drawOptions (\<lambda>i. fa (library ! i)) ?n rnd 0 [?c0] = Some (opts, k)" and
    c: "c = \<lparr>prompt = en (library ! (lvl mod ?n)), correct = ?c0,
             options = fst (shuffleArray rnd k opts)\<rparr>" by auto
  have n: "0 < ?n" using ne by simp
  note p = drawOptions_start[OF d n]
  have "?c0 \<in> fa ` set library" using n by simp
  then have sub: "set opts \<subseteq> fa ` set library"
    using p(4) nth_image[of fa library] by auto
  have o: "distinct (options c)" "correct c \<in> set (options c)" "length (options c) = 4"
    using p by (simp_all add: c shuffleArray_props)
  show ?thesis
    using o distractors_props[OF o(1,2)] sub by (simp add: c shuffleArray_props)
qed

lemma categoryChoiceGame_returns:
  assumes "library \<noteq> []"
  shows "(\<exists>c. categoryChoiceGame library lvl rnd = Some (Inr c)) \<longleftrightarrow>
         (\<exists>m. 3 \<le> card (drawn (\<lambda>i. en (library ! i)) (length library) rnd 0 m
                            - {en (library ! (lvl mod length library))}))"
    and "categoryChoiceGame library lvl rnd \<noteq> None \<longleftrightarrow>
         (\<exists>c. categoryChoiceGame library lvl rnd = Some (Inr c))"
  using assms
    drawOptions_start_iff[of "\<lambda>i. en (library ! i)" "length library" rnd 0
      "en (library ! (lvl mod length library))"]
  by (auto simp: categoryChoiceGame_def Let_def split: option.splits)

lemma translateGame_returns:
  assumes "library \<noteq> []"
  shows "(\<exists>c. translateGame library lvl rnd = Some (Inr c)) \<longleftrightarrow>
         (\<exists>m. 3 \<le> card (drawn (\<lambda>i. fa (library ! i)) (length library) rnd 0 m
                            - {fa (library ! (lvl mod length library))}))"
    and "translateGame library lvl rnd \<noteq> None \<longleftrightarrow>
         (\<exists>c. translateGame library lvl rnd = Some (Inr c))"
  using assms
    drawOptions_start_iff[of "\<lambda>i. fa (library ! i)" "length library" rnd 0
      "fa (library ! (lvl mod length library))"]
  by (auto simp: translateGame_def Let_def split: option.splits)

lemma categoryChoiceGame_starves:
  assumes "library \<noteq> []" and "card (en ` set library) < 4"
  shows "categoryChoiceGame library lvl rnd = None"
proof -
  have "card ((\<lambda>i. en (library ! i)) ` {..<length library}) < 4"
    using assms(2) by (simp add: nth_image)
  then have "drawOptions (\<lambda>i. en (library ! i)) (length library) rnd 0
               [en (library ! (lvl mod length library))] = None"
    using assms(1) by (intro few_texts_starve) simp_all
  then show ?thesis using assms(1) by (simp add: categoryChoiceGame_def Let_def)
qed

lemma colors_names:
  "length colors = 5"
  "\<forall>c \<in> set colors. name c \<notin> {''ORANGE'', ''BLACK'', ''WHITE'', ''BROWN''}"
  by (simp_all add: colors_def)

lemma renderColorsGame_props:
  "correct (renderColorsGame lvl rnd) = name (colors ! (lvl mod length colors))
   \<and> prompt (renderColorsGame lvl rnd) = hex (colors ! (lvl mod length colors))
   \<and> length (options (renderColorsGame lvl rnd)) = 4
   \<and> distinct (options (renderColorsGame lvl rnd))
   \<and> correct (renderColorsGame lvl rnd) \<in> set (options (renderColorsGame lvl rnd))
   \<and> set (distractors (renderColorsGame lvl rnd)) \<subseteq> {''ORANGE'', ''BLACK'', ''WHITE'', ''BROWN''}
   \<and> length (distractors (renderColorsGame lvl rnd)) = 3
   \<and> correct (renderColorsGame lvl rnd) \<notin> set (distractors (renderColorsGame lvl rnd))"
proof -
  let ?nm = "name (colors ! (lvl mod length colors))"
  let ?base = "[?nm, ''ORANGE'', ''BLACK'', ''WHITE'', ''BROWN'']"
  let ?sh = "fst (shuffleArray rnd 0 ?base)"
  let ?k = "snd (shuffleArray rnd 0 ?base)"
  let ?opts = "take 4 ?sh"
  let ?opts' = "if ?nm \<notin> set ?opts then ?opts[0 := ?nm] else ?opts"
  let ?c = "renderColorsGame lvl rnd"
  have "colors ! (lvl mod length colors) \<in> set colors"
    by (intro nth_mem) (simp add: colors_names)
  then have nm: "?nm \<notin> {''ORANGE'', ''BLACK'', ''WHITE'', ''BROWN''}"
    using colors_names(2) by blast
  then have db: "distinct ?base" by simp
  have sh: "distinct ?sh" "length ?sh = 5" "set ?sh = set ?base"
    using db by (simp_all add: shuffleArray_props)
  have o: "distinct ?opts" "length ?opts = 4" "set ?opts \<subseteq> set ?base"
    using sh by (auto dest: in_set_takeD)
  have o': "distinct ?opts'" "length ?opts' = 4" "?nm \<in> set ?opts'"
    "set ?opts' \<subseteq> set ?base"
  proof -
    show "distinct ?opts'" using o(1) by (simp add: distinct_list_update)
    show "length ?opts' = 4" using o(2) by simp
    show "?nm \<in> set ?opts'" using o(2) by (auto simp: set_update_memI)
    have "set (?opts[0 := ?nm]) \<subseteq> insert ?nm (set ?opts)" by (rule set_update_subset_insert)
    then show "set ?opts' \<subseteq> set ?base" using o(3) by auto
  qed
  have c: "?c = \<lparr>prompt = hex (colors ! (lvl mod length colors)), correct = ?nm,
                 options = fst (shuffleArray rnd ?k ?opts')\<rparr>"
    by (simp add: renderColorsGame_def Let_def case_prod_beta)
  have f: "distinct (options ?c)" "correct ?c \<in> set (options ?c)" "length (options ?c) = 4"
    "set (options ?c) \<subseteq> set ?base" "correct ?c = ?nm"
    unfolding c using o' by (simp_all add: shuffleArray_props)
  have "set (distractors ?c) \<subseteq> {''ORANGE'', ''BLACK'', ''WHITE'', ''BROWN''}"
    using f(4,5) distractors_props(3)[OF f(1,2)] by auto
  then show ?thesis
    using f distractors_props(1,2)[OF f(1,2)] by (simp add: c)
qed

lemma renderNumToWordGame_returns:
  "renderNumToWordGame lvl rnd \<noteq> None \<longleftrightarrow>
     (\<exists>m. 3 \<le> card (drawn toWords (min 300 (20 + lvl) + 10) rnd 1 m
                        - {toWords (randomInt rnd 0 (min 300 (20 + lvl)))}))"
  using drawOptions_start_iff[of toWords "min 300 (20 + lvl) + 10" rnd 1
      "toWords (randomInt rnd 0 (min 300 (20 + lvl)))"]
  by (auto simp: renderNumToWordGame_def Let_def split: option.splits)

lemma renderNumToWordGame_correct:
  "renderNumToWordGame lvl rnd \<noteq> None \<Longrightarrow>
   map_option correct (renderNumToWordGame lvl rnd)
     = Some (toWords (randomInt rnd 0 (min 300 (20 + lvl))))"
  by (auto simp: renderNumToWordGame_def Let_def split: option.splits)

lemma renderNumToWordGame_props:
  assumes "renderNumToWordGame lvl rnd = Some c"
  shows "correct c = toWords (randomInt rnd 0 (min 300 (20 + lvl)))
       \<and> prompt c = toString (Finite (of_nat (randomInt rnd 0 (min 300 (20 + lvl)))))
       \<and> length (options c) = 4 \<and> distinct (options c) \<and> correct c \<in> set (options c)
       \<and> set (options c) \<subseteq> toWords ` {..<min 300 (20 + lvl) + 10}
       \<and> length (distractors c) = 3 \<and> correct c \<notin> set (distractors c)"
proof -
  let ?r = "min 300 (20 + lvl)"
  let ?v = "randomInt rnd 0 ?r"
  from assms obtain opts k where
    d: "drawOptions toWords (?r + 10) rnd 1 [toWords ?v] = Some (opts, k)" and
    c: "c = \<lparr>prompt = toString (Finite (of_nat ?v)), correct = toWords ?v,
             options = fst (shuffleArray rnd k opts)\<rparr>"
    by (auto simp: renderNumToWordGame_def Let_def split: option.splits)
  have n: "0 < ?r + 10" by simp
  note p = drawOptions_start[OF d n]
  have "0 < ?r" by simp
  then have "?v < ?r" unfolding randomInt_def by (rule mod_less_divisor)
  then have v: "?v < ?r + 10" by (rule trans_less_add1)
  have sub: "set opts \<subseteq> toWords ` {..<?r + 10}"
    using p(4) v by auto
  have o: "distinct (options c)" "correct c \<in> set (options c)" "length (options c) = 4"
    using p by (simp_all add: c shuffleArray_props)
  show ?thesis
    using o distractors_props[OF o(1,2)] sub by (simp add: c shuffleArray_props)
qed

lemma renderWordToNumGame_props:
  assumes "renderWordToNumGame lvl rnd = Some c"
  shows "correct c = randomInt rnd 0 (min 300 (20 + lvl))
       \<and> prompt c = toWords (randomInt rnd 0 (min 300 (20 + lvl)))
       \<and> length (options c) = 4 \<and> distinct (options c) \<and> correct c \<in> set (options c)
       \<and> set (options c) \<subseteq> {..<min 300 (20 + lvl) + 10}
       \<and> length (distractors c) = 3 \<and> correct c \<notin> set (distractors c)"
proof -
  let ?r = "min 300 (20 + lvl)"
  let ?v = "randomInt rnd 0 ?r"
  from assms obtain opts k where
    d: "drawOptions (\<lambda>rand. rand) (?r + 10) rnd 1 [?v] = Some (opts, k)" and
    c: "c = \<lparr>prompt = toWords ?v, correct = ?v, options = fst (shuffleArray rnd k opts)\<rparr>"
    by (auto simp: renderWordToNumGame_def Let_def split: option.splits)
  have n: "0 < ?r + 10" by simp
  note p = drawOptions_start[OF d n]
  have "0 < ?r" by simp
  then have "?v < ?r" unfolding randomInt_def by (rule mod_less_divisor)
  then have v: "?v < ?r + 10" by (rule trans_less_add1)
  have sub: "set opts \<subseteq> {..<?r + 10}"
    using p(4) v by auto
  have o: "distinct (options c)" "correct c \<in> set (options c)" "length (options c) = 4"
    using p by (simp_all add: c shuffleArray_props)
  show ?thesis
    using o distractors_props[OF o(1,2)] sub by (simp add: c shuffleArray_props)
qed

lemma renderWordToNumGame_returns:
  "renderWordToNumGame lvl rnd \<noteq> None \<longleftrightarrow>
     (\<exists>m. 3 \<le> card (drawn (\<lambda>rand. rand) (min 300 (20 + lvl) + 10) rnd 1 m
                        - {randomInt rnd 0 (min 300 (20 + lvl))}))"
  using drawOptions_start_iff[of "\<lambda>rand. rand" "min 300 (20 + lvl) + 10" rnd 1
      "randomInt rnd 0 (min 300 (20 + lvl))"]
  by (auto simp: renderWordToNumGame_def Let_def split: option.splits)

lemma renderWordToNumGame_correct:
  "renderWordToNumGame lvl rnd \<noteq> None \<Longrightarrow>
   map_option correct (renderWordToNumGame lvl rnd)
     = Some (randomInt rnd 0 (min 300 (20 + lvl)))"
  by (auto simp: renderWordToNumGame_def Let_def split: option.splits)

text \<open>Every item of the grammar library lists four distinct options, the correct form
  among them.\<close>

lemma lib_grammar_options:
  "\<forall>d \<in> set lib_grammar.
     length (goptions d) = 4 \<and> distinct (goptions d) \<and> gcorrect d \<in> set (goptions d)"
  by (simp add: lib_grammar_def)

lemma renderGrammarGame_props:
  "currentGrammarData (renderGrammarGame lvl) = lib_grammar ! (lvl mod length lib_grammar)
   \<and> grammarStep (renderGrammarGame lvl) = 1
   \<and> updateGrammarUI rnd (renderGrammarGame lvl) = []
   \<and> length (updateGrammarUI rnd ((renderGrammarGame lvl)\<lparr>grammarStep := 2\<rparr>)) = 4
   \<and> distinct (updateGrammarUI rnd ((renderGrammarGame lvl)\<lparr>grammarStep := 2\<rparr>))
   \<and> set (updateGrammarUI rnd ((renderGrammarGame lvl)\<lparr>grammarStep := 2\<rparr>))
       = set (goptions (lib_grammar ! (lvl mod length lib_grammar)))
   \<and> gcorrect (lib_grammar ! (lvl mod length lib_grammar))
       \<in> set (updateGrammarUI rnd ((renderGrammarGame lvl)\<lparr>grammarStep := 2\<rparr>))
   \<and> length (filter (\<lambda>opt. opt \<noteq> gcorrect (lib_grammar ! (lvl mod length lib_grammar)))
               (updateGrammarUI rnd ((renderGrammarGame lvl)\<lparr>grammarStep := 2\<rparr>))) = 3"
proof -
  let ?d = "lib_grammar ! (lvl mod length lib_grammar)"
  let ?o = "updateGrammarUI rnd ((renderGrammarGame lvl)\<lparr>grammarStep := 2\<rparr>)"
  have "0 < length lib_grammar" by (simp add: lib_grammar_def)
  then have "?d \<in> set lib_grammar" by simp
  then have d: "length (goptions ?d) = 4" "distinct (goptions ?d)" "gcorrect ?d \<in> set (goptions ?d)"
    using lib_grammar_options by blast+
  have o: "?o = fst (shuffleArray rnd 0 (goptions ?d))"
    by (simp add: updateGrammarUI_def renderGrammarGame_def Let_def)
  have p: "length ?o = 4" "distinct ?o" "set ?o = set (goptions ?d)" "gcorrect ?d \<in> set ?o"
    unfolding o using d by (simp_all add: shuffleArray_props)
  have "length (filter (\<lambda>opt. opt \<noteq> gcorrect ?d) ?o) = length ?o - 1"
    using p(2,4) by (rule filter_other_length)
  then have f: "length (filter (\<lambda>opt. opt \<noteq> gcorrect ?d) ?o) = 3"
    using p(1) by simp
  have s: "currentGrammarData (renderGrammarGame lvl) = ?d"
    "grammarStep (renderGrammarGame lvl) = 1" "updateGrammarUI rnd (renderGrammarGame lvl) = []"
    by (simp_all add: updateGrammarUI_def renderGrammarGame_def Let_def)
  show ?thesis
    using s p f by simp
qed

lemma renderSentenceGame_props:
  "targetSentence (renderSentenceGame lvl shuffled)
     = swords (lib_sentences ! (lvl mod length lib_sentences))
   \<and> constructedSentence (renderSentenceGame lvl shuffled) = []"
  by (simp add: renderSentenceGame_def Let_def)

lemma renderGuessGame_slots:
  "length (answerSlots (renderGuessGame lvl pool))
     = length (answer (guessPool ! (lvl mod length guessPool)))
   \<and> currentGuess (renderGuessGame lvl pool) = []"
  by (simp add: renderGuessGame_def Let_def)

lemma number_words:
  "numberToWords (Finite 0) = ''ZERO''" "numberToWords (Finite 1) = ''ONE''"
  "numberToWords (Finite 2) = ''TWO''" "numberToWords (Finite 3) = ''THREE''"
  "numberToWords (Finite 5) = ''FIVE''" "numberToWords (Finite 6) = ''SIX''"
  "numberToWords (Finite 7) = ''SEVEN''" "numberToWords (Finite 8) = ''EIGHT''"
  by (simp_all add: numberToWords.simps ones_def)

subsection \<open>Runs on the corpus\<close>

lemma animals_first:
  "lib_animals ! 0 = V ''Cat'' ''06AF 0631 0628 0647''"
  "lib_animals ! Suc 0 = V ''Dog'' ''0633 06AF''"
  "lib_animals ! Suc (Suc 0) = V ''Lion'' ''0634 06CC 0631''"
  "lib_animals ! Suc (Suc (Suc 0)) = V ''Elephant'' ''0641 06CC 0644''"
  "lib_animals ! 2 = V ''Lion'' ''0634 06CC 0631''"
  "lib_animals ! 3 = V ''Elephant'' ''0641 06CC 0644''"
  "length lib_animals = 40"
  by (simp_all add: lib_animals_def)

lemma animals_run:
  "categoryChoiceGame lib_animals 0 (\<lambda>k. k)
     = Some (Inr \<lparr>prompt = ''06AF 0631 0628 0647'', correct = ''Cat'',
                  options = [''Dog'', ''Elephant'', ''Lion'', ''Cat'']\<rparr>)"
proof -
  let ?P = "\<lambda>i. en (lib_animals ! i)"
  have "drawOptions ?P 40 (\<lambda>k. k) 0 [''Cat''] = drawOptions ?P 40 (\<lambda>k. k) (Suc 0) [''Cat'']"
    by (subst drawOptions_step) (simp_all add: randomInt_def animals_first)
  also have "\<dots> = drawOptions ?P 40 (\<lambda>k. k) (Suc (Suc 0)) [''Cat'', ''Dog'']"
    by (subst drawOptions_step) (simp_all add: randomInt_def animals_first)
  also have "\<dots> = drawOptions ?P 40 (\<lambda>k. k) (Suc (Suc (Suc 0))) [''Cat'', ''Dog'', ''Lion'']"
    by (subst drawOptions_step) (simp_all add: randomInt_def animals_first)
  also have "\<dots> = drawOptions ?P 40 (\<lambda>k. k) (Suc (Suc (Suc (Suc 0))))
                      [''Cat'', ''Dog'', ''Lion'', ''Elephant'']"
    by (subst drawOptions_step) (simp_all add: randomInt_def animals_first)
  also have "\<dots> = Some ([''Cat'', ''Dog'', ''Lion'', ''Elephant''], 4)"
    by (simp add: drawOptions_full)
  finally have d: "drawOptions ?P 40 (\<lambda>k. k) 0 [''Cat'']
           = Some ([''Cat'', ''Dog'', ''Lion'', ''Elephant''], 4)" .
  have s: "fst (shuffleArray (\<lambda>k. k) 4 [''Cat'', ''Dog'', ''Lion'', ''Elephant''])
           = [''Dog'', ''Elephant'', ''Lion'', ''Cat'']"
    by code_simp
  have n: "lib_animals \<noteq> []" using animals_first(7) by auto
  show ?thesis
    by (simp add: categoryChoiceGame_def n animals_first d s)
qed

lemma translate_first:
  "lib_translate ! 0 = V ''Book'' ''06A9 062A 0627 0628''"
  "lib_translate ! Suc 0 = V ''Water'' ''0622 0628''"
  "lib_translate ! Suc (Suc 0) = V ''Sun'' ''062E 0648 0631 0634 06CC 062F''"
  "lib_translate ! Suc (Suc (Suc 0)) = V ''Moon'' ''0645 0627 0647''"
  "lib_translate ! 2 = V ''Sun'' ''062E 0648 0631 0634 06CC 062F''"
  "lib_translate ! 3 = V ''Moon'' ''0645 0627 0647''"
  "length lib_translate = 36"
  by (simp_all add: lib_translate_def)

lemma animals_drawn:
  "drawn (\<lambda>i. en (lib_animals ! i)) (length lib_animals) (\<lambda>k. k) 0 4
     - {en (lib_animals ! (0 mod length lib_animals))} = {''Dog'', ''Lion'', ''Elephant''}"
proof -
  have "drawn (\<lambda>i. en (lib_animals ! i)) 40 (\<lambda>k. k) 0 (Suc (Suc (Suc (Suc 0))))
          = {''Cat'', ''Dog'', ''Lion'', ''Elephant''}"
    by (simp add: drawn_Suc drawn_0 randomInt_def animals_first)
  moreover have "(4::nat) = Suc (Suc (Suc (Suc 0)))" by simp
  ultimately show ?thesis
    by (simp only: animals_first mod_0 vocab.sel) auto
qed

lemma translate_drawn:
  "drawn (\<lambda>i. fa (lib_translate ! i)) (length lib_translate) (\<lambda>k. k) 0 4
     - {fa (lib_translate ! (0 mod length lib_translate))}
   = {''0622 0628'', ''062E 0648 0631 0634 06CC 062F'', ''0645 0627 0647''}"
proof -
  have "drawn (\<lambda>i. fa (lib_translate ! i)) 36 (\<lambda>k. k) 0 (Suc (Suc (Suc (Suc 0))))
          = {''06A9 062A 0627 0628'', ''0622 0628'', ''062E 0648 0631 0634 06CC 062F'',
             ''0645 0627 0647''}"
    by (simp add: drawn_Suc drawn_0 randomInt_def translate_first)
  moreover have "(4::nat) = Suc (Suc (Suc (Suc 0)))" by simp
  ultimately show ?thesis
    by (simp only: translate_first mod_0 vocab.sel) auto
qed

lemma late_run:
  "drawOptions (\<lambda>i. en (lib_animals ! i)) (length lib_animals) (\<lambda>k. k - 40) 0 [''Cat'']
     = Some ([''Cat'', ''Dog'', ''Lion'', ''Elephant''], 44)"
proof -
  let ?P = "\<lambda>i. en (lib_animals ! i)" and ?R = "\<lambda>k::nat. k - 40"
  have "drawOptions ?P 40 ?R 0 [''Cat''] = drawOptions ?P 40 ?R (0 + 41) [''Cat'']"
    by (intro drawOptions_skip) (auto simp: randomInt_def animals_first)
  also have "\<dots> = drawOptions ?P 40 ?R 42 [''Cat'', ''Dog'']"
    by (subst drawOptions_step) (simp_all add: randomInt_def animals_first)
  also have "\<dots> = drawOptions ?P 40 ?R 43 [''Cat'', ''Dog'', ''Lion'']"
    by (subst drawOptions_step) (simp_all add: randomInt_def animals_first)
  also have "\<dots> = drawOptions ?P 40 ?R 44 [''Cat'', ''Dog'', ''Lion'', ''Elephant'']"
    by (subst drawOptions_step) (simp_all add: randomInt_def animals_first)
  also have "\<dots> = Some ([''Cat'', ''Dog'', ''Lion'', ''Elephant''], 44)"
    by (simp add: drawOptions_full)
  finally show ?thesis by (simp add: animals_first)
qed

lemma numbers_run:
  "renderNumToWordGame 0 (\<lambda>k. k)
     = Some \<lparr>prompt = ''0'', correct = ''ZERO'',
             options = [''ONE'', ''THREE'', ''TWO'', ''ZERO'']\<rparr>"
proof -
  have "drawOptions toWords 30 (\<lambda>k. k) (Suc 0) [''ZERO'']
          = drawOptions toWords 30 (\<lambda>k. k) (Suc (Suc 0)) [''ZERO'', ''ONE'']"
    by (subst drawOptions_step) (simp_all add: randomInt_def number_words)
  also have "\<dots> = drawOptions toWords 30 (\<lambda>k. k) (Suc (Suc (Suc 0))) [''ZERO'', ''ONE'', ''TWO'']"
    by (subst drawOptions_step) (simp_all add: randomInt_def number_words)
  also have "\<dots> = drawOptions toWords 30 (\<lambda>k. k) (Suc (Suc (Suc (Suc 0))))
                      [''ZERO'', ''ONE'', ''TWO'', ''THREE'']"
    by (subst drawOptions_step) (simp_all add: randomInt_def number_words)
  also have "\<dots> = Some ([''ZERO'', ''ONE'', ''TWO'', ''THREE''], 4)"
    by (simp add: drawOptions_full)
  finally have d: "drawOptions toWords 30 (\<lambda>k. k) (Suc 0) [''ZERO'']
           = Some ([''ZERO'', ''ONE'', ''TWO'', ''THREE''], 4)" .
  have s: "fst (shuffleArray (\<lambda>k. k) 4 [''ZERO'', ''ONE'', ''TWO'', ''THREE''])
           = [''ONE'', ''THREE'', ''TWO'', ''ZERO'']"
    by code_simp
  have t: "digits 0 = ''0''" by (simp add: digits.simps)
  show ?thesis
    by (simp add: renderNumToWordGame_def randomInt_def number_words d s t Let_def)
qed

lemma numerals_run:
  "renderWordToNumGame 0 (\<lambda>k. k)
     = Some \<lparr>prompt = ''ZERO'', correct = 0, options = [1, 3, 2, 0]\<rparr>"
proof -
  let ?P = "\<lambda>rand::nat. rand"
  have "drawOptions ?P 30 (\<lambda>k. k) (Suc 0) [0]
          = drawOptions ?P 30 (\<lambda>k. k) (Suc (Suc 0)) [0, Suc 0]"
    by (subst drawOptions_step) (simp_all add: randomInt_def)
  also have "\<dots> = drawOptions ?P 30 (\<lambda>k. k) (Suc (Suc (Suc 0))) [0, Suc 0, Suc (Suc 0)]"
    by (subst drawOptions_step) (simp_all add: randomInt_def)
  also have "\<dots> = drawOptions ?P 30 (\<lambda>k. k) (Suc (Suc (Suc (Suc 0)))) [0, Suc 0, Suc (Suc 0), 3]"
    by (subst drawOptions_step) (simp_all add: randomInt_def)
  also have "\<dots> = Some ([0, Suc 0, Suc (Suc 0), 3], 4)"
    by (simp add: drawOptions_full)
  finally have d: "drawOptions ?P 30 (\<lambda>k. k) (Suc 0) [0] = Some ([0, Suc 0, Suc (Suc 0), 3], 4)" .
  have s: "fst (shuffleArray (\<lambda>k. k) 4 [0, Suc 0, Suc (Suc 0), 3])
           = [Suc 0, 3, Suc (Suc 0), 0]"
    by code_simp
  show ?thesis
    by (simp add: renderWordToNumGame_def randomInt_def number_words d s Let_def)
qed

lemma days_run:
  "map_option missingIndices (renderDaysGame (\<lambda>k. k)) = Some [0, 1, 2, 3]"
  "map_option targetSequence (renderDaysGame (\<lambda>k. k))
     = Some [''Monday'', ''Tuesday'', ''Wednesday'', ''Thursday'']"
  "map_option missingIndices (renderDaysGame (\<lambda>k. k + 3)) = Some [3, 4, 5, 6]"
  "map_option targetSequence (renderDaysGame (\<lambda>k. k + 3))
     = Some [''Thursday'', ''Friday'', ''Saturday'', ''Sunday'']"
proof -
  let ?P = "\<lambda>r::nat. r"
  have "drawOptions ?P 7 (\<lambda>k. k) 0 [] = drawOptions ?P 7 (\<lambda>k. k) (Suc 0) [0]"
    by (subst drawOptions_step) (simp_all add: randomInt_def)
  also have "\<dots> = drawOptions ?P 7 (\<lambda>k. k) (Suc (Suc 0)) [0, Suc 0]"
    by (subst drawOptions_step) (simp_all add: randomInt_def)
  also have "\<dots> = drawOptions ?P 7 (\<lambda>k. k) (Suc (Suc (Suc 0))) [0, Suc 0, Suc (Suc 0)]"
    by (subst drawOptions_step) (simp_all add: randomInt_def)
  also have "\<dots> = drawOptions ?P 7 (\<lambda>k. k) (Suc (Suc (Suc (Suc 0)))) [0, Suc 0, Suc (Suc 0), 3]"
    by (subst drawOptions_step) (simp_all add: randomInt_def)
  also have "\<dots> = Some ([0, Suc 0, Suc (Suc 0), 3], 4)"
    by (simp add: drawOptions_full)
  finally have a: "drawOptions ?P 7 (\<lambda>k. k) 0 []
            = Some ([0, Suc 0, Suc (Suc 0), 3], 4)" .
  have "drawOptions ?P 7 (\<lambda>k. k + 3) 0 [] = drawOptions ?P 7 (\<lambda>k. k + 3) (Suc 0) [3]"
    by (subst drawOptions_step) (simp_all add: randomInt_def)
  also have "\<dots> = drawOptions ?P 7 (\<lambda>k. k + 3) (Suc (Suc 0)) [3, 4]"
    by (subst drawOptions_step) (simp_all add: randomInt_def)
  also have "\<dots> = drawOptions ?P 7 (\<lambda>k. k + 3) (Suc (Suc (Suc 0))) [3, 4, 5]"
    by (subst drawOptions_step) (simp_all add: randomInt_def)
  also have "\<dots> = drawOptions ?P 7 (\<lambda>k. k + 3) (Suc (Suc (Suc (Suc 0)))) [3, 4, 5, 6]"
    by (subst drawOptions_step) (simp_all add: randomInt_def)
  also have "\<dots> = Some ([3, 4, 5, 6], 4)"
    by (simp add: drawOptions_full)
  finally have b: "drawOptions ?P 7 (\<lambda>k. k + 3) 0 [] = Some ([3, 4, 5, 6], 4)" .
  have seven: "Suc (Suc (Suc (Suc (Suc (Suc (Suc 0)))))) = 7" by simp
  show "map_option missingIndices (renderDaysGame (\<lambda>k. k)) = Some [0, 1, 2, 3]"
    "map_option targetSequence (renderDaysGame (\<lambda>k. k))
       = Some [''Monday'', ''Tuesday'', ''Wednesday'', ''Thursday'']"
    by (simp_all add: renderDaysGame_def renderSequencePlacementGame_def seven a)
  show "map_option missingIndices (renderDaysGame (\<lambda>k. k + 3)) = Some [3, 4, 5, 6]"
    "map_option targetSequence (renderDaysGame (\<lambda>k. k + 3))
       = Some [''Thursday'', ''Friday'', ''Saturday'', ''Sunday'']"
    by (simp_all add: renderDaysGame_def renderSequencePlacementGame_def seven b)
qed

subsection \<open>Options and corpus index\<close>

text \<open>
  Claim C1 says that for every game type generation gives exactly three distractors and
  selects the corpus item at \<open>levelIndex mod corpus.length\<close>. The two number games draw
  their target at random: at level 0 two draw sequences give the targets \<open>ZERO\<close> and
  \<open>FIVE\<close>, and the numbers 0 and 5, so the level does not select the item. The days game
  does not read the level either: two draw sequences hide different days. And the
  hangman game has no options at all: it renders the 26 letter buttons and reports
  nothing.
\<close>

theorem choice_generation_counterexample:
  "map_option correct (renderNumToWordGame 0 (\<lambda>k. k)) = Some ''ZERO''
   \<and> map_option correct (renderNumToWordGame 0 (\<lambda>k. k + 5)) = Some ''FIVE''
   \<and> map_option correct (renderWordToNumGame 0 (\<lambda>k. k)) = Some 0
   \<and> map_option correct (renderWordToNumGame 0 (\<lambda>k. k + 5)) = Some 5
   \<and> map_option targetSequence (renderDaysGame (\<lambda>k. k))
       = Some [''Monday'', ''Tuesday'', ''Wednesday'', ''Thursday'']
   \<and> map_option targetSequence (renderDaysGame (\<lambda>k. k + 3))
       = Some [''Thursday'', ''Friday'', ''Saturday'', ''Sunday'']
   \<and> snd (renderHangmanGame 0) = None
   \<and> map fst (letterButtons (fst (renderHangmanGame 0))) = ''ABCDEFGHIJKLMNOPQRSTUVWXYZ''"
proof -
  have "drawn (\<lambda>rand. rand) 30 (\<lambda>k. k + 5) (Suc 0) (Suc (Suc (Suc 0))) - {5::nat} = {6, 7, 8}"
    by (auto simp: drawn_Suc drawn_0 randomInt_def)
  then have "3 \<le> card (drawn (\<lambda>rand. rand) (min 300 (20 + 0) + 10) (\<lambda>k. k + 5) 1
                          (Suc (Suc (Suc 0)))
             - {randomInt (\<lambda>k. k + 5) 0 (min 300 (20 + 0))})"
    by (simp add: randomInt_def)
  then have w: "renderWordToNumGame 0 (\<lambda>k. k + 5) \<noteq> None"
    using renderWordToNumGame_returns[of 0 "\<lambda>k. k + 5"] by blast
  have 4: "map_option correct (renderWordToNumGame 0 (\<lambda>k. k)) = Some 0"
    "map_option correct (renderWordToNumGame 0 (\<lambda>k. k + 5)) = Some 5"
    using renderWordToNumGame_correct[OF w] by (simp_all add: numerals_run randomInt_def)
  have a: "drawn toWords 30 (\<lambda>k. k) (Suc 0) (Suc (Suc (Suc 0))) - {''ZERO''}
            = {''ONE'', ''TWO'', ''THREE''}"
    by (auto simp: drawn_Suc drawn_0 randomInt_def number_words)
  have b: "drawn toWords 30 (\<lambda>k. k + 5) (Suc 0) (Suc (Suc (Suc 0))) - {''FIVE''}
            = {''SIX'', ''SEVEN'', ''EIGHT''}"
    by (auto simp: drawn_Suc drawn_0 randomInt_def number_words)
  have "3 \<le> card (drawn toWords (min 300 (20 + 0) + 10) (\<lambda>k. k) 1 (Suc (Suc (Suc 0)))
             - {toWords (randomInt (\<lambda>k. k) 0 (min 300 (20 + 0)))})"
    by (simp add: randomInt_def number_words a)
  then have 1: "renderNumToWordGame 0 (\<lambda>k. k) \<noteq> None"
    using renderNumToWordGame_returns[of 0 "\<lambda>k. k"] by blast
  have "3 \<le> card (drawn toWords (min 300 (20 + 0) + 10) (\<lambda>k. k + 5) 1 (Suc (Suc (Suc 0)))
             - {toWords (randomInt (\<lambda>k. k + 5) 0 (min 300 (20 + 0)))})"
    by (simp add: randomInt_def number_words b)
  then have 2: "renderNumToWordGame 0 (\<lambda>k. k + 5) \<noteq> None"
    using renderNumToWordGame_returns[of 0 "\<lambda>k. k + 5"] by blast
  have 3: "snd (renderHangmanGame 0) = None"
    "map fst (letterButtons (fst (renderHangmanGame 0))) = ''ABCDEFGHIJKLMNOPQRSTUVWXYZ''"
    by (simp_all add: renderHangmanGame_def updateHangmanUI_def words_def alphabet_def Let_def)
  show ?thesis
    using renderNumToWordGame_correct[OF 1] renderNumToWordGame_correct[OF 2] 3 4
      days_run(2,4)
    by (simp add: randomInt_def number_words)
qed

text \<open>
  Claim C1, amended, game type by game type.

  The seven category games, the translate game and the colour game: whenever the
  category or translate generator returns a challenge, its correct answer is that of the
  item at \<open>currentLevel mod library.length\<close>, it has four distinct options taken from the
  library, the correct one among them, and so exactly three distractors, none equal to
  the correct answer. The colour game always returns, with the name at
  \<open>currentLevel mod 5\<close> and three of the four fixed other names. The category and
  translate generators return whenever the library is not empty and the draws, up to
  some point, have picked three distinct texts other than the correct one.

  The two number games: whenever the generator returns a challenge, it has four distinct
  options, the correct one among them, and so exactly three distractors, none equal to
  the correct answer; the target is the number drawn first, below
  \<open>min 300 (20 + currentLevel)\<close>, not an item selected by the level.

  The grammar game: the item is the one at \<open>currentLevel mod 12\<close> of the grammar library,
  and the buttons of step 2 are its four options in some order: the correct form and
  exactly three others.

  The games without options: the letter game draws one slot for each letter of the
  answer at \<open>currentLevel mod 5\<close> of its pool, the sentence game targets the words of the
  item at \<open>currentLevel mod 15\<close> of the sentence library, and the hangman game takes the
  word at \<open>currentLevel mod 4\<close> of its own list of four. The days and months games are
  left out: they hide four positions drawn at random, whatever the level.
\<close>

theorem choice_generation:
  "(categoryChoiceGame library lvl rnd = Some (Inr c) \<longrightarrow>
      correct c = en (library ! (lvl mod length library))
      \<and> prompt c = fa (library ! (lvl mod length library))
      \<and> length (options c) = 4 \<and> distinct (options c) \<and> correct c \<in> set (options c)
      \<and> set (options c) \<subseteq> en ` set library
      \<and> length (distractors c) = 3 \<and> correct c \<notin> set (distractors c))
   \<and> (translateGame library lvl rnd = Some (Inr c) \<longrightarrow>
      correct c = fa (library ! (lvl mod length library))
      \<and> prompt c = en (library ! (lvl mod length library))
      \<and> length (options c) = 4 \<and> distinct (options c) \<and> correct c \<in> set (options c)
      \<and> set (options c) \<subseteq> fa ` set library
      \<and> length (distractors c) = 3 \<and> correct c \<notin> set (distractors c))
   \<and> (correct (renderColorsGame lvl rnd) = name (colors ! (lvl mod length colors))
      \<and> prompt (renderColorsGame lvl rnd) = hex (colors ! (lvl mod length colors))
      \<and> length (options (renderColorsGame lvl rnd)) = 4
      \<and> distinct (options (renderColorsGame lvl rnd))
      \<and> correct (renderColorsGame lvl rnd) \<in> set (options (renderColorsGame lvl rnd))
      \<and> set (distractors (renderColorsGame lvl rnd))
           \<subseteq> {''ORANGE'', ''BLACK'', ''WHITE'', ''BROWN''}
      \<and> length (distractors (renderColorsGame lvl rnd)) = 3
      \<and> correct (renderColorsGame lvl rnd) \<notin> set (distractors (renderColorsGame lvl rnd)))
   \<and> (library \<noteq> []
        \<and> (\<exists>m. 3 \<le> card (drawn (\<lambda>i. en (library ! i)) (length library) rnd 0 m
                           - {en (library ! (lvl mod length library))}))
      \<longrightarrow> (\<exists>c'. categoryChoiceGame library lvl rnd = Some (Inr c')))
   \<and> (library \<noteq> []
        \<and> (\<exists>m. 3 \<le> card (drawn (\<lambda>i. fa (library ! i)) (length library) rnd 0 m
                           - {fa (library ! (lvl mod length library))}))
      \<longrightarrow> (\<exists>c'. translateGame library lvl rnd = Some (Inr c')))
   \<and> (renderNumToWordGame lvl rnd = Some cn \<longrightarrow>
      correct cn = toWords (randomInt rnd 0 (min 300 (20 + lvl)))
      \<and> prompt cn = toString (Finite (of_nat (randomInt rnd 0 (min 300 (20 + lvl)))))
      \<and> length (options cn) = 4 \<and> distinct (options cn) \<and> correct cn \<in> set (options cn)
      \<and> set (options cn) \<subseteq> toWords ` {..<min 300 (20 + lvl) + 10}
      \<and> length (distractors cn) = 3 \<and> correct cn \<notin> set (distractors cn))
   \<and> (renderWordToNumGame lvl rnd = Some cw \<longrightarrow>
      correct cw = randomInt rnd 0 (min 300 (20 + lvl))
      \<and> prompt cw = toWords (randomInt rnd 0 (min 300 (20 + lvl)))
      \<and> length (options cw) = 4 \<and> distinct (options cw) \<and> correct cw \<in> set (options cw)
      \<and> set (options cw) \<subseteq> {..<min 300 (20 + lvl) + 10}
      \<and> length (distractors cw) = 3 \<and> correct cw \<notin> set (distractors cw))
   \<and> (currentGrammarData (renderGrammarGame lvl) = lib_grammar ! (lvl mod length lib_grammar)
      \<and> grammarStep (renderGrammarGame lvl) = 1
      \<and> updateGrammarUI rnd (renderGrammarGame lvl) = []
      \<and> length (updateGrammarUI rnd ((renderGrammarGame lvl)\<lparr>grammarStep := 2\<rparr>)) = 4
      \<and> distinct (updateGrammarUI rnd ((renderGrammarGame lvl)\<lparr>grammarStep := 2\<rparr>))
      \<and> set (updateGrammarUI rnd ((renderGrammarGame lvl)\<lparr>grammarStep := 2\<rparr>))
          = set (goptions (lib_grammar ! (lvl mod length lib_grammar)))
      \<and> gcorrect (lib_grammar ! (lvl mod length lib_grammar))
          \<in> set (updateGrammarUI rnd ((renderGrammarGame lvl)\<lparr>grammarStep := 2\<rparr>))
      \<and> length (filter (\<lambda>opt. opt \<noteq> gcorrect (lib_grammar ! (lvl mod length lib_grammar)))
                  (updateGrammarUI rnd ((renderGrammarGame lvl)\<lparr>grammarStep := 2\<rparr>))) = 3)
   \<and> (length (answerSlots (renderGuessGame lvl pool))
        = length (answer (guessPool ! (lvl mod length guessPool)))
      \<and> currentGuess (renderGuessGame lvl pool) = [])
   \<and> (targetSentence (renderSentenceGame lvl shuffled)
        = swords (lib_sentences ! (lvl mod length lib_sentences))
      \<and> constructedSentence (renderSentenceGame lvl shuffled) = [])
   \<and> hangmanWord (fst (renderHangmanGame lvl)) = word (words ! (lvl mod length words))"
proof -
  have A: "categoryChoiceGame library lvl rnd = Some (Inr c) \<longrightarrow>
      correct c = en (library ! (lvl mod length library))
      \<and> prompt c = fa (library ! (lvl mod length library))
      \<and> length (options c) = 4 \<and> distinct (options c) \<and> correct c \<in> set (options c)
      \<and> set (options c) \<subseteq> en ` set library
      \<and> length (distractors c) = 3 \<and> correct c \<notin> set (distractors c)"
    using categoryChoiceGame_props[of library lvl rnd c] by (rule impI)
  have B: "translateGame library lvl rnd = Some (Inr c) \<longrightarrow>
      correct c = fa (library ! (lvl mod length library))
      \<and> prompt c = en (library ! (lvl mod length library))
      \<and> length (options c) = 4 \<and> distinct (options c) \<and> correct c \<in> set (options c)
      \<and> set (options c) \<subseteq> fa ` set library
      \<and> length (distractors c) = 3 \<and> correct c \<notin> set (distractors c)"
    using translateGame_props[of library lvl rnd c] by (rule impI)
  note C = renderColorsGame_props[of lvl rnd]
  have D: "library \<noteq> []
        \<and> (\<exists>m. 3 \<le> card (drawn (\<lambda>i. en (library ! i)) (length library) rnd 0 m
                           - {en (library ! (lvl mod length library))}))
      \<longrightarrow> (\<exists>c'. categoryChoiceGame library lvl rnd = Some (Inr c'))"
    using categoryChoiceGame_returns(1)[of library lvl rnd] by blast
  have E: "library \<noteq> []
        \<and> (\<exists>m. 3 \<le> card (drawn (\<lambda>i. fa (library ! i)) (length library) rnd 0 m
                           - {fa (library ! (lvl mod length library))}))
      \<longrightarrow> (\<exists>c'. translateGame library lvl rnd = Some (Inr c'))"
    using translateGame_returns(1)[of library lvl rnd] by blast
  have F: "renderNumToWordGame lvl rnd = Some cn \<longrightarrow>
      correct cn = toWords (randomInt rnd 0 (min 300 (20 + lvl)))
      \<and> prompt cn = toString (Finite (of_nat (randomInt rnd 0 (min 300 (20 + lvl)))))
      \<and> length (options cn) = 4 \<and> distinct (options cn) \<and> correct cn \<in> set (options cn)
      \<and> set (options cn) \<subseteq> toWords ` {..<min 300 (20 + lvl) + 10}
      \<and> length (distractors cn) = 3 \<and> correct cn \<notin> set (distractors cn)"
    using renderNumToWordGame_props[of lvl rnd cn] by (rule impI)
  have G: "renderWordToNumGame lvl rnd = Some cw \<longrightarrow>
      correct cw = randomInt rnd 0 (min 300 (20 + lvl))
      \<and> prompt cw = toWords (randomInt rnd 0 (min 300 (20 + lvl)))
      \<and> length (options cw) = 4 \<and> distinct (options cw) \<and> correct cw \<in> set (options cw)
      \<and> set (options cw) \<subseteq> {..<min 300 (20 + lvl) + 10}
      \<and> length (distractors cw) = 3 \<and> correct cw \<notin> set (distractors cw)"
    using renderWordToNumGame_props[of lvl rnd cw] by (rule impI)
  note H = renderGrammarGame_props[of lvl rnd]
  note I = renderGuessGame_slots[of lvl pool]
  note J = renderSentenceGame_props[of lvl shuffled]
  note K = render_fields(1)[of lvl]
  show ?thesis
    by (rule conjI[OF A conjI[OF B conjI[OF C conjI[OF D conjI[OF E conjI[OF F
          conjI[OF G conjI[OF H conjI[OF I conjI[OF J K]]]]]]]]]])
qed

text \<open>Level 0 of the animal game with the draws \<open>0, 1, 2, ...\<close>, and the translate game
  and the two number games on the same draws.\<close>

theorem choice_generation_witness:
  "categoryChoiceGame lib_animals 0 (\<lambda>k. k)
     = Some (Inr \<lparr>prompt = ''06AF 0631 0628 0647'', correct = ''Cat'',
                  options = [''Dog'', ''Elephant'', ''Lion'', ''Cat'']\<rparr>)
   \<and> length (distractors \<lparr>prompt = ''06AF 0631 0628 0647'', correct = ''Cat'',
                  options = [''Dog'', ''Elephant'', ''Lion'', ''Cat'']\<rparr>) = 3
   \<and> ''Cat'' = en (lib_animals ! (0 mod length lib_animals))
   \<and> lib_translate \<noteq> []
   \<and> 3 \<le> card (drawn (\<lambda>i. fa (lib_translate ! i)) (length lib_translate) (\<lambda>k. k) 0 4
                 - {fa (lib_translate ! (0 mod length lib_translate))})
   \<and> (\<exists>c'. translateGame lib_translate 0 (\<lambda>k. k) = Some (Inr c'))
   \<and> (\<exists>c'. categoryChoiceGame lib_animals 0 (\<lambda>k. k) = Some (Inr c'))
   \<and> renderNumToWordGame 0 (\<lambda>k. k)
       = Some \<lparr>prompt = ''0'', correct = ''ZERO'',
               options = [''ONE'', ''THREE'', ''TWO'', ''ZERO'']\<rparr>
   \<and> length (distractors \<lparr>prompt = ''0'', correct = ''ZERO'',
               options = [''ONE'', ''THREE'', ''TWO'', ''ZERO'']\<rparr>) = 3
   \<and> renderWordToNumGame 0 (\<lambda>k. k)
       = Some \<lparr>prompt = ''ZERO'', correct = 0, options = [1, 3, 2, 0]\<rparr>
   \<and> length (distractors \<lparr>prompt = ''ZERO'', correct = 0::nat, options = [1, 3, 2, 0]\<rparr>) = 3"
proof -
  let ?cn = "\<lparr>prompt = ''0'', correct = ''ZERO'',
               options = [''ONE'', ''THREE'', ''TWO'', ''ZERO'']\<rparr>"
  let ?cw = "\<lparr>prompt = ''ZERO'', correct = 0::nat, options = [1, 3, 2, 0]\<rparr>"
  let ?c = "\<lparr>prompt = ''06AF 0631 0628 0647'', correct = ''Cat'',
                  options = [''Dog'', ''Elephant'', ''Lion'', ''Cat'']\<rparr>"
  note t = choice_generation[where library = lib_animals and lvl = 0 and rnd = "\<lambda>k. k"
      and c = ?c and cn = ?cn and cw = ?cw]
  note u = choice_generation[where library = lib_translate and lvl = 0 and rnd = "\<lambda>k. k"
      and c = ?c]
  from t numbers_run have 8: "length (distractors ?cn) = 3" by blast
  from t numerals_run have 9: "length (distractors ?cw) = 3" by blast
  from t animals_run have 1: "length (distractors ?c) = 3"
    and 2: "correct ?c = en (lib_animals ! (0 mod length lib_animals))" by blast+
  have a: "lib_animals \<noteq> []" "lib_translate \<noteq> []"
    using animals_first(7) translate_first(7) by auto
  have 3: "3 \<le> card (drawn (\<lambda>i. en (lib_animals ! i)) (length lib_animals) (\<lambda>k. k) 0 4
                 - {en (lib_animals ! (0 mod length lib_animals))})"
    unfolding animals_drawn by simp
  have 4: "3 \<le> card (drawn (\<lambda>i. fa (lib_translate ! i)) (length lib_translate) (\<lambda>k. k) 0 4
                 - {fa (lib_translate ! (0 mod length lib_translate))})"
    unfolding translate_drawn by simp
  from t a(1) 3 have 5: "\<exists>c'. categoryChoiceGame lib_animals 0 (\<lambda>k. k) = Some (Inr c')" by blast
  from u a(2) 4 have 6: "\<exists>c'. translateGame lib_translate 0 (\<lambda>k. k) = Some (Inr c')" by blast
  from 2 have 7: "''Cat'' = en (lib_animals ! (0 mod length lib_animals))" by simp
  from animals_run 1 7 a(2) 4 6 5 numbers_run 8 numerals_run 9 show ?thesis by blast
qed

subsection \<open>Termination of the option loop\<close>

text \<open>
  Claim C6 says that option generation always terminates, as a retry bounded by the
  corpus size. The loop has no bound: with draws that always give index 0 the animal
  game and the number game never leave it, and with draws that give index 0 forty-one
  times before 1, 2, 3 the loop over the forty animals returns only after 44 draws.
\<close>

theorem option_loop_counterexample:
  "categoryChoiceGame lib_animals 0 (\<lambda>k. 0) = None
   \<and> renderCategoryChoiceGame ''animals'' 0 (\<lambda>k. 0) = None
   \<and> renderNumToWordGame 0 (\<lambda>k. 0) = None
   \<and> length lib_animals = 40
   \<and> drawOptions (\<lambda>i. en (lib_animals ! i)) (length lib_animals) (\<lambda>k. k - 40) 0 [''Cat'']
       = Some ([''Cat'', ''Dog'', ''Lion'', ''Elephant''], 44)"
proof -
  have n: "lib_animals \<noteq> []" using animals_first(7) by auto
  have "drawOptions (\<lambda>i. en (lib_animals ! i)) (length lib_animals) (\<lambda>k. 0) 0
          [en (lib_animals ! (0 mod length lib_animals))] = None"
    by (rule constant_draws_starve)
  then have 1: "categoryChoiceGame lib_animals 0 (\<lambda>k. 0) = None"
    using n by (simp add: categoryChoiceGame_def)
  then have 2: "renderCategoryChoiceGame ''animals'' 0 (\<lambda>k. 0) = None"
    by (simp add: renderCategoryChoiceGame_def getVocabData_def)
  have "drawOptions toWords 30 (\<lambda>k. 0) 1 [toWords (0 mod 30)] = None"
    by (rule constant_draws_starve)
  then have 3: "renderNumToWordGame 0 (\<lambda>k. 0) = None"
    by (simp add: renderNumToWordGame_def randomInt_def)
  from 1 2 3 animals_first(7) late_run show ?thesis by blast
qed

text \<open>
  Claim C6, amended. The option loop is an unbounded rejection loop. For a non-empty
  library the category generator returns exactly when the draws, up to some point, have
  picked three distinct texts other than the correct one; so for a library with fewer
  than four distinct texts it returns for no draws at all, and for an empty library it
  throws before the loop. The number game returns under the same condition on its
  draws.
\<close>

theorem option_loop:
  "(library = [] \<longrightarrow> categoryChoiceGame library lvl rnd = Some (Inl TypeError))
   \<and> (library \<noteq> [] \<longrightarrow>
        (categoryChoiceGame library lvl rnd \<noteq> None \<longleftrightarrow>
           (\<exists>m. 3 \<le> card (drawn (\<lambda>i. en (library ! i)) (length library) rnd 0 m
                              - {en (library ! (lvl mod length library))}))))
   \<and> (library \<noteq> [] \<and> card (en ` set library) < 4 \<longrightarrow>
        categoryChoiceGame library lvl rnd = None)
   \<and> (renderNumToWordGame lvl rnd \<noteq> None \<longleftrightarrow>
        (\<exists>m. 3 \<le> card (drawn toWords (min 300 (20 + lvl) + 10) rnd 1 m
                           - {toWords (randomInt rnd 0 (min 300 (20 + lvl)))})))"
proof -
  have A: "library = [] \<longrightarrow> categoryChoiceGame library lvl rnd = Some (Inl TypeError)"
    by (simp add: categoryChoiceGame_def)
  have B: "library \<noteq> [] \<longrightarrow>
        (categoryChoiceGame library lvl rnd \<noteq> None \<longleftrightarrow>
           (\<exists>m. 3 \<le> card (drawn (\<lambda>i. en (library ! i)) (length library) rnd 0 m
                              - {en (library ! (lvl mod length library))})))"
    using categoryChoiceGame_returns[of library lvl rnd] by blast
  have C: "library \<noteq> [] \<and> card (en ` set library) < 4 \<longrightarrow>
        categoryChoiceGame library lvl rnd = None"
    using categoryChoiceGame_starves[of library lvl rnd] by blast
  note D = renderNumToWordGame_returns[of lvl rnd]
  show ?thesis
    by (rule conjI[OF A conjI[OF B conjI[OF C D]]])
qed

text \<open>The empty library, the first three animals, and all forty with the draws
  \<open>0, 1, 2, ...\<close>.\<close>

theorem option_loop_witness:
  "categoryChoiceGame [] 0 (\<lambda>k. k) = Some (Inl TypeError)
   \<and> take 3 lib_animals \<noteq> [] \<and> card (en ` set (take 3 lib_animals)) < 4
   \<and> categoryChoiceGame (take 3 lib_animals) 0 (\<lambda>k. k) = None
   \<and> lib_animals \<noteq> []
   \<and> categoryChoiceGame lib_animals 0 (\<lambda>k. k) \<noteq> None"
proof -
  have e: "([]::vocab list) = []" by simp
  have t3: "take 3 lib_animals \<noteq> [] \<and> card (en ` set (take 3 lib_animals)) < 4"
    by (simp add: lib_animals_def)
  have n: "lib_animals \<noteq> []" using animals_first(7) by auto
  have d: "\<exists>m. 3 \<le> card (drawn (\<lambda>i. en (lib_animals ! i)) (length lib_animals) (\<lambda>k. k) 0 m
                 - {en (lib_animals ! (0 mod length lib_animals))})"
    by (rule exI[of _ 4]) (simp only: animals_drawn, simp)
  from option_loop[of "[]" 0 "\<lambda>k. k"] e
  have 1: "categoryChoiceGame [] 0 (\<lambda>k. k) = Some (Inl TypeError)" by blast
  from option_loop[of "take 3 lib_animals" 0 "\<lambda>k. k"] t3
  have 2: "categoryChoiceGame (take 3 lib_animals) 0 (\<lambda>k. k) = None" by blast
  from option_loop[of lib_animals 0 "\<lambda>k. k"] n d
  have 3: "categoryChoiceGame lib_animals 0 (\<lambda>k. k) \<noteq> None" by blast
  from 1 2 3 t3 n show ?thesis by blast
qed

end
